theory Spec2Isabelle
  imports Main "HOL-Library.AList"
begin

section \<open>The myFT client: data model\<close>

text \<open>
  The client of \<^verbatim>\<open>src/lib/myFTClient.js\<close> talks to a remote relationship graph.
  Its configuration module (\<^verbatim>\<open>helpers/config\<close>) is read-only process state; the
  fields the client reads are the fields of this record.
\<close>

record config =
  MYFT_API_URL :: string
  BATCH_USER_COUNT :: nat
  BATCH_USER_CONCURRENCY :: nat
  MYFT_NO_EVENT :: string
  MYFT_WAIT_FOR_PURGE_ADD :: string
  FT_TOOL_ID :: string
  FT_TOOL_ADMIN_ID :: string

text \<open>
  The error classes of \<^verbatim>\<open>clientErrors\<close> that the client names, and the plain
  \<^verbatim>\<open>Error\<close> it constructs itself. Everything else a call can reject with (a transport
  failure, another status class) is \<open>OtherError\<close>. Every constructor is an instance of
  the JavaScript \<^verbatim>\<open>Error\<close>.
\<close>

datatype error =
    NotFoundError string
  | ClientError string
  | Error string
  | OtherError string

text \<open>
  A property bag (\<^verbatim>\<open>relProp\<close>, \<^verbatim>\<open>options\<close>) is a JavaScript object with string
  values: an association list in insertion order. \<^verbatim>\<open>Object.assign(target, source)\<close>
  writes the source's properties into the target one by one.
\<close>

type_synonym props = "(string \<times> string) list"

definition assign :: "props \<Rightarrow> props \<Rightarrow> props" where
  "assign target source = foldl (\<lambda>t (k, v). AList.update k v t) target source"

text \<open>
  A node-like record of the remote service (a concept, a user, a group): its \<^verbatim>\<open>uuid\<close>,
  the relationship tag \<^verbatim>\<open>_rel\<close> when it has one, and its remaining properties.
\<close>

record item =
  uuid :: string
  rel :: "props option"
  attrs :: "(string \<times> string) list"

text \<open>A subject identifier argument is \<^verbatim>\<open>String|Array\<close>.\<close>

datatype ids = One string | Many "string list"

text \<open>
  The \<^verbatim>\<open>data\<close> argument of a request: the paging parameters of a list read, the
  \<^verbatim>\<open>{subjects, ids}\<close> body of a batch chunk, or the body of a single relationship
  request (an array of objects, or one object).
\<close>

datatype data =
    PageParams (page: nat) (limit: nat)
  | ChunkData (subjects: "item list") (ids: ids)
  | Objects "item list"
  | Object item

text \<open>
  \<^verbatim>\<open>_doRelationshipRequest(method, theUrl, data, params)\<close> hands the transport a URL and
  options that it derives from its four arguments alone (with \<^verbatim>\<open>helpers.createParams\<close>);
  a request is recorded as these four arguments (\<open>http_method\<close> is the method). \<open>None\<close> is
  \<^verbatim>\<open>undefined\<close>.
\<close>

record request =
  http_method :: string
  url :: string
  data :: "data option"
  params :: "props option"

section \<open>Request builder\<close>

text \<open>\<^verbatim>\<open>_createAndTriggerRelationshipRequest\<close>: the URL it builds, step by step.\<close>

definition relationship_url ::
  "config \<Rightarrow> string \<Rightarrow> string option \<Rightarrow> string option \<Rightarrow> string option \<Rightarrow> string option \<Rightarrow> string" where
  "relationship_url cfg node nodeId relationship relatedNode relatedNodeId =
     (let theUrl = MYFT_API_URL cfg @ ''/'' @ node;
          theUrl = (case nodeId of Some v \<Rightarrow> theUrl @ ''/'' @ v | None \<Rightarrow> theUrl);
          theUrl = (case relationship of Some v \<Rightarrow> theUrl @ ''/'' @ v | None \<Rightarrow> theUrl);
          theUrl = (case relatedNode of Some v \<Rightarrow> theUrl @ ''/'' @ v | None \<Rightarrow> theUrl);
          theUrl = (case relatedNodeId of Some v \<Rightarrow> theUrl @ ''/'' @ v | None \<Rightarrow> theUrl)
      in theUrl)"

text \<open>
  The components that are not \<^verbatim>\<open>undefined\<close>, in the order of the parameter list, and
  the path segments of a URL below the base: the pieces between its slashes.
\<close>

definition present :: "string option list \<Rightarrow> string list" where
  "present cs = concat (map (\<lambda>c. case c of Some v \<Rightarrow> [v] | None \<Rightarrow> []) cs)"

fun split_on :: "char \<Rightarrow> string \<Rightarrow> string list" where
  "split_on c [] = [[]]"
| "split_on c (x # xs) =
     (if x = c then [] # split_on c xs
      else (case split_on c xs of s # ss \<Rightarrow> (x # s) # ss | [] \<Rightarrow> [[x]]))"

definition path_segments :: "config \<Rightarrow> string \<Rightarrow> string list" where
  "path_segments cfg theUrl = tl (split_on CHR ''/'' (drop (length (MYFT_API_URL cfg)) theUrl))"

section \<open>Transport, parsing and effects\<close>

text \<open>
  A JavaScript string is a sequence of UTF-16 code units. The \<^verbatim>\<open>total\<close> of a list
  response is whatever value the remote service sent (\<open>JUndefined\<close> when the property is
  absent). The client reads it through \<^verbatim>\<open>!!\<close> and \<^verbatim>\<open>parseInt\<close> only, and both
  read no more of a number, an array or an object than the string that \<^verbatim>\<open>String\<close>
  gives for it: \<open>JNumber\<close> and \<open>JObject\<close> carry that string (\<^verbatim>\<open>1000\<close>,
  \<^verbatim>\<open>1000.7\<close>, \<^verbatim>\<open>1e+21\<close> for numbers), \<open>JString\<close> the string itself.
\<close>

type_synonym code_units = "nat list"

definition units_of :: "string \<Rightarrow> code_units" where
  "units_of s = map of_char s"

datatype jsval =
    JUndefined
  | JNull
  | JBool bool
  | JNumber code_units
  | JString code_units
  | JObject code_units

text \<open>
  A parsed response body, as far as the client reads it: \<open>items\<close> is \<open>Some\<close> exactly
  when \<^verbatim>\<open>Array.isArray(response.items)\<close>; \<open>content\<close> is the rest of the body.
\<close>

record parsed =
  items :: "item list option"
  total :: jsval
  content :: string

text \<open>
  What the client needs from outside \<^verbatim>\<open>src/\<close>: the transport \<^verbatim>\<open>fetch\<close>, which
  resolves with a raw response or rejects; \<^verbatim>\<open>helpers.parseJsonRes\<close>, which turns a raw
  response into its parsed body or throws the error of its status class; and
  \<^verbatim>\<open>kinesis.write\<close>. They are parameters of every operation.
\<close>

record 'r env =
  fetch :: "request \<Rightarrow> error + 'r"
  parseJsonRes :: "'r \<Rightarrow> error + parsed"
  kinesis_write :: "string \<Rightarrow> string \<Rightarrow> item list \<Rightarrow> error + unit"

text \<open>
  The calls that leave the client, in the order they are issued. A promise is modelled
  by its outcome and the calls issued on the way: \<open>Inl\<close> is a rejection, \<open>Inr\<close> a
  resolution, \<open>None\<close> a promise that never settles.
\<close>

datatype effect = Request request | KinesisWrite string string "item list"

type_synonym 'a promise = "((error + 'a) \<times> effect list) option"

definition resolve :: "'a \<Rightarrow> 'a promise" where
  "resolve v = Some (Inr v, [])"

definition reject :: "error \<Rightarrow> 'a promise" where
  "reject err = Some (Inl err, [])"

definition then_p :: "'a promise \<Rightarrow> ('a \<Rightarrow> 'b promise) \<Rightarrow> 'b promise" where
  "then_p p f =
     (case p of
        None \<Rightarrow> None
      | Some (Inl err, log) \<Rightarrow> Some (Inl err, log)
      | Some (Inr v, log) \<Rightarrow>
          (case f v of None \<Rightarrow> None | Some (r, log') \<Rightarrow> Some (r, log @ log')))"

definition catch_p :: "'a promise \<Rightarrow> (error \<Rightarrow> 'a promise) \<Rightarrow> 'a promise" where
  "catch_p p h =
     (case p of
        None \<Rightarrow> None
      | Some (Inr v, log) \<Rightarrow> Some (Inr v, log)
      | Some (Inl err, log) \<Rightarrow>
          (case h err of None \<Rightarrow> None | Some (r, log') \<Rightarrow> Some (r, log @ log')))"

text \<open>\<^verbatim>\<open>.then(helpers.parseJsonRes)\<close> on a raw response.\<close>

definition parse_p :: "'r env \<Rightarrow> 'r promise \<Rightarrow> parsed promise" where
  "parse_p env p = then_p p (\<lambda>res. Some (parseJsonRes env res, []))"

definition doRelationshipRequest ::
  "'r env \<Rightarrow> string \<Rightarrow> string \<Rightarrow> data option \<Rightarrow> props option \<Rightarrow> 'r promise" where
  "doRelationshipRequest env meth theUrl dat prms =
     (let req = \<lparr>http_method = meth, url = theUrl, data = dat, params = prms\<rparr>
      in Some (fetch env req, [Request req]))"

definition createAndTriggerRelationshipRequest ::
  "'r env \<Rightarrow> config \<Rightarrow> string \<Rightarrow> string \<Rightarrow> string option \<Rightarrow> string option \<Rightarrow> string option
     \<Rightarrow> string option \<Rightarrow> data option \<Rightarrow> props option \<Rightarrow> 'r promise" where
  "createAndTriggerRelationshipRequest env cfg meth node nodeId relationship relatedNode relatedNodeId dat prms =
     doRelationshipRequest env meth
       (relationship_url cfg node nodeId relationship relatedNode relatedNodeId) dat prms"

section \<open>Pagination aggregator\<close>

text \<open>
  \<^verbatim>\<open>!!response.total\<close>: a number is falsy when it is zero or \<^verbatim>\<open>NaN\<close>, which are
  the numbers printed as \<^verbatim>\<open>0\<close> and \<^verbatim>\<open>NaN\<close>; a string when it is empty; an
  array or an object never.
\<close>

fun truthy :: "jsval \<Rightarrow> bool" where
  "truthy JUndefined = False"
| "truthy JNull = False"
| "truthy (JBool b) = b"
| "truthy (JNumber t) = (t \<noteq> units_of ''0'' \<and> t \<noteq> units_of ''NaN'')"
| "truthy (JString t) = (t \<noteq> [])"
| "truthy (JObject t) = True"

text \<open>
  \<^verbatim>\<open>parseInt(response.total, 10)\<close>: \<open>None\<close> is \<^verbatim>\<open>NaN\<close>. \<^verbatim>\<open>parseInt\<close> converts
  its argument to a string, skips the leading white space (the white space and line
  terminator code points of ECMAScript), reads an optional sign and then the longest
  run of decimal digits; without a digit the result is \<^verbatim>\<open>NaN\<close>. The value read is
  the exact integer: JavaScript rounds it to a double, which is the same number below
  \<open>2 ^ 53\<close>.
\<close>

fun ToString :: "jsval \<Rightarrow> code_units" where
  "ToString JUndefined = units_of ''undefined''"
| "ToString JNull = units_of ''null''"
| "ToString (JBool b) = (if b then units_of ''true'' else units_of ''false'')"
| "ToString (JNumber t) = t"
| "ToString (JString t) = t"
| "ToString (JObject t) = t"

definition is_space :: "nat \<Rightarrow> bool" where
  "is_space u =
     (u \<in> set [0x0009, 0x000A, 0x000B, 0x000C, 0x000D, 0x0020, 0x00A0, 0x1680, 0x2028, 0x2029,
               0x202F, 0x205F, 0x3000, 0xFEFF] \<or>
      (0x2000 \<le> u \<and> u \<le> 0x200A))"

definition is_digit :: "nat \<Rightarrow> bool" where
  "is_digit u = (48 \<le> u \<and> u \<le> 57)"

definition digit_val :: "nat \<Rightarrow> int" where
  "digit_val u = int u - 48"

definition parseInt_string :: "code_units \<Rightarrow> int option" where
  "parseInt_string s =
     (let t = dropWhile is_space s;
          sign = (case t of c # r \<Rightarrow> (if c = 45 then - 1 else 1) | [] \<Rightarrow> 1);
          u = (case t of c # r \<Rightarrow> (if c = 45 \<or> c = 43 then r else t) | [] \<Rightarrow> t);
          ds = takeWhile is_digit u
      in if ds = [] then None else Some (sign * foldl (\<lambda>a d. 10 * a + digit_val d) 0 ds))"

definition parseInt :: "jsval \<Rightarrow> int option" where
  "parseInt v = parseInt_string (ToString v)"

text \<open>
  The guard of line 68, at the current page number and \<^verbatim>\<open>params.limit\<close>; a comparison
  with \<^verbatim>\<open>NaN\<close> is false.
\<close>

definition more_pages :: "nat \<Rightarrow> nat \<Rightarrow> parsed \<Rightarrow> bool" where
  "more_pages pg lim response =
     (truthy (total response) \<and>
      (case parseInt (total response) of Some t \<Rightarrow> int (pg * lim) < t | None \<Rightarrow> False))"

text \<open>
  \<^verbatim>\<open>thenFn\<close> of \<^verbatim>\<open>_getAllNodeItems\<close>. The closure variables \<^verbatim>\<open>params.page\<close> and
  \<^verbatim>\<open>allItems\<close> are arguments, and \<open>log\<close> holds the requests issued so far. The
  page number and its product with the limit are natural numbers, as JavaScript's are
  while the product is below \<open>2 ^ 53\<close>. The
  recursion is bounded by nothing but the responses, so a run that never stops
  requesting is \<open>None\<close>.
\<close>

partial_function (option) thenFn ::
  "'r env \<Rightarrow> config \<Rightarrow> string \<Rightarrow> string \<Rightarrow> string \<Rightarrow> string \<Rightarrow> nat \<Rightarrow> item list \<Rightarrow> effect list
     \<Rightarrow> parsed \<Rightarrow> item list promise" where
  "thenFn env cfg node nodeId relationship relatedNode pg allItems log response =
     (case items response of
        Some its \<Rightarrow>
          (if more_pages pg 500 response then
             (case parse_p env (createAndTriggerRelationshipRequest env cfg ''GET'' node (Some nodeId)
                       (Some relationship) (Some relatedNode) None (Some (PageParams (pg + 1) 500)) None) of
                None \<Rightarrow> None
              | Some (Inl err, log') \<Rightarrow> Some (Inl err, log @ log')
              | Some (Inr response', log') \<Rightarrow>
                  thenFn env cfg node nodeId relationship relatedNode (pg + 1) (allItems @ its)
                    (log @ log') response')
           else Some (Inr (allItems @ its), log))
      | None \<Rightarrow> Some (Inr allItems, log))"

definition getAllNodeItems ::
  "'r env \<Rightarrow> config \<Rightarrow> string \<Rightarrow> string \<Rightarrow> string \<Rightarrow> string \<Rightarrow> item list promise" where
  "getAllNodeItems env cfg node nodeId relationship relatedNode =
     (case parse_p env (createAndTriggerRelationshipRequest env cfg ''GET'' node (Some nodeId)
               (Some relationship) (Some relatedNode) None (Some (PageParams 1 500)) None) of
        None \<Rightarrow> None
      | Some (Inl err, log) \<Rightarrow> Some (Inl err, log)
      | Some (Inr response, log) \<Rightarrow>
          thenFn env cfg node nodeId relationship relatedNode 1 [] log response)"

definition getConceptsFollowedByUser :: "'r env \<Rightarrow> config \<Rightarrow> string \<Rightarrow> item list promise" where
  "getConceptsFollowedByUser env cfg uid = getAllNodeItems env cfg ''user'' uid ''followed'' ''concept''"

definition getConceptsFollowedByGroup :: "'r env \<Rightarrow> config \<Rightarrow> string \<Rightarrow> item list promise" where
  "getConceptsFollowedByGroup env cfg uid = getAllNodeItems env cfg ''group'' uid ''followed'' ''concept''"

definition getGroupsForLicence :: "'r env \<Rightarrow> config \<Rightarrow> string \<Rightarrow> item list promise" where
  "getGroupsForLicence env cfg uid = getAllNodeItems env cfg ''license'' uid ''member'' ''group''"

definition getUsersForLicence :: "'r env \<Rightarrow> config \<Rightarrow> string \<Rightarrow> item list promise" where
  "getUsersForLicence env cfg uid = getAllNodeItems env cfg ''license'' uid ''member'' ''user''"

definition getUsersForGroup :: "'r env \<Rightarrow> config \<Rightarrow> string \<Rightarrow> item list promise" where
  "getUsersForGroup env cfg uid = getAllNodeItems env cfg ''group'' uid ''member'' ''user''"

section \<open>Relationship requests and the batch engine\<close>

text \<open>The module-level property bags (lines 29 to 35).\<close>

definition relationshipProperties :: "config \<Rightarrow> props" where
  "relationshipProperties cfg = [(''byTool'', FT_TOOL_ID cfg), (''byUser'', FT_TOOL_ADMIN_ID cfg)]"

definition followedProperties :: "config \<Rightarrow> props" where
  "followedProperties cfg = assign [] (relationshipProperties cfg)"

definition digestProperties :: "config \<Rightarrow> props" where
  "digestProperties cfg =
     assign [(''type'', ''daily''), (''timezone'', ''Europe/London'')] (relationshipProperties cfg)"

text \<open>
  The query parameters of a mutation: the configured defaults, overwritten by the
  caller's \<^verbatim>\<open>options\<close> when there are any.
\<close>

definition mutation_params :: "config \<Rightarrow> props option \<Rightarrow> props" where
  "mutation_params cfg options =
     assign [(''noEvent'', MYFT_NO_EVENT cfg), (''waitForPurge'', MYFT_WAIT_FOR_PURGE_ADD cfg)]
       (case options of Some opts \<Rightarrow> opts | None \<Rightarrow> [])"

text \<open>\<^verbatim>\<open>_addRemoveRelationships\<close>: one request, resolving with the raw response.\<close>

definition addRemoveRelationships ::
  "'r env \<Rightarrow> config \<Rightarrow> string \<Rightarrow> string \<Rightarrow> string \<Rightarrow> string \<Rightarrow> string \<Rightarrow> ids \<Rightarrow> props option
     \<Rightarrow> props option \<Rightarrow> 'r promise" where
  "addRemoveRelationships env cfg meth node nodeId rl relType relIds relProp options =
     (let prms = mutation_params cfg options;
          body = (case relIds of
                    Many uuids \<Rightarrow> Objects (map (\<lambda>u. \<lparr>uuid = u, rel = relProp, attrs = []\<rparr>) uuids)
                  | One u \<Rightarrow> Object \<lparr>uuid = u, rel = relProp, attrs = []\<rparr>)
      in createAndTriggerRelationshipRequest env cfg meth node (Some nodeId) (Some rl) (Some relType)
           None (Some body) (Some prms))"

text \<open>
  The chunking loop of \<^verbatim>\<open>_multiAddRemoveRelationships\<close> (lines 350 to 352):
  \<^verbatim>\<open>splice(0, n)\<close> removes and returns the first \<open>n\<close> elements, or all of them when
  there are fewer. With \<open>n = 0\<close> it removes nothing and the loop never ends.
\<close>

partial_function (option) chunk_loop :: "nat \<Rightarrow> string list \<Rightarrow> ids list \<Rightarrow> ids list option" where
  "chunk_loop n idsClone idChunks =
     (if length idsClone \<noteq> 0
      then chunk_loop n (drop n idsClone) (idChunks @ [Many (take n idsClone)])
      else Some idChunks)"

definition idChunks_of :: "config \<Rightarrow> ids \<Rightarrow> ids list option" where
  "idChunks_of cfg nodeId =
     (case nodeId of
        Many xs \<Rightarrow> chunk_loop (BATCH_USER_COUNT cfg) xs []
      | One x \<Rightarrow> Some [One x])"

text \<open>
  The outcome of one chunk: the parsed response, or the error that the chunk's
  \<^verbatim>\<open>catch\<close> handler returns as a value. \<^verbatim>\<open>res instanceof Error\<close> holds for the
  second kind only.
\<close>

datatype outcome = Resolved parsed | Captured error

fun instanceof_Error :: "outcome \<Rightarrow> bool" where
  "instanceof_Error (Captured err) = True"
| "instanceof_Error (Resolved res) = False"

text \<open>
  The handler of lines 381 to 395. When no result is a success, \<^verbatim>\<open>results[0]\<close> of a
  one-element list is a captured error, and that error is thrown.
\<close>

definition generic_message :: string where
  "generic_message = ''An error has occurred while processing your request.''"

definition aggregate :: "outcome list \<Rightarrow> error + outcome list" where
  "aggregate results =
     (let notAllErrors = list_ex (\<lambda>res. instanceof_Error res = False) results
      in if notAllErrors = False then
           (case results of
              [Captured err] \<Rightarrow> Inl err
            | _ \<Rightarrow> Inl (ClientError generic_message))
         else Inr results)"

text \<open>The body and the request of one chunk, and the chunk's outcome (lines 357 to 379).\<close>

definition partial_subjects :: "item list \<Rightarrow> props option \<Rightarrow> item list" where
  "partial_subjects relIds relProp =
     map (\<lambda>item. (case relProp of Some p \<Rightarrow> item\<lparr>rel := Some p\<rparr> | None \<Rightarrow> item)) relIds"

definition chunk_request ::
  "'r env \<Rightarrow> config \<Rightarrow> string \<Rightarrow> string \<Rightarrow> string \<Rightarrow> string \<Rightarrow> item list \<Rightarrow> props option
     \<Rightarrow> props option \<Rightarrow> ids \<Rightarrow> outcome promise" where
  "chunk_request env cfg meth node rl relType relIds relProp options chunk =
     (let chunkData = ChunkData (partial_subjects relIds relProp) chunk
      in catch_p
           (then_p
              (parse_p env (createAndTriggerRelationshipRequest env cfg meth node None (Some rl)
                 (Some relType) None (Some chunkData) (Some (mutation_params cfg options))))
              (\<lambda>res. resolve (Resolved res)))
           (\<lambda>err. resolve (Captured err)))"

text \<open>
  Modelled from the spec: \<^verbatim>\<open>Promise.map\<close> is Bluebird's and not under
  \<^verbatim>\<open>src/\<close>. By section 5 of the spec the chunks are dispatched in their order, they
  complete in any order, and the outcomes are collected by chunk position, not by
  completion time. So the mapper is called on every element; \<open>order\<close> lists the
  indices of the mapped promises in the order in which they settle (an index that is
  not listed never settles); each value is stored at the index of its element; the
  first rejection rejects the whole; and the whole resolves once every value is there.
  The limit \<open>BATCH_USER_CONCURRENCY\<close> delays calls of the mapper and has no part in
  the values. The log lists the calls of the mapper by position: in which order
  Bluebird starts them is not in the source.
\<close>

fun gather :: "nat list \<Rightarrow> (error + 'b) option list \<Rightarrow> 'b option list \<Rightarrow> error + 'b option list" where
  "gather [] settled values = Inr values"
| "gather (i # order) settled values =
     (if i < length settled then
        (case settled ! i of
           Some (Inl err) \<Rightarrow> Inl err
         | Some (Inr v) \<Rightarrow> gather order settled (values[i := Some v])
         | None \<Rightarrow> gather order settled values)
      else gather order settled values)"

definition Promise_map :: "nat list \<Rightarrow> ('a \<Rightarrow> 'b promise) \<Rightarrow> 'a list \<Rightarrow> 'b list promise" where
  "Promise_map order mapper xs =
     (let promises = map mapper xs;
          log = concat (map (\<lambda>p. case p of Some (r, l) \<Rightarrow> l | None \<Rightarrow> []) promises)
      in case gather order (map (map_option fst) promises) (replicate (length xs) None) of
           Inl err \<Rightarrow> Some (Inl err, log)
         | Inr values \<Rightarrow>
             if list_all (\<lambda>v. v \<noteq> None) values then Some (Inr (map the values), log) else None)"

text \<open>
  \<^verbatim>\<open>_multiAddRemoveRelationships\<close>, under a schedule: \<open>schedule n\<close> is the order in
  which the requests of \<open>n\<close> chunks settle. The operations built on the engine are
  written at the schedule that settles the chunks in their order.
\<close>

definition multiAddRemoveRelationships_under ::
  "(nat \<Rightarrow> nat list) \<Rightarrow> 'r env \<Rightarrow> config \<Rightarrow> string \<Rightarrow> string \<Rightarrow> ids \<Rightarrow> string \<Rightarrow> string \<Rightarrow> item list
     \<Rightarrow> props option \<Rightarrow> props option \<Rightarrow> outcome list promise" where
  "multiAddRemoveRelationships_under schedule env cfg meth node nodeId rl relType relIds relProp options =
     (case idChunks_of cfg nodeId of
        None \<Rightarrow> None
      | Some idChunks \<Rightarrow>
          then_p (Promise_map (schedule (length idChunks))
                    (chunk_request env cfg meth node rl relType relIds relProp options) idChunks)
            (\<lambda>results. Some (aggregate results, [])))"

definition multiAddRemoveRelationships ::
  "'r env \<Rightarrow> config \<Rightarrow> string \<Rightarrow> string \<Rightarrow> ids \<Rightarrow> string \<Rightarrow> string \<Rightarrow> item list \<Rightarrow> props option
     \<Rightarrow> props option \<Rightarrow> outcome list promise" where
  "multiAddRemoveRelationships =
     multiAddRemoveRelationships_under (\<lambda>n. [0..<n])"

section \<open>Relationship operations\<close>

text \<open>
  What a public operation resolves with: the raw response of the transport, a parsed
  body, or the list of chunk outcomes of the batch engine.
\<close>

datatype 'r resolved = Raw 'r | Parsed parsed | Outcomes "outcome list"

definition addRemoveUsers ::
  "'r env \<Rightarrow> config \<Rightarrow> string \<Rightarrow> string \<Rightarrow> string \<Rightarrow> ids \<Rightarrow> props option \<Rightarrow> props option \<Rightarrow> bool
     \<Rightarrow> 'r resolved promise" where
  "addRemoveUsers env cfg meth node nodeId userIds relProp options noResultParse =
     (let thePromise = addRemoveRelationships env cfg meth node nodeId ''member'' ''user'' userIds relProp options
      in if noResultParse \<noteq> True
         then then_p (parse_p env thePromise) (\<lambda>res. resolve (Parsed res))
         else then_p thePromise (\<lambda>res. resolve (Raw res)))"

definition addRemoveGroups ::
  "'r env \<Rightarrow> config \<Rightarrow> string \<Rightarrow> string \<Rightarrow> ids \<Rightarrow> props option \<Rightarrow> props option \<Rightarrow> bool
     \<Rightarrow> 'r resolved promise" where
  "addRemoveGroups env cfg meth licenseId groupIds relProp options noResultParse =
     (let thePromise = addRemoveRelationships env cfg meth ''license'' licenseId ''member'' ''group'' groupIds relProp options
      in if noResultParse \<noteq> True
         then then_p (parse_p env thePromise) (\<lambda>res. resolve (Parsed res))
         else then_p thePromise (\<lambda>res. resolve (Raw res)))"

definition addRemoveConceptsFollowed ::
  "'r env \<Rightarrow> config \<Rightarrow> string \<Rightarrow> string \<Rightarrow> ids \<Rightarrow> item list \<Rightarrow> props option \<Rightarrow> 'r resolved promise" where
  "addRemoveConceptsFollowed env cfg meth node nodeId newConceptsToFollow followProps =
     then_p (multiAddRemoveRelationships env cfg meth node nodeId ''followed'' ''concept''
               newConceptsToFollow followProps None)
       (\<lambda>results. resolve (Outcomes results))"

definition removeConceptsFollowedByNode ::
  "'r env \<Rightarrow> config \<Rightarrow> string \<Rightarrow> string \<Rightarrow> ids \<Rightarrow> bool \<Rightarrow> 'r resolved promise" where
  "removeConceptsFollowedByNode env cfg node nodeUUID conceptUUIDs noResultParse =
     (let thePromise = addRemoveRelationships env cfg ''DELETE'' node nodeUUID ''followed'' ''concept'' conceptUUIDs None None
      in if noResultParse \<noteq> True
         then then_p (parse_p env thePromise) (\<lambda>res. resolve (Parsed res))
         else then_p thePromise (\<lambda>res. resolve (Raw res)))"

definition addUsersToLicence ::
  "'r env \<Rightarrow> config \<Rightarrow> string \<Rightarrow> ids \<Rightarrow> props option \<Rightarrow> props option \<Rightarrow> 'r resolved promise" where
  "addUsersToLicence env cfg licenceUUID userUUIDs relProps options =
     addRemoveUsers env cfg ''POST'' ''license'' licenceUUID userUUIDs relProps options False"

definition removeUsersFromLicence ::
  "'r env \<Rightarrow> config \<Rightarrow> string \<Rightarrow> ids \<Rightarrow> props option \<Rightarrow> 'r resolved promise" where
  "removeUsersFromLicence env cfg licenceUUID userUUIDs options =
     addRemoveUsers env cfg ''DELETE'' ''license'' licenceUUID userUUIDs None options True"

definition addUsersToGroup ::
  "'r env \<Rightarrow> config \<Rightarrow> string \<Rightarrow> ids \<Rightarrow> props option \<Rightarrow> props option \<Rightarrow> 'r resolved promise" where
  "addUsersToGroup env cfg groupUUID userUUIDs relProps options =
     addRemoveUsers env cfg ''POST'' ''group'' groupUUID userUUIDs relProps options False"

definition removeUsersFromGroup ::
  "'r env \<Rightarrow> config \<Rightarrow> string \<Rightarrow> ids \<Rightarrow> props option \<Rightarrow> 'r resolved promise" where
  "removeUsersFromGroup env cfg groupUUID userUUIDs options =
     addRemoveUsers env cfg ''DELETE'' ''group'' groupUUID userUUIDs None options True"

definition addGroupsToLicence ::
  "'r env \<Rightarrow> config \<Rightarrow> string \<Rightarrow> ids \<Rightarrow> props option \<Rightarrow> props option \<Rightarrow> 'r resolved promise" where
  "addGroupsToLicence env cfg licenceUUID groupUUIDs relProps options =
     addRemoveGroups env cfg ''POST'' licenceUUID groupUUIDs relProps options False"

definition removeGroupsFromLicence ::
  "'r env \<Rightarrow> config \<Rightarrow> string \<Rightarrow> ids \<Rightarrow> props option \<Rightarrow> 'r resolved promise" where
  "removeGroupsFromLicence env cfg licenceUUID groupUUIDs options =
     addRemoveGroups env cfg ''DELETE'' licenceUUID groupUUIDs None options True"

definition addConceptsFollowedByUser ::
  "'r env \<Rightarrow> config \<Rightarrow> ids \<Rightarrow> item list \<Rightarrow> props option \<Rightarrow> 'r resolved promise" where
  "addConceptsFollowedByUser env cfg userUUID conceptUUIDs relProps =
     addRemoveConceptsFollowed env cfg ''POST'' ''user'' userUUID conceptUUIDs relProps"

definition addConceptsFollowedByGroup ::
  "'r env \<Rightarrow> config \<Rightarrow> ids \<Rightarrow> item list \<Rightarrow> props option \<Rightarrow> 'r resolved promise" where
  "addConceptsFollowedByGroup env cfg groupUUID conceptUUIDs relProps =
     addRemoveConceptsFollowed env cfg ''POST'' ''group'' groupUUID conceptUUIDs relProps"

definition removeConceptsFollowedByGroup :: "'r env \<Rightarrow> config \<Rightarrow> string \<Rightarrow> ids \<Rightarrow> 'r resolved promise" where
  "removeConceptsFollowedByGroup env cfg groupUUID conceptUUIDs =
     removeConceptsFollowedByNode env cfg ''group'' groupUUID conceptUUIDs True"

definition removeConceptsFollowedByUser :: "'r env \<Rightarrow> config \<Rightarrow> string \<Rightarrow> ids \<Rightarrow> 'r resolved promise" where
  "removeConceptsFollowedByUser env cfg userUUID conceptUUIDs =
     removeConceptsFollowedByNode env cfg ''user'' userUUID conceptUUIDs True"

definition getEmailDigestPreference :: "'r env \<Rightarrow> config \<Rightarrow> string \<Rightarrow> 'r resolved promise" where
  "getEmailDigestPreference env cfg uid =
     then_p (parse_p env (createAndTriggerRelationshipRequest env cfg ''GET'' ''user'' (Some uid)
               (Some ''preferred'') (Some ''preference'') (Some ''email-digest'') None None))
       (\<lambda>res. resolve (Parsed res))"

definition setEmailDigestPreference ::
  "'r env \<Rightarrow> config \<Rightarrow> ids \<Rightarrow> props \<Rightarrow> props option \<Rightarrow> 'r resolved promise" where
  "setEmailDigestPreference env cfg uid preference options =
     then_p (multiAddRemoveRelationships env cfg ''POST'' ''user'' uid ''preferred'' ''preference''
               [\<lparr>uuid = ''email-digest'', rel = None, attrs = []\<rparr>] (Some preference) options)
       (\<lambda>results. resolve (Outcomes results))"

section \<open>Synchronization workflow\<close>

text \<open>The object \<^verbatim>\<open>{user: {uuid, group, status, reason, newConceptsToFollow}}\<close>.\<close>

record sync_result =
  user_uuid :: string
  group :: string
  status :: string
  reason :: "string option"
  newConceptsToFollow :: "item list option"

definition kinesis_write_p :: "'r env \<Rightarrow> string \<Rightarrow> string \<Rightarrow> item list \<Rightarrow> unit promise" where
  "kinesis_write_p env uid kind concepts =
     Some (kinesis_write env uid kind concepts, [KinesisWrite uid kind concepts])"

text \<open>
  \<^verbatim>\<open>syncUserFollowers\<close>, one definition per handler of its promise chain, innermost
  first. The aggregator resolves with its accumulator, which is an array, so both
  \<^verbatim>\<open>Array.isArray\<close> guards of the workflow hold whenever they are reached.
\<close>

definition absorb_not_found :: "error \<Rightarrow> item list promise" where
  "absorb_not_found err = (case err of NotFoundError m \<Rightarrow> resolve [] | _ \<Rightarrow> reject err)"

definition ensure_preference :: "'r env \<Rightarrow> config \<Rightarrow> string \<Rightarrow> 'r resolved promise" where
  "ensure_preference env cfg userId =
     catch_p (getEmailDigestPreference env cfg userId)
       (\<lambda>err. case err of
                 NotFoundError m \<Rightarrow> setEmailDigestPreference env cfg (One userId) (digestProperties cfg) None
               | _ \<Rightarrow> reject err)"

definition follow_new_concepts ::
  "'r env \<Rightarrow> config \<Rightarrow> string \<Rightarrow> string \<Rightarrow> item list \<Rightarrow> sync_result promise" where
  "follow_new_concepts env cfg groupId userId newConcepts =
     (let followProps = AList.update ''asMemberOf'' groupId (assign [] (followedProperties cfg))
      in then_p
           (then_p
              (then_p
                 (addConceptsFollowedByUser env cfg (One userId) newConcepts (Some followProps))
                 (\<lambda>_. ensure_preference env cfg userId))
              (\<lambda>_. let cleanConcepts = map (\<lambda>item. item\<lparr>rel := None\<rparr>) newConcepts
                    in kinesis_write_p env userId ''subscribe'' cleanConcepts))
           (\<lambda>_. resolve \<lparr>user_uuid = userId, group = groupId, status = ''synchronisationCompleted'',
                          reason = None, newConceptsToFollow = Some newConcepts\<rparr>))"

definition with_user_concepts ::
  "'r env \<Rightarrow> config \<Rightarrow> string \<Rightarrow> string \<Rightarrow> item list \<Rightarrow> item list \<Rightarrow> sync_result promise" where
  "with_user_concepts env cfg groupId userId groupConcepts conceptsResp =
     (let userConceptIds = map uuid conceptsResp;
          newConcepts = filter (\<lambda>item. uuid item \<notin> set userConceptIds) groupConcepts
      in if length newConcepts = 0 then
           resolve \<lparr>user_uuid = userId, group = groupId, status = ''synchronisationIgnored'',
                    reason = Some ''noNewConceptsToFollow'', newConceptsToFollow = None\<rparr>
         else follow_new_concepts env cfg groupId userId newConcepts)"

definition with_group_concepts ::
  "'r env \<Rightarrow> config \<Rightarrow> string \<Rightarrow> string \<Rightarrow> item list \<Rightarrow> sync_result promise" where
  "with_group_concepts env cfg groupId userId groupConcepts =
     (let conceptCount = length groupConcepts
      in if conceptCount > 0 then
           then_p (catch_p (getConceptsFollowedByUser env cfg userId) absorb_not_found)
             (with_user_concepts env cfg groupId userId groupConcepts)
         else
           resolve \<lparr>user_uuid = userId, group = groupId, status = ''synchronisationIgnored'',
                    reason = Some ''noGroupConceptsToFollow'', newConceptsToFollow = None\<rparr>)"

definition syncUserFollowers :: "'r env \<Rightarrow> config \<Rightarrow> string \<Rightarrow> string \<Rightarrow> sync_result promise" where
  "syncUserFollowers env cfg groupId userId =
     then_p (catch_p (getConceptsFollowedByGroup env cfg groupId) absorb_not_found)
       (with_group_concepts env cfg groupId userId)"

section \<open>Notions used to state the properties\<close>

text \<open>
  The parsed reply to a request (the transport followed by \<^verbatim>\<open>parseJsonRes\<close>), the
  request for page \<open>p\<close> of a list, the items of a page, and rounded-up division.
\<close>

definition reply :: "'r env \<Rightarrow> request \<Rightarrow> error + parsed" where
  "reply env req = (case fetch env req of Inl err \<Rightarrow> Inl err | Inr res \<Rightarrow> parseJsonRes env res)"

definition page_request :: "config \<Rightarrow> string \<Rightarrow> string \<Rightarrow> string \<Rightarrow> string \<Rightarrow> nat \<Rightarrow> request" where
  "page_request cfg node nodeId relationship relatedNode p =
     \<lparr>http_method = ''GET'',
      url = MYFT_API_URL cfg @ ''/'' @ node @ ''/'' @ nodeId @ ''/'' @ relationship @ ''/'' @ relatedNode,
      data = Some (PageParams p 500), params = None\<rparr>"

definition page_items :: "parsed \<Rightarrow> item list" where
  "page_items response = (case items response of Some its \<Rightarrow> its | None \<Rightarrow> [])"

definition continues :: "nat \<Rightarrow> parsed \<Rightarrow> bool" where
  "continues p response = (items response \<noteq> None \<and> more_pages p 500 response)"

definition ceil_div :: "nat \<Rightarrow> nat \<Rightarrow> nat" where
  "ceil_div a b = (a + b - 1) div b"

text \<open>
  A number that is an integer of magnitude below \<open>10 ^ 21\<close> is printed by
  \<^verbatim>\<open>String\<close> in decimal notation, with a minus sign when it is negative.
\<close>

function nat_text :: "nat \<Rightarrow> code_units" where
  "nat_text n = (if n < 10 then [48 + n] else nat_text (n div 10) @ [48 + n mod 10])"
  by pat_completeness auto
termination
  by (relation "measure id") auto

declare nat_text.simps [simp del]

definition number_text :: "int \<Rightarrow> code_units" where
  "number_text i = (if i < 0 then 45 # nat_text (nat (- i)) else nat_text (nat i))"

definition js_number :: "int \<Rightarrow> jsval" where
  "js_number i = JNumber (number_text i)"


text \<open>The number of calls a settled promise has issued.\<close>

definition call_count :: "'a promise \<Rightarrow> nat" where
  "call_count p = (case p of Some (r, log) \<Rightarrow> length log | None \<Rightarrow> 0)"

text \<open>
  The request of the batch engine for one chunk, written out, and the outcome of the
  chunk that a request stands for.
\<close>

definition batch_request ::
  "config \<Rightarrow> string \<Rightarrow> string \<Rightarrow> string \<Rightarrow> string \<Rightarrow> item list \<Rightarrow> props option \<Rightarrow> props option
     \<Rightarrow> ids \<Rightarrow> request" where
  "batch_request cfg meth node rl relType relIds relProp options chunk =
     \<lparr>http_method = meth,
      url = MYFT_API_URL cfg @ ''/'' @ node @ ''/'' @ rl @ ''/'' @ relType,
      data = Some (ChunkData
               (map (\<lambda>item. case relProp of Some p \<Rightarrow> item\<lparr>rel := Some p\<rparr> | None \<Rightarrow> item) relIds)
               chunk),
      params = Some (mutation_params cfg options)\<rparr>"

definition outcome_of :: "'r env \<Rightarrow> request \<Rightarrow> outcome" where
  "outcome_of env req = (case reply env req of Inr res \<Rightarrow> Resolved res | Inl err \<Rightarrow> Captured err)"

text \<open>
  The chunks of a list at a positive chunk size, the chunks of a subject identifier
  argument, and the requests and outcomes of the chunks of one run of the engine, by
  chunk position.
\<close>

function chunks_of :: "nat \<Rightarrow> 'a list \<Rightarrow> 'a list list" where
  "chunks_of n xs = (if n = 0 \<or> xs = [] then [] else take n xs # chunks_of n (drop n xs))"
  by pat_completeness auto
termination
  by (relation "measure (\<lambda>(n, xs). length xs)") auto

declare chunks_of.simps [simp del]

definition id_chunks :: "config \<Rightarrow> ids \<Rightarrow> ids list" where
  "id_chunks cfg nodeId =
     (case nodeId of
        Many xs \<Rightarrow> map Many (chunks_of (BATCH_USER_COUNT cfg) xs)
      | One x \<Rightarrow> [One x])"

definition chunk_requests ::
  "config \<Rightarrow> string \<Rightarrow> string \<Rightarrow> ids \<Rightarrow> string \<Rightarrow> string \<Rightarrow> item list \<Rightarrow> props option \<Rightarrow> props option
     \<Rightarrow> request list" where
  "chunk_requests cfg meth node nodeId rl relType relIds relProp options =
     map (batch_request cfg meth node rl relType relIds relProp options) (id_chunks cfg nodeId)"

definition chunk_outcomes ::
  "'r env \<Rightarrow> config \<Rightarrow> string \<Rightarrow> string \<Rightarrow> ids \<Rightarrow> string \<Rightarrow> string \<Rightarrow> item list \<Rightarrow> props option
     \<Rightarrow> props option \<Rightarrow> outcome list" where
  "chunk_outcomes env cfg meth node nodeId rl relType relIds relProp options =
     map (outcome_of env) (chunk_requests cfg meth node nodeId rl relType relIds relProp options)"

text \<open>
  The notions of the workflow's properties: a call that changes something (a request
  other than a read, or an event), the concepts of the group that the user does not
  follow yet, the relationship properties of the new follows, the three requests of
  the completed path, and the results.
\<close>

fun is_mutation :: "effect \<Rightarrow> bool" where
  "is_mutation (Request req) = (http_method req \<noteq> ''GET'')"
| "is_mutation (KinesisWrite uid kind concepts) = True"

fun is_NotFoundError :: "error \<Rightarrow> bool" where
  "is_NotFoundError (NotFoundError m) = True"
| "is_NotFoundError err = False"

definition new_concepts :: "item list \<Rightarrow> item list \<Rightarrow> item list" where
  "new_concepts G U = filter (\<lambda>item. uuid item \<notin> uuid ` set U) G"

definition strip_rel :: "item \<Rightarrow> item" where
  "strip_rel item = item\<lparr>rel := None\<rparr>"

definition follow_props :: "config \<Rightarrow> string \<Rightarrow> props" where
  "follow_props cfg groupId =
     [(''byTool'', FT_TOOL_ID cfg), (''byUser'', FT_TOOL_ADMIN_ID cfg), (''asMemberOf'', groupId)]"

definition follow_request :: "config \<Rightarrow> string \<Rightarrow> string \<Rightarrow> item list \<Rightarrow> request" where
  "follow_request cfg groupId userId concepts =
     \<lparr>http_method = ''POST'',
      url = MYFT_API_URL cfg @ ''/user/followed/concept'',
      data = Some (ChunkData (map (\<lambda>item. item\<lparr>rel := Some (follow_props cfg groupId)\<rparr>) concepts)
                     (One userId)),
      params = Some [(''noEvent'', MYFT_NO_EVENT cfg), (''waitForPurge'', MYFT_WAIT_FOR_PURGE_ADD cfg)]\<rparr>"

definition preference_request :: "config \<Rightarrow> string \<Rightarrow> request" where
  "preference_request cfg userId =
     \<lparr>http_method = ''GET'',
      url = MYFT_API_URL cfg @ ''/user/'' @ userId @ ''/preferred/preference/email-digest'',
      data = None, params = None\<rparr>"

definition create_preference_request :: "config \<Rightarrow> string \<Rightarrow> request" where
  "create_preference_request cfg userId =
     \<lparr>http_method = ''POST'',
      url = MYFT_API_URL cfg @ ''/user/preferred/preference'',
      data = Some (ChunkData
               [\<lparr>uuid = ''email-digest'',
                 rel = Some [(''type'', ''daily''), (''timezone'', ''Europe/London''),
                             (''byTool'', FT_TOOL_ID cfg), (''byUser'', FT_TOOL_ADMIN_ID cfg)],
                 attrs = []\<rparr>]
               (One userId)),
      params = Some [(''noEvent'', MYFT_NO_EVENT cfg), (''waitForPurge'', MYFT_WAIT_FOR_PURGE_ADD cfg)]\<rparr>"

definition ignored :: "string \<Rightarrow> string \<Rightarrow> string \<Rightarrow> sync_result" where
  "ignored groupId userId why =
     \<lparr>user_uuid = userId, group = groupId, status = ''synchronisationIgnored'',
      reason = Some why, newConceptsToFollow = None\<rparr>"

definition completed :: "string \<Rightarrow> string \<Rightarrow> item list \<Rightarrow> sync_result" where
  "completed groupId userId concepts =
     \<lparr>user_uuid = userId, group = groupId, status = ''synchronisationCompleted'',
      reason = None, newConceptsToFollow = Some concepts\<rparr>"

text \<open>
  The request of \<^verbatim>\<open>_addRemoveRelationships\<close>, written out, and the two ways a public
  operation settles on it: with the raw response, or with its parsed body.
\<close>

definition relationship_request ::
  "config \<Rightarrow> string \<Rightarrow> string \<Rightarrow> string \<Rightarrow> string \<Rightarrow> string \<Rightarrow> ids \<Rightarrow> props option \<Rightarrow> props option
     \<Rightarrow> request" where
  "relationship_request cfg meth node nodeId rl relType relIds relProp options =
     \<lparr>http_method = meth,
      url = MYFT_API_URL cfg @ ''/'' @ node @ ''/'' @ nodeId @ ''/'' @ rl @ ''/'' @ relType,
      data = Some (case relIds of
                     Many uuids \<Rightarrow> Objects (map (\<lambda>u. \<lparr>uuid = u, rel = relProp, attrs = []\<rparr>) uuids)
                   | One u \<Rightarrow> Object \<lparr>uuid = u, rel = relProp, attrs = []\<rparr>),
      params = Some (mutation_params cfg options)\<rparr>"

definition settles_raw :: "'r env \<Rightarrow> request \<Rightarrow> 'r resolved promise" where
  "settles_raw env req =
     Some (case fetch env req of Inl err \<Rightarrow> Inl err | Inr res \<Rightarrow> Inr (Raw res), [Request req])"

definition settles_parsed :: "'r env \<Rightarrow> request \<Rightarrow> 'r resolved promise" where
  "settles_parsed env req =
     Some (case fetch env req of
             Inl err \<Rightarrow> Inl err
           | Inr res \<Rightarrow> (case parseJsonRes env res of Inl err \<Rightarrow> Inl err | Inr body \<Rightarrow> Inr (Parsed body)),
           [Request req])"

section \<open>Concrete remotes\<close>

definition demo_cfg :: config where
  "demo_cfg = \<lparr>MYFT_API_URL = ''https://myft.test/v3'', BATCH_USER_COUNT = 2,
               BATCH_USER_CONCURRENCY = 2, MYFT_NO_EVENT = ''false'',
               MYFT_WAIT_FOR_PURGE_ADD = ''true'', FT_TOOL_ID = ''KAT'',
               FT_TOOL_ADMIN_ID = ''admin-1''\<rparr>"

text \<open>A remote whose every list page is empty and reports the total 0.\<close>

definition empty_remote :: "parsed env" where
  "empty_remote =
     \<lparr>fetch = (\<lambda>req. Inr \<lparr>items = Some [], total = js_number 0, content = []\<rparr>),
      parseJsonRes = Inr,
      kinesis_write = (\<lambda>uid kind concepts. Inr ())\<rparr>"

text \<open>A remote with one item on every page, reporting the total 1000 on every page.\<close>

definition page_item :: "nat \<Rightarrow> item" where
  "page_item p = \<lparr>uuid = (if p = 1 then ''first'' else ''later''), rel = None, attrs = []\<rparr>"

definition steady_remote :: "parsed env" where
  "steady_remote =
     \<lparr>fetch = (\<lambda>req. case data req of
                  Some (PageParams p l) \<Rightarrow> Inr \<lparr>items = Some [page_item p], total = js_number 1000, content = []\<rparr>
                | _ \<Rightarrow> Inl (OtherError ''unexpected request'')),
      parseJsonRes = Inr,
      kinesis_write = (\<lambda>uid kind concepts. Inr ())\<rparr>"





text \<open>
  A remote whose every list page is empty and reports the number \<open>10 ^ 21\<close>, which
  \<^verbatim>\<open>String\<close> prints with an exponent.
\<close>

definition exponent_remote :: "parsed env" where
  "exponent_remote =
     \<lparr>fetch = (\<lambda>req. Inr \<lparr>items = Some [], total = JNumber (units_of ''1e+21''), content = []\<rparr>),
      parseJsonRes = Inr,
      kinesis_write = (\<lambda>uid kind concepts. Inr ())\<rparr>"

text \<open>Two object payloads of a batch, the second already tagged.\<close>

definition two_subjects :: "item list" where
  "two_subjects = [\<lparr>uuid = ''c1'', rel = None, attrs = [(''name'', ''Brexit'')]\<rparr>,
                   \<lparr>uuid = ''c2'', rel = Some [(''byTool'', ''old'')], attrs = []\<rparr>]"

text \<open>
  A remote that accepts a chunk unless it names the user \<open>bad\<close>, which it does not
  know.
\<close>

definition ok_body :: parsed where
  "ok_body = \<lparr>items = None, total = JUndefined, content = ''{\"ok\":true}''\<rparr>"

definition flaky_remote :: "parsed env" where
  "flaky_remote =
     \<lparr>fetch = (\<lambda>req. case data req of
                  Some (ChunkData subj (Many uuids)) \<Rightarrow>
                    (if ''bad'' \<in> set uuids then Inl (NotFoundError ''no such user'') else Inr ok_body)
                | _ \<Rightarrow> Inl (OtherError ''unexpected request'')),
      parseJsonRes = Inr,
      kinesis_write = (\<lambda>uid kind concepts. Inr ())\<rparr>"

text \<open>
  Two concepts a group follows, the first as a user already follows it, a one-page
  list reply, and a remote given by its replies to the five requests of the workflow
  for group \<open>g1\<close> and user \<open>u1\<close>.
\<close>

definition concept_A :: item where
  "concept_A = \<lparr>uuid = ''A'', rel = Some [(''byTool'', ''KAT'')], attrs = [(''name'', ''Markets'')]\<rparr>"

definition concept_B :: item where
  "concept_B = \<lparr>uuid = ''B'', rel = Some [(''byTool'', ''KAT'')], attrs = [(''name'', ''Brexit'')]\<rparr>"

definition followed_A :: item where
  "followed_A = \<lparr>uuid = ''A'', rel = None, attrs = []\<rparr>"

definition page_of :: "item list \<Rightarrow> error + parsed" where
  "page_of its = Inr \<lparr>items = Some its, total = js_number (int (length its)), content = []\<rparr>"

definition sync_remote ::
  "(error + parsed) \<Rightarrow> (error + parsed) \<Rightarrow> (error + parsed) \<Rightarrow> (error + parsed) \<Rightarrow> (error + parsed)
     \<Rightarrow> parsed env" where
  "sync_remote groupReply userReply followReply prefReply createReply =
     \<lparr>fetch = (\<lambda>req.
         if http_method req = ''GET'' then
           (if url req = ''https://myft.test/v3/group/g1/followed/concept'' then groupReply
            else if url req = ''https://myft.test/v3/user/u1/followed/concept'' then userReply
            else prefReply)
         else
           (if url req = ''https://myft.test/v3/user/followed/concept'' then followReply
            else createReply)),
      parseJsonRes = Inr,
      kinesis_write = (\<lambda>uid kind concepts. Inr ())\<rparr>"

text \<open>A remote that answers every request with a 404 response, which the parser rejects.\<close>

definition missing_remote :: "string env" where
  "missing_remote =
     \<lparr>fetch = (\<lambda>req. Inr ''404 Not Found''),
      parseJsonRes = (\<lambda>res. Inl (NotFoundError res)),
      kinesis_write = (\<lambda>uid kind concepts. Inr ())\<rparr>"

section \<open>Properties\<close>

lemma split_on_plain: "c \<notin> set s \<Longrightarrow> split_on c s = [s]"
  by (induction s) auto

lemma split_on_append: "c \<notin> set s \<Longrightarrow> split_on c (s @ c # r) = s # split_on c r"
  by (induction s) auto

lemma split_on_segments_from:
  "c \<notin> set s \<Longrightarrow> \<forall>t \<in> set segs. c \<notin> set t \<Longrightarrow>
   split_on c (s @ concat (map (\<lambda>t. c # t) segs)) = s # segs"
proof (induction segs arbitrary: s)
  case Nil
  then show ?case by (simp add: split_on_plain)
next
  case (Cons t segs)
  have "split_on c (s @ c # (t @ concat (map (\<lambda>t. c # t) segs))) =
        s # split_on c (t @ concat (map (\<lambda>t. c # t) segs))"
    using Cons.prems(1) by (rule split_on_append)
  also have "split_on c (t @ concat (map (\<lambda>t. c # t) segs)) = t # segs"
    using Cons.prems(2) by (intro Cons.IH) simp_all
  finally show ?case by simp
qed

subsection \<open>Printing and parsing integers\<close>

lemma nat_text_digits: "\<forall>u \<in> set (nat_text n). is_digit u"
proof (induction n rule: nat_text.induct)
  case (1 n)
  show ?case
  proof (cases "n < 10")
    case True
    then show ?thesis by (subst nat_text.simps) (simp add: is_digit_def)
  next
    case False
    have "n mod 10 < 10" by simp
    then have "is_digit (48 + n mod 10)" unfolding is_digit_def by linarith
    with 1[OF False] False show ?thesis by (subst nat_text.simps) simp
  qed
qed

lemma nat_text_nonempty: "nat_text n \<noteq> []"
  by (subst nat_text.simps) simp

lemma nat_text_value: "foldl (\<lambda>a d. 10 * a + digit_val d) 0 (nat_text n) = int n"
proof (induction n rule: nat_text.induct)
  case (1 n)
  show ?case
  proof (cases "n < 10")
    case True
    then show ?thesis by (subst nat_text.simps) (simp add: digit_val_def)
  next
    case False
    have "int n = 10 * int (n div 10) + int (n mod 10)" by presburger
    with 1[OF False] False show ?thesis
      by (subst nat_text.simps) (simp add: digit_val_def)
  qed
qed

lemma digit_not_space: "is_digit u \<Longrightarrow> \<not> is_space u"
  by (auto simp: is_digit_def is_space_def)

lemma parseInt_string_digits:
  assumes "ds \<noteq> []" "\<forall>u \<in> set ds. is_digit u"
  shows "parseInt_string ds = Some (foldl (\<lambda>a d. 10 * a + digit_val d) 0 ds)"
proof -
  obtain d r where dr: "ds = d # r" using assms(1) by (cases ds) auto
  with assms(2) have d: "is_digit d" by simp
  then have ns: "\<not> is_space d" by (rule digit_not_space)
  from d have nsg: "d \<noteq> 45" "d \<noteq> 43" by (auto simp: is_digit_def)
  have dw: "dropWhile is_space ds = ds" using dr ns by simp
  have tw: "takeWhile is_digit ds = ds" using assms(2) by (simp add: takeWhile_eq_all_conv)
  have sg: "(case ds of c # r \<Rightarrow> (if c = 45 then - 1 else 1) | [] \<Rightarrow> 1) = (1::int)"
    using dr nsg by simp
  have u: "(case ds of c # r \<Rightarrow> (if c = 45 \<or> c = 43 then r else ds) | [] \<Rightarrow> ds) = ds"
    using dr nsg by simp
  have "parseInt_string ds =
        (if ds = [] then None else Some (1 * foldl (\<lambda>a d. 10 * a + digit_val d) 0 ds))"
    by (simp only: parseInt_string_def Let_def dw sg u tw)
  with assms(1) show ?thesis by simp
qed

lemma parseInt_string_negative:
  assumes "ds \<noteq> []" "\<forall>u \<in> set ds. is_digit u"
  shows "parseInt_string (45 # ds) = Some (- foldl (\<lambda>a d. 10 * a + digit_val d) 0 ds)"
proof -
  have ns: "\<not> is_space 45" by (simp add: is_space_def)
  have tw: "takeWhile is_digit ds = ds" using assms(2) by (simp add: takeWhile_eq_all_conv)
  show ?thesis
    using assms(1) by (simp add: parseInt_string_def ns Let_def tw)
qed

lemma parseInt_number_text: "parseInt_string (number_text i) = Some i"
proof (cases "i < 0")
  case True
  then show ?thesis
    by (simp add: number_text_def parseInt_string_negative nat_text_nonempty nat_text_digits nat_text_value)
next
  case False
  then show ?thesis
    by (simp add: number_text_def parseInt_string_digits nat_text_nonempty nat_text_digits nat_text_value)
qed

lemma parseInt_js_number: "parseInt (js_number i) = Some i"
  by (simp add: parseInt_def js_number_def parseInt_number_text)


lemma parseInt_zero_text: "parseInt_string (units_of ''0'') = Some 0"
  by (simp add: parseInt_string_def units_of_def is_space_def is_digit_def digit_val_def Let_def)

lemma parseInt_NaN_text: "parseInt_string (units_of ''NaN'') = None"
  by (simp add: parseInt_string_def units_of_def is_space_def is_digit_def Let_def)

lemma number_text_zero: "number_text 0 = units_of ''0''"
  by (simp add: number_text_def units_of_def nat_text.simps)

lemma truthy_js_number: "truthy (js_number i) \<longleftrightarrow> i \<noteq> 0"
proof -
  have "number_text i \<noteq> units_of ''NaN''"
    using parseInt_number_text[of i] parseInt_NaN_text by auto
  moreover have "number_text i = units_of ''0'' \<longleftrightarrow> i = 0"
    using parseInt_number_text[of i] parseInt_zero_text number_text_zero by auto
  ultimately show ?thesis by (simp add: js_number_def)
qed


lemma more_pages_js_number:
  "total r = js_number T \<Longrightarrow> more_pages p 500 r \<longleftrightarrow> int (p * 500) < T"
  by (auto simp: more_pages_def parseInt_js_number truthy_js_number)

subsection \<open>The pagination loop\<close>

lemma parse_page:
  "parse_p env (createAndTriggerRelationshipRequest env cfg ''GET'' node (Some nodeId)
       (Some relationship) (Some relatedNode) None (Some (PageParams p 500)) None) =
   Some (reply env (page_request cfg node nodeId relationship relatedNode p),
         [Request (page_request cfg node nodeId relationship relatedNode p)])"
  by (simp add: parse_p_def createAndTriggerRelationshipRequest_def doRelationshipRequest_def
      then_p_def reply_def page_request_def relationship_url_def Let_def split: sum.splits)

lemma thenFn_step:
  "thenFn env cfg node nodeId rl rn pg acc log r =
     (if continues pg r then
        (case reply env (page_request cfg node nodeId rl rn (Suc pg)) of
           Inl err \<Rightarrow> Some (Inl err, log @ [Request (page_request cfg node nodeId rl rn (Suc pg))])
         | Inr r' \<Rightarrow> thenFn env cfg node nodeId rl rn (Suc pg) (acc @ page_items r)
                      (log @ [Request (page_request cfg node nodeId rl rn (Suc pg))]) r')
      else Some (Inr (acc @ page_items r), log))"
  by (subst thenFn.simps)
     (simp add: parse_page continues_def page_items_def split: option.splits sum.splits)

lemma thenFn_stops:
  assumes "pg \<le> n"
    and "\<forall>q. pg < q \<and> q \<le> n \<longrightarrow> reply env (page_request cfg node nodeId rl rn q) = Inr (R q)"
    and "\<forall>q. pg \<le> q \<and> q < n \<longrightarrow> continues q (R q)"
    and "\<not> continues n (R n)"
  shows "thenFn env cfg node nodeId rl rn pg acc log (R pg) =
         Some (Inr (acc @ concat (map (\<lambda>q. page_items (R q)) [pg..<Suc n])),
               log @ map (\<lambda>q. Request (page_request cfg node nodeId rl rn q)) [Suc pg..<Suc n])"
  using assms
proof (induction "n - pg" arbitrary: pg acc log)
  case 0
  then have "pg = n" by simp
  with 0 show ?case by (subst thenFn_step) simp
next
  case (Suc k)
  then have lt: "pg < n" by simp
  with Suc.prems have c: "continues pg (R pg)"
    and r: "reply env (page_request cfg node nodeId rl rn (Suc pg)) = Inr (R (Suc pg))"
    by auto
  have ih: "thenFn env cfg node nodeId rl rn (Suc pg) (acc @ page_items (R pg))
              (log @ [Request (page_request cfg node nodeId rl rn (Suc pg))]) (R (Suc pg)) =
            Some (Inr ((acc @ page_items (R pg)) @ concat (map (\<lambda>q. page_items (R q)) [Suc pg..<Suc n])),
                  (log @ [Request (page_request cfg node nodeId rl rn (Suc pg))]) @
                  map (\<lambda>q. Request (page_request cfg node nodeId rl rn q)) [Suc (Suc pg)..<Suc n])"
    using Suc.hyps(2) Suc.prems lt by (intro Suc.hyps(1)) auto
  have l1: "[pg..<Suc n] = pg # [Suc pg..<Suc n]"
    using lt by (simp add: upt_conv_Cons)
  have l2: "[Suc pg..<Suc n] = Suc pg # [Suc (Suc pg)..<Suc n]"
    using lt by (simp add: upt_conv_Cons)
  have e1: "concat (map (\<lambda>q. page_items (R q)) [pg..<Suc n]) =
            page_items (R pg) @ concat (map (\<lambda>q. page_items (R q)) [Suc pg..<Suc n])"
    by (simp only: l1 list.map concat.simps)
  have e2: "map (\<lambda>q. Request (page_request cfg node nodeId rl rn q)) [Suc pg..<Suc n] =
            Request (page_request cfg node nodeId rl rn (Suc pg)) #
            map (\<lambda>q. Request (page_request cfg node nodeId rl rn q)) [Suc (Suc pg)..<Suc n]"
    by (simp only: l2 list.map)
  have "thenFn env cfg node nodeId rl rn pg acc log (R pg) =
        thenFn env cfg node nodeId rl rn (Suc pg) (acc @ page_items (R pg))
          (log @ [Request (page_request cfg node nodeId rl rn (Suc pg))]) (R (Suc pg))"
    by (subst thenFn_step) (simp add: c r)
  then show ?case
    by (simp only: ih e1 e2 append_assoc append.simps)
qed

lemma thenFn_rejects:
  assumes "pg \<le> n"
    and "\<forall>q. pg < q \<and> q \<le> n \<longrightarrow> reply env (page_request cfg node nodeId rl rn q) = Inr (R q)"
    and "\<forall>q. pg \<le> q \<and> q \<le> n \<longrightarrow> continues q (R q)"
    and "reply env (page_request cfg node nodeId rl rn (Suc n)) = Inl err"
  shows "thenFn env cfg node nodeId rl rn pg acc log (R pg) =
         Some (Inl err, log @ map (\<lambda>q. Request (page_request cfg node nodeId rl rn q)) [Suc pg..<Suc (Suc n)])"
  using assms
proof (induction "n - pg" arbitrary: pg acc log)
  case 0
  then have "pg = n" by simp
  with 0 show ?case by (subst thenFn_step) simp
next
  case (Suc k)
  then have lt: "pg < n" by simp
  with Suc.prems have c: "continues pg (R pg)"
    and r: "reply env (page_request cfg node nodeId rl rn (Suc pg)) = Inr (R (Suc pg))"
    by auto
  have ih: "thenFn env cfg node nodeId rl rn (Suc pg) (acc @ page_items (R pg))
              (log @ [Request (page_request cfg node nodeId rl rn (Suc pg))]) (R (Suc pg)) =
            Some (Inl err,
                  (log @ [Request (page_request cfg node nodeId rl rn (Suc pg))]) @
                  map (\<lambda>q. Request (page_request cfg node nodeId rl rn q)) [Suc (Suc pg)..<Suc (Suc n)])"
    using Suc.hyps(2) Suc.prems lt by (intro Suc.hyps(1)) auto
  have l2: "[Suc pg..<Suc (Suc n)] = Suc pg # [Suc (Suc pg)..<Suc (Suc n)]"
    using lt by (simp add: upt_conv_Cons)
  have e2: "map (\<lambda>q. Request (page_request cfg node nodeId rl rn q)) [Suc pg..<Suc (Suc n)] =
            Request (page_request cfg node nodeId rl rn (Suc pg)) #
            map (\<lambda>q. Request (page_request cfg node nodeId rl rn q)) [Suc (Suc pg)..<Suc (Suc n)]"
    by (simp only: l2 list.map)
  have "thenFn env cfg node nodeId rl rn pg acc log (R pg) =
        thenFn env cfg node nodeId rl rn (Suc pg) (acc @ page_items (R pg))
          (log @ [Request (page_request cfg node nodeId rl rn (Suc pg))]) (R (Suc pg))"
    by (subst thenFn_step) (simp add: c r)
  then show ?case
    by (simp only: ih e2 append_assoc append.simps)
qed




lemma getAllNodeItems_first:
  "getAllNodeItems env cfg node nodeId rl rn =
     (case reply env (page_request cfg node nodeId rl rn 1) of
        Inl err \<Rightarrow> Some (Inl err, [Request (page_request cfg node nodeId rl rn 1)])
      | Inr r \<Rightarrow> thenFn env cfg node nodeId rl rn 1 [] [Request (page_request cfg node nodeId rl rn 1)] r)"
  by (simp add: getAllNodeItems_def parse_page split: sum.splits)

lemma getAllNodeItems_stops:
  assumes "1 \<le> n"
    and "\<forall>q. 1 \<le> q \<and> q \<le> n \<longrightarrow> reply env (page_request cfg node nodeId rl rn q) = Inr (R q)"
    and "\<forall>q. 1 \<le> q \<and> q < n \<longrightarrow> continues q (R q)"
    and "\<not> continues n (R n)"
  shows "getAllNodeItems env cfg node nodeId rl rn =
         Some (Inr (concat (map (\<lambda>q. page_items (R q)) [1..<Suc n])),
               map (\<lambda>q. Request (page_request cfg node nodeId rl rn q)) [1..<Suc n])"
proof -
  have r1: "reply env (page_request cfg node nodeId rl rn 1) = Inr (R 1)"
    using assms(1,2) by simp
  have "thenFn env cfg node nodeId rl rn 1 [] [Request (page_request cfg node nodeId rl rn 1)] (R 1) =
         Some (Inr ([] @ concat (map (\<lambda>q. page_items (R q)) [1..<Suc n])),
               [Request (page_request cfg node nodeId rl rn 1)] @
               map (\<lambda>q. Request (page_request cfg node nodeId rl rn q)) [Suc 1..<Suc n])"
    using assms by (intro thenFn_stops) auto
  moreover have "[1..<Suc n] = 1 # [Suc 1..<Suc n]"
    using assms(1) by (simp add: upt_conv_Cons)
  then have "map (\<lambda>q. Request (page_request cfg node nodeId rl rn q)) [1..<Suc n] =
        Request (page_request cfg node nodeId rl rn 1) #
        map (\<lambda>q. Request (page_request cfg node nodeId rl rn q)) [Suc 1..<Suc n]"
    by (simp only: list.map)
  ultimately show ?thesis
    by (simp only: getAllNodeItems_first r1 sum.case append.simps)
qed

subsection \<open>C3: pagination with a consistent total\<close>

text \<open>
  Claim C3, as the code has it. When every page response has an items array and
  reports the same number \<open>T\<close> as its total, an integer of magnitude below \<open>2 ^ 53\<close>,
  the aggregator resolves with the concatenation of the pages' items in page order, and
  the requests it issues are the requests for the pages 1 to \<open>n\<close>, each with limit
  500, where \<open>n\<close> is \<open>T / 500\<close> rounded up, but at least 1: the first page is always
  requested.
\<close>

theorem pagination_consistent_total:
  assumes "\<forall>p \<ge> 1. \<exists>r. reply env (page_request cfg node nodeId rl rn p) = Inr r \<and>
                       items r = Some (pages p) \<and> total r = js_number T"
    and "\<bar>T\<bar> < 2 ^ 53"
  shows "getAllNodeItems env cfg node nodeId rl rn =
         Some (Inr (concat (map pages [1..<Suc (max 1 (ceil_div (nat T) 500))])),
               map (\<lambda>p. Request (page_request cfg node nodeId rl rn p))
                 [1..<Suc (max 1 (ceil_div (nat T) 500))])"
proof -
  define n where "n = max 1 (ceil_div (nat T) 500)"
  define R where "R = (\<lambda>p. case reply env (page_request cfg node nodeId rl rn p) of Inr r \<Rightarrow> r)"
  have R: "reply env (page_request cfg node nodeId rl rn p) = Inr (R p) \<and>
           items (R p) = Some (pages p) \<and> total (R p) = js_number T" if "1 \<le> p" for p
  proof -
    from assms(1) that obtain r where "reply env (page_request cfg node nodeId rl rn p) = Inr r"
      "items r = Some (pages p)" "total r = js_number T" by blast
    then show ?thesis by (simp add: R_def)
  qed
  have cont: "continues p (R p) \<longleftrightarrow> int (p * 500) < T" if "1 \<le> p" for p
    using R[OF that] by (simp add: continues_def more_pages_js_number)
  have n1: "1 \<le> n" by (simp add: n_def)
  have a: "\<forall>q. 1 \<le> q \<and> q \<le> n \<longrightarrow> reply env (page_request cfg node nodeId rl rn q) = Inr (R q)"
    using R by blast
  have b: "\<forall>q. 1 \<le> q \<and> q < n \<longrightarrow> continues q (R q)"
  proof (intro allI impI)
    fix q assume q: "1 \<le> q \<and> q < n"
    then have "q < (nat T + 499) div 500" unfolding n_def ceil_div_def by auto
    then have "int (q * 500) < T" by linarith
    with q show "continues q (R q)" by (simp add: cont)
  qed
  have c: "\<not> continues n (R n)"
  proof -
    have "(nat T + 499) div 500 \<le> n" unfolding n_def ceil_div_def by auto
    then have "\<not> int (n * 500) < T" by linarith
    with n1 show ?thesis by (simp add: cont)
  qed
  have "concat (map (\<lambda>q. page_items (R q)) [1..<Suc n]) = concat (map pages [1..<Suc n])"
  proof -
    have "page_items (R q) = pages q" if "q \<in> set [1..<Suc n]" for q
    proof -
      from that have "1 \<le> q" by auto
      from R[OF this] show ?thesis by (simp add: page_items_def)
    qed
    then have "map (\<lambda>q. page_items (R q)) [1..<Suc n] = map pages [1..<Suc n]"
      by (rule map_cong[OF refl])
    then show ?thesis by (simp only:)
  qed
  with getAllNodeItems_stops[OF n1 a b c] show ?thesis
    by (simp only: n_def)
qed

lemma upt_1_3: "[1..<Suc 2] = [1, 2::nat]"
  by code_simp


text \<open>Two pages of one item each at the total 1000.\<close>

theorem pagination_consistent_total_witness:
  "getAllNodeItems steady_remote demo_cfg ''user'' ''u1'' ''followed'' ''concept'' =
     Some (Inr [page_item 1, page_item 2],
           [Request (page_request demo_cfg ''user'' ''u1'' ''followed'' ''concept'' 1),
            Request (page_request demo_cfg ''user'' ''u1'' ''followed'' ''concept'' 2)])"
proof -
  have h: "\<forall>p \<ge> 1. \<exists>r. reply steady_remote (page_request demo_cfg ''user'' ''u1'' ''followed'' ''concept'' p) = Inr r \<and>
                       items r = Some [page_item p] \<and> total r = js_number 1000"
    by (simp add: reply_def steady_remote_def page_request_def)
  have b: "\<bar>1000 :: int\<bar> < 2 ^ 53" by simp
  have n: "max 1 (ceil_div (nat 1000) 500) = 2"
    by (simp add: ceil_div_def)
  show ?thesis
    using pagination_consistent_total[OF h b] by (simp only: n upt_1_3 list.map concat.simps append.simps)
qed

text \<open>
  At the total 0 the claim's count \<open>ceil(T / 500)\<close> is 0, and the aggregator has issued one
  request.
\<close>

theorem pagination_zero_total_counterexample:
  "getAllNodeItems empty_remote demo_cfg ''user'' ''u1'' ''followed'' ''concept'' =
     Some (Inr [], [Request (page_request demo_cfg ''user'' ''u1'' ''followed'' ''concept'' 1)]) \<and>
   call_count (getAllNodeItems empty_remote demo_cfg ''user'' ''u1'' ''followed'' ''concept'') \<noteq>
     ceil_div 0 500"
proof -
  have "reply empty_remote (page_request demo_cfg ''user'' ''u1'' ''followed'' ''concept'' 1) =
        Inr \<lparr>items = Some [], total = js_number 0, content = []\<rparr>"
    by (simp add: reply_def empty_remote_def)
  moreover have "\<not> continues 1 \<lparr>items = Some [], total = js_number 0, content = []\<rparr>"
    by (simp add: continues_def more_pages_js_number)
  ultimately have "getAllNodeItems empty_remote demo_cfg ''user'' ''u1'' ''followed'' ''concept'' =
     Some (Inr [], [Request (page_request demo_cfg ''user'' ''u1'' ''followed'' ''concept'' 1)])"
    by (simp add: getAllNodeItems_first) (subst thenFn_step, simp add: page_items_def)
  then show ?thesis by (simp add: call_count_def ceil_div_def)
qed

text \<open>
  The number \<open>10 ^ 21\<close> is printed as \<^verbatim>\<open>1e+21\<close>, of which \<^verbatim>\<open>parseInt\<close> reads 1:
  the aggregator stops after the first page.
\<close>

lemma parseInt_exponent_text: "parseInt (JNumber (units_of ''1e+21'')) = Some 1"
  by (simp add: parseInt_def parseInt_string_def units_of_def is_space_def is_digit_def digit_val_def
      Let_def)

lemma pagination_exponent_total:
  "getAllNodeItems exponent_remote demo_cfg ''user'' ''u1'' ''followed'' ''concept'' =
     Some (Inr [], [Request (page_request demo_cfg ''user'' ''u1'' ''followed'' ''concept'' 1)])"
proof -
  have "reply exponent_remote (page_request demo_cfg ''user'' ''u1'' ''followed'' ''concept'' 1) =
        Inr \<lparr>items = Some [], total = JNumber (units_of ''1e+21''), content = []\<rparr>"
    by (simp add: reply_def exponent_remote_def)
  moreover have "\<not> continues 1 \<lparr>items = Some [], total = JNumber (units_of ''1e+21''), content = []\<rparr>"
    by (simp add: continues_def more_pages_def parseInt_exponent_text)
  ultimately show ?thesis
    by (simp add: getAllNodeItems_first) (subst thenFn_step, simp add: page_items_def)
qed

subsection \<open>C7: termination depends on the latest response only\<close>






lemma relationship_url_concat:
  "relationship_url cfg node nodeId rl rn rid =
     MYFT_API_URL cfg @ concat (map (\<lambda>s. CHR ''/'' # s) (node # present [nodeId, rl, rn, rid]))"
  by (simp add: relationship_url_def present_def Let_def split: option.splits)

subsection \<open>C9: the path of a relationship request\<close>

text \<open>
  Claim C9, as the code has it. The URL is the base URL followed by one segment for the
  node kind and one for each of node id, relationship kind, related-node kind and
  related id that is not \<^verbatim>\<open>undefined\<close>, in this order; an omitted component adds
  nothing. A component that is given is appended as it is: when the node kind and the
  given components are non-empty and free of slashes, the path segments are exactly
  these strings and none of them is empty.
\<close>

theorem request_url_path_order:
  "relationship_url cfg node nodeId rl rn rid =
     MYFT_API_URL cfg @ concat (map (\<lambda>s. ''/'' @ s) (node # present [nodeId, rl, rn, rid])) \<and>
   ((\<forall>s \<in> set (node # present [nodeId, rl, rn, rid]). s \<noteq> [] \<and> CHR ''/'' \<notin> set s) \<longrightarrow>
      path_segments cfg (relationship_url cfg node nodeId rl rn rid) =
        node # present [nodeId, rl, rn, rid] \<and>
      [] \<notin> set (path_segments cfg (relationship_url cfg node nodeId rl rn rid)))"
proof (intro conjI impI)
  show "relationship_url cfg node nodeId rl rn rid =
     MYFT_API_URL cfg @ concat (map (\<lambda>s. ''/'' @ s) (node # present [nodeId, rl, rn, rid]))"
    by (simp add: relationship_url_concat)
next
  assume a: "\<forall>s \<in> set (node # present [nodeId, rl, rn, rid]). s \<noteq> [] \<and> CHR ''/'' \<notin> set s"
  have "split_on CHR ''/'' ([] @ concat (map (\<lambda>s. CHR ''/'' # s) (node # present [nodeId, rl, rn, rid]))) =
        [] # node # present [nodeId, rl, rn, rid]"
    using a by (intro split_on_segments_from) simp_all
  then show seg: "path_segments cfg (relationship_url cfg node nodeId rl rn rid) =
        node # present [nodeId, rl, rn, rid]"
    by (simp add: path_segments_def relationship_url_concat)
  from a show "[] \<notin> set (path_segments cfg (relationship_url cfg node nodeId rl rn rid))"
    unfolding seg by blast
qed

text \<open>The path of a batch request, which has no node id.\<close>

theorem request_url_path_order_witness:
  "relationship_url demo_cfg ''user'' None (Some ''followed'') (Some ''concept'') None =
     ''https://myft.test/v3/user/followed/concept'' \<and>
   path_segments demo_cfg (relationship_url demo_cfg ''user'' None (Some ''followed'') (Some ''concept'') None) =
     [''user'', ''followed'', ''concept''] \<and>
   [] \<notin> set (path_segments demo_cfg
               (relationship_url demo_cfg ''user'' None (Some ''followed'') (Some ''concept'') None))"
proof -
  have p: "present [None, Some ''followed'', Some ''concept'', None] = [''followed'', ''concept'']"
    by (simp add: present_def)
  have h: "\<forall>s \<in> set (''user'' # present [None, Some ''followed'', Some ''concept'', None]).
             s \<noteq> [] \<and> CHR ''/'' \<notin> set s"
    by (simp add: p)
  note T = request_url_path_order[of demo_cfg "''user''" None "Some ''followed''" "Some ''concept''" None]
  have "relationship_url demo_cfg ''user'' None (Some ''followed'') (Some ''concept'') None =
     MYFT_API_URL demo_cfg @ concat (map (\<lambda>s. ''/'' @ s) [''user'', ''followed'', ''concept''])"
    using T[THEN conjunct1] by (simp only: p)
  then have a: "relationship_url demo_cfg ''user'' None (Some ''followed'') (Some ''concept'') None =
     ''https://myft.test/v3/user/followed/concept''"
    by (simp add: demo_cfg_def)
  have b: "path_segments demo_cfg (relationship_url demo_cfg ''user'' None (Some ''followed'') (Some ''concept'') None) =
        [''user'', ''followed'', ''concept''] \<and>
      [] \<notin> set (path_segments demo_cfg
               (relationship_url demo_cfg ''user'' None (Some ''followed'') (Some ''concept'') None))"
    using T[THEN conjunct2, THEN mp, OF h] unfolding p .
  from a b show ?thesis by (rule conjI)
qed

text \<open>
  The empty string is not \<^verbatim>\<open>undefined\<close>: given as the node id, it is appended and
  the path has an empty segment.
\<close>

lemma empty_node_id_url: "relationship_url demo_cfg ''license'' (Some []) (Some ''member'') (Some ''user'') (Some ''u1'') =
   MYFT_API_URL demo_cfg @ ''/license//member/user/u1''"
  by (simp add: relationship_url_def)

theorem request_url_empty_segment_counterexample:
  "[] \<in> set (path_segments demo_cfg
              (relationship_url demo_cfg ''license'' (Some []) (Some ''member'') (Some ''user'') (Some ''u1'')))"
  by (simp add: empty_node_id_url path_segments_def)

subsection \<open>The batch engine\<close>

lemma ceil_div_step:
  assumes "0 < n" "0 < L"
  shows "ceil_div L n = Suc (ceil_div (L - n) n)"
proof -
  have eq: "L + n - 1 = (L - 1) + n" using assms(2) by arith
  have "(L + n - 1) div n = ((L - 1) + n) div n" by (simp only: eq)
  also have "\<dots> = (L - 1) div n + 1"
    using div_add_self2[of n "L - 1"] assms(1) by blast
  finally have e1: "ceil_div L n = Suc ((L - 1) div n)"
    by (simp only: ceil_div_def Suc_eq_plus1)
  have e2: "ceil_div (L - n) n = (L - 1) div n"
  proof (cases "n \<le> L")
    case True
    then have "L - n + n - 1 = L - 1" by arith
    then show ?thesis by (simp only: ceil_div_def)
  next
    case False
    then have z: "L - n = 0" by arith
    have "(0 + n - 1) div n = 0" using assms(1) by simp
    moreover have "(L - 1) div n = 0" using False assms by simp
    ultimately show ?thesis by (simp only: ceil_div_def z)
  qed
  from e1 e2 show ?thesis by (simp only:)
qed

lemma chunk_loop_total:
  assumes "0 < n"
  shows "\<exists>cs. chunk_loop n xs acc = Some (acc @ map Many cs) \<and> concat cs = xs \<and>
              (\<forall>c \<in> set cs. c \<noteq> [] \<and> length c \<le> n) \<and> length cs = ceil_div (length xs) n"
proof (induction "length xs" arbitrary: xs acc rule: less_induct)
  case less
  show ?case
  proof (cases "xs = []")
    case True
    then have "chunk_loop n xs acc = Some (acc @ map Many [])"
      by (subst chunk_loop.simps) simp
    moreover have "ceil_div 0 n = 0" using assms by (simp add: ceil_div_def)
    ultimately show ?thesis using True
      by (intro exI[of _ "[]"]) simp
  next
    case False
    then have "length (drop n xs) < length xs" using assms by simp
    from less[OF this, of "acc @ [Many (take n xs)]"] obtain cs where
      cs: "chunk_loop n (drop n xs) ((acc @ [Many (take n xs)])) = Some ((acc @ [Many (take n xs)]) @ map Many cs)"
        "concat cs = drop n xs" "\<forall>c \<in> set cs. c \<noteq> [] \<and> length c \<le> n"
        "length cs = ceil_div (length (drop n xs)) n"
      by blast
    have "chunk_loop n xs acc = chunk_loop n (drop n xs) (acc @ [Many (take n xs)])"
      using False by (subst chunk_loop.simps) simp
    then have a: "chunk_loop n xs acc = Some (acc @ map Many (take n xs # cs))"
      using cs(1) by simp
    have b: "concat (take n xs # cs) = xs" using cs(2) by simp
    have c: "\<forall>c \<in> set (take n xs # cs). c \<noteq> [] \<and> length c \<le> n"
      using cs(3) False assms by auto
    have "0 < length xs" using False by simp
    from ceil_div_step[OF assms this] cs(4)
    have d: "length (take n xs # cs) = ceil_div (length xs) n" by simp
    from a b c d show ?thesis by blast
  qed
qed

text \<open>With the chunk size 0 the chunking loop never ends.\<close>

lemma chunk_loop_zero_aux:
  assumes "chunk_loop n xs acc = Some y"
  shows "\<not> (n = 0 \<and> xs \<noteq> [])"
proof (rule chunk_loop.raw_induct[where P = "\<lambda>n xs acc y. \<not> (n = 0 \<and> xs \<noteq> [])", OF _ assms], goal_cases)
  case (1 chunk_loop' n xs acc y)
  show ?case
  proof
    assume a: "n = 0 \<and> xs \<noteq> []"
    with 1(2) have "chunk_loop' n (drop n xs) (acc @ [Many (take n xs)]) = Some y" by simp
    from 1(1)[OF this] a show False by simp
  qed
qed

lemma chunk_loop_zero: "xs \<noteq> [] \<Longrightarrow> chunk_loop 0 xs acc = None"
  using chunk_loop_zero_aux[of 0 xs acc] by (cases "chunk_loop 0 xs acc") auto

lemma chunk_request_eq:
  "chunk_request env cfg meth node rl relType relIds relProp options chunk =
     Some (Inr (outcome_of env (batch_request cfg meth node rl relType relIds relProp options chunk)),
           [Request (batch_request cfg meth node rl relType relIds relProp options chunk)])"
  by (simp add: chunk_request_def outcome_of_def batch_request_def parse_p_def reply_def
      createAndTriggerRelationshipRequest_def doRelationshipRequest_def relationship_url_def
      partial_subjects_def then_p_def catch_p_def resolve_def Let_def split: sum.splits)

lemma gather_resolved:
  assumes "length acc = length xs"
  shows "\<exists>vals. gather order (map (\<lambda>x. Some (Inr (g x))) xs) acc = Inr vals \<and>
           length vals = length xs \<and>
           (\<forall>i < length xs. vals ! i = (if i \<in> set order then Some (g (xs ! i)) else acc ! i))"
  using assms
proof (induction order arbitrary: acc)
  case Nil
  then show ?case by simp
next
  case (Cons j order)
  show ?case
  proof (cases "j < length xs")
    case False
    with Cons.IH[OF Cons.prems] show ?thesis by auto
  next
    case True
    have "length (acc[j := Some (g (xs ! j))]) = length xs" using Cons.prems by simp
    from Cons.IH[OF this] obtain vals where
      v: "gather order (map (\<lambda>x. Some (Inr (g x))) xs) (acc[j := Some (g (xs ! j))]) = Inr vals"
        "length vals = length xs"
        "\<forall>i < length xs. vals ! i =
            (if i \<in> set order then Some (g (xs ! i)) else (acc[j := Some (g (xs ! j))]) ! i)"
      by blast
    have "gather (j # order) (map (\<lambda>x. Some (Inr (g x))) xs) acc = Inr vals"
      using True v(1) by simp
    moreover have "\<forall>i < length xs. vals ! i =
        (if i \<in> set (j # order) then Some (g (xs ! i)) else acc ! i)"
      using v(3) True Cons.prems by (auto simp: nth_list_update)
    ultimately show ?thesis using v(2) by blast
  qed
qed

lemma Promise_map_settled:
  assumes "\<forall>x \<in> set xs. f x = Some (Inr (g x), [h x])"
    and "{..<length xs} \<subseteq> set order"
  shows "Promise_map order f xs = Some (Inr (map g xs), map h xs)"
proof -
  have m: "map f xs = map (\<lambda>x. Some (Inr (g x), [h x])) xs"
    using assms(1) by (intro map_cong[OF refl]) simp
  have lg: "concat (map (\<lambda>p. case p of Some (r, l) \<Rightarrow> l | None \<Rightarrow> []) (map f xs)) = map h xs"
    unfolding m by (induction xs) simp_all
  have st: "map (map_option fst) (map f xs) = map (\<lambda>x. Some (Inr (g x))) xs"
    unfolding m by simp
  from gather_resolved[of "replicate (length xs) None" xs order g] obtain vals where
    v: "gather order (map (\<lambda>x. Some (Inr (g x))) xs) (replicate (length xs) None) = Inr vals"
      "length vals = length xs"
      "\<forall>i < length xs. vals ! i =
          (if i \<in> set order then Some (g (xs ! i)) else replicate (length xs) None ! i)"
    by auto
  have nth: "vals ! i = Some (g (xs ! i))" if "i < length xs" for i
    using v(3) that assms(2) by auto
  have vals: "vals = map (\<lambda>x. Some (g x)) xs"
    by (rule nth_equalityI) (simp_all add: v(2) nth)
  have all: "list_all (\<lambda>v. v \<noteq> None) vals"
    by (simp add: vals list_all_iff)
  have the: "map the vals = map g xs"
    by (simp add: vals comp_def)
  show ?thesis
    by (simp only: Promise_map_def Let_def lg st v(1) sum.case all the if_True)
qed

lemma Promise_map_pending:
  assumes "\<forall>x \<in> set xs. f x = Some (Inr (g x), [h x])"
    and "\<not> {..<length xs} \<subseteq> set order"
  shows "Promise_map order f xs = None"
proof -
  have m: "map f xs = map (\<lambda>x. Some (Inr (g x), [h x])) xs"
    using assms(1) by (intro map_cong[OF refl]) simp
  have st: "map (map_option fst) (map f xs) = map (\<lambda>x. Some (Inr (g x))) xs"
    unfolding m by simp
  from gather_resolved[of "replicate (length xs) None" xs order g] obtain vals where
    v: "gather order (map (\<lambda>x. Some (Inr (g x))) xs) (replicate (length xs) None) = Inr vals"
      "length vals = length xs"
      "\<forall>i < length xs. vals ! i =
          (if i \<in> set order then Some (g (xs ! i)) else replicate (length xs) None ! i)"
    by auto
  from assms(2) obtain i where i: "i < length xs" "i \<notin> set order" by auto
  with v(3) have "vals ! i = None" by simp
  with i(1) v(2) have "list_all (\<lambda>v. v \<noteq> None) vals = False"
    by (auto simp: list_all_length)
  then show ?thesis
    by (simp only: Promise_map_def Let_def st v(1) sum.case if_False)
qed

lemma multiAddRemoveRelationships_under_eq:
  assumes "idChunks_of cfg nodeId = Some idChunks"
    and "{..<length idChunks} \<subseteq> set (schedule (length idChunks))"
  shows "multiAddRemoveRelationships_under schedule env cfg meth node nodeId rl relType relIds relProp options =
     Some (aggregate (map (\<lambda>chunk. outcome_of env (batch_request cfg meth node rl relType relIds relProp options chunk)) idChunks),
           map (\<lambda>chunk. Request (batch_request cfg meth node rl relType relIds relProp options chunk)) idChunks)"
proof -
  have "Promise_map (schedule (length idChunks))
          (chunk_request env cfg meth node rl relType relIds relProp options) idChunks =
        Some (Inr (map (\<lambda>chunk. outcome_of env (batch_request cfg meth node rl relType relIds relProp options chunk)) idChunks),
              map (\<lambda>chunk. Request (batch_request cfg meth node rl relType relIds relProp options chunk)) idChunks)"
    using assms(2) by (intro Promise_map_settled) (simp_all add: chunk_request_eq)
  with assms(1) show ?thesis
    by (simp add: multiAddRemoveRelationships_under_def then_p_def)
qed

lemma multiAddRemoveRelationships_eq:
  "multiAddRemoveRelationships env cfg meth node nodeId rl relType relIds relProp options =
     (case idChunks_of cfg nodeId of
        None \<Rightarrow> None
      | Some idChunks \<Rightarrow>
          Some (aggregate (map (\<lambda>chunk. outcome_of env (batch_request cfg meth node rl relType relIds relProp options chunk)) idChunks),
                map (\<lambda>chunk. Request (batch_request cfg meth node rl relType relIds relProp options chunk)) idChunks))"
proof (cases "idChunks_of cfg nodeId")
  case None
  then show ?thesis
    by (simp add: multiAddRemoveRelationships_def multiAddRemoveRelationships_under_def)
next
  case (Some idChunks)
  have "{..<length idChunks} \<subseteq> set [0..<length idChunks]" by auto
  from multiAddRemoveRelationships_under_eq[where schedule = "\<lambda>n. [0..<n]", OF Some this] Some
  show ?thesis by (simp add: multiAddRemoveRelationships_def)
qed

lemma chunk_loop_chunks_of:
  assumes "0 < n"
  shows "chunk_loop n xs acc = Some (acc @ map Many (chunks_of n xs))"
proof (induction "length xs" arbitrary: xs acc rule: less_induct)
  case less
  show ?case
  proof (cases "xs = []")
    case True
    then show ?thesis
      by (subst chunk_loop.simps, subst chunks_of.simps) simp
  next
    case False
    then have "length (drop n xs) < length xs" using assms by simp
    from less[OF this, of "acc @ [Many (take n xs)]"]
    have ih: "chunk_loop n (drop n xs) (acc @ [Many (take n xs)]) =
          Some ((acc @ [Many (take n xs)]) @ map Many (chunks_of n (drop n xs)))" .
    have c: "chunks_of n xs = take n xs # chunks_of n (drop n xs)"
      using False assms by (subst chunks_of.simps) simp
    have "chunk_loop n xs acc = chunk_loop n (drop n xs) (acc @ [Many (take n xs)])"
      using False by (subst chunk_loop.simps) simp
    then show ?thesis by (simp add: ih c)
  qed
qed

lemma idChunks_of_eq:
  "0 < BATCH_USER_COUNT cfg \<Longrightarrow> idChunks_of cfg nodeId = Some (id_chunks cfg nodeId)"
  by (cases nodeId) (simp_all add: idChunks_of_def id_chunks_def chunk_loop_chunks_of)

lemma engine_under_eq:
  assumes "0 < BATCH_USER_COUNT cfg"
    and "{..<length (id_chunks cfg nodeId)} \<subseteq> set (schedule (length (id_chunks cfg nodeId)))"
  shows "multiAddRemoveRelationships_under schedule env cfg meth node nodeId rl relType relIds relProp options =
     Some (aggregate (chunk_outcomes env cfg meth node nodeId rl relType relIds relProp options),
           map Request (chunk_requests cfg meth node nodeId rl relType relIds relProp options))"
  using multiAddRemoveRelationships_under_eq[where idChunks = "id_chunks cfg nodeId" and nodeId = nodeId
      and schedule = schedule, OF idChunks_of_eq[OF assms(1)] assms(2)]
  by (simp add: chunk_outcomes_def chunk_requests_def comp_def)

lemma engine_eq:
  assumes "0 < BATCH_USER_COUNT cfg"
  shows "multiAddRemoveRelationships env cfg meth node nodeId rl relType relIds relProp options =
     Some (aggregate (chunk_outcomes env cfg meth node nodeId rl relType relIds relProp options),
           map Request (chunk_requests cfg meth node nodeId rl relType relIds relProp options))"
  by (simp add: multiAddRemoveRelationships_eq idChunks_of_eq[OF assms] chunk_outcomes_def
      chunk_requests_def comp_def)

subsection \<open>C4: chunking of the subject identifiers\<close>

text \<open>
  Claim C4. With a positive chunk size \<open>BATCH_USER_COUNT\<close>, a list of \<open>N\<close>
  identifiers is cut into consecutive, non-empty chunks of at most that size whose
  concatenation is the list, and the engine issues one request per chunk, that is
  \<open>N\<close> divided by the chunk size, rounded up. A single identifier that is not an array
  is one chunk and one request. The body of a chunk's request holds the object payloads,
  each with \<^verbatim>\<open>_rel\<close> set to \<^verbatim>\<open>relProp\<close> when there is one, and the chunk as
  \<^verbatim>\<open>ids\<close>.
\<close>

theorem batch_chunking:
  "(0 < BATCH_USER_COUNT cfg \<longrightarrow>
      (\<exists>chunks r.
         idChunks_of cfg (Many xs) = Some (map Many chunks) \<and>
         concat chunks = xs \<and>
         (\<forall>c \<in> set chunks. c \<noteq> [] \<and> length c \<le> BATCH_USER_COUNT cfg) \<and>
         length chunks = ceil_div (length xs) (BATCH_USER_COUNT cfg) \<and>
         multiAddRemoveRelationships env cfg meth node (Many xs) rl relType relIds relProp options =
           Some (r, map (\<lambda>c. Request (batch_request cfg meth node rl relType relIds relProp options (Many c)))
                      chunks) \<and>
         call_count (multiAddRemoveRelationships env cfg meth node (Many xs) rl relType relIds relProp options) =
           ceil_div (length xs) (BATCH_USER_COUNT cfg))) \<and>
   idChunks_of cfg (One x) = Some [One x] \<and>
   (\<exists>r. multiAddRemoveRelationships env cfg meth node (One x) rl relType relIds relProp options =
          Some (r, [Request (batch_request cfg meth node rl relType relIds relProp options (One x))])) \<and>
   data (batch_request cfg meth node rl relType relIds relProp options chunk) =
     Some (ChunkData
             (map (\<lambda>item. case relProp of Some p \<Rightarrow> item\<lparr>rel := Some p\<rparr> | None \<Rightarrow> item) relIds)
             chunk)"
proof (intro conjI impI)
  assume pos: "0 < BATCH_USER_COUNT cfg"
  from chunk_loop_total[OF pos, of xs "[]"] obtain cs where
    cs: "chunk_loop (BATCH_USER_COUNT cfg) xs [] = Some ([] @ map Many cs)" "concat cs = xs"
      "\<forall>c \<in> set cs. c \<noteq> [] \<and> length c \<le> BATCH_USER_COUNT cfg"
      "length cs = ceil_div (length xs) (BATCH_USER_COUNT cfg)"
    by blast
  have i: "idChunks_of cfg (Many xs) = Some (map Many cs)"
    using cs(1) by (simp add: idChunks_of_def)
  let ?log = "map (\<lambda>c. Request (batch_request cfg meth node rl relType relIds relProp options (Many c))) cs"
  let ?r = "aggregate (map (\<lambda>chunk. outcome_of env (batch_request cfg meth node rl relType relIds relProp options chunk)) (map Many cs))"
  have m: "multiAddRemoveRelationships env cfg meth node (Many xs) rl relType relIds relProp options =
        Some (?r, ?log)"
    by (simp add: multiAddRemoveRelationships_eq i comp_def)
  have n: "call_count (multiAddRemoveRelationships env cfg meth node (Many xs) rl relType relIds relProp options) =
           ceil_div (length xs) (BATCH_USER_COUNT cfg)"
    by (simp add: m call_count_def cs(4))
  from i cs(2,3,4) m n
  show "\<exists>chunks r.
         idChunks_of cfg (Many xs) = Some (map Many chunks) \<and>
         concat chunks = xs \<and>
         (\<forall>c \<in> set chunks. c \<noteq> [] \<and> length c \<le> BATCH_USER_COUNT cfg) \<and>
         length chunks = ceil_div (length xs) (BATCH_USER_COUNT cfg) \<and>
         multiAddRemoveRelationships env cfg meth node (Many xs) rl relType relIds relProp options =
           Some (r, map (\<lambda>c. Request (batch_request cfg meth node rl relType relIds relProp options (Many c)))
                      chunks) \<and>
         call_count (multiAddRemoveRelationships env cfg meth node (Many xs) rl relType relIds relProp options) =
           ceil_div (length xs) (BATCH_USER_COUNT cfg)"
    by (intro exI[of _ cs] exI[of _ ?r] conjI)
next
  show "idChunks_of cfg (One x) = Some [One x]"
    by (simp add: idChunks_of_def)
next
  show "\<exists>r. multiAddRemoveRelationships env cfg meth node (One x) rl relType relIds relProp options =
          Some (r, [Request (batch_request cfg meth node rl relType relIds relProp options (One x))])"
    by (simp add: multiAddRemoveRelationships_eq idChunks_of_def)
next
  show "data (batch_request cfg meth node rl relType relIds relProp options chunk) =
     Some (ChunkData
             (map (\<lambda>item. case relProp of Some p \<Rightarrow> item\<lparr>rel := Some p\<rparr> | None \<Rightarrow> item) relIds)
             chunk)"
    by (simp add: batch_request_def)
qed

text \<open>Five identifiers at the chunk size 2.\<close>

lemma chunk_loop_demo:
  "chunk_loop 2 [''u1'', ''u2'', ''u3'', ''u4'', ''u5''] [] =
     Some [Many [''u1'', ''u2''], Many [''u3'', ''u4''], Many [''u5'']]"
  by (subst chunk_loop.simps, simp)+

theorem batch_chunking_witness:
  "call_count (multiAddRemoveRelationships empty_remote demo_cfg ''POST'' ''user''
      (Many [''u1'', ''u2'', ''u3'', ''u4'', ''u5'']) ''followed'' ''concept'' two_subjects
      (Some [(''byTool'', ''KAT'')]) None) = 3 \<and>
   idChunks_of demo_cfg (Many [''u1'', ''u2'', ''u3'', ''u4'', ''u5'']) =
     Some [Many [''u1'', ''u2''], Many [''u3'', ''u4''], Many [''u5'']]"
proof -
  have pos: "0 < BATCH_USER_COUNT demo_cfg" by (simp add: demo_cfg_def)
  from batch_chunking[of demo_cfg "[''u1'', ''u2'', ''u3'', ''u4'', ''u5'']" empty_remote "''POST''" "''user''"
      "''followed''" "''concept''" two_subjects "Some [(''byTool'', ''KAT'')]" None, THEN conjunct1, THEN mp, OF pos]
  have "call_count (multiAddRemoveRelationships empty_remote demo_cfg ''POST'' ''user''
      (Many [''u1'', ''u2'', ''u3'', ''u4'', ''u5'']) ''followed'' ''concept'' two_subjects
      (Some [(''byTool'', ''KAT'')]) None) = ceil_div (length [''u1'', ''u2'', ''u3'', ''u4'', ''u5'']) (BATCH_USER_COUNT demo_cfg)"
    by blast
  moreover have "ceil_div (length [''u1'', ''u2'', ''u3'', ''u4'', ''u5'']) (BATCH_USER_COUNT demo_cfg) = 3"
    by (simp add: ceil_div_def demo_cfg_def)
  moreover have "idChunks_of demo_cfg (Many [''u1'', ''u2'', ''u3'', ''u4'', ''u5'']) =
     Some [Many [''u1'', ''u2''], Many [''u3'', ''u4''], Many [''u5'']]"
    by (simp add: idChunks_of_def demo_cfg_def chunk_loop_demo)
  ultimately show ?thesis by simp
qed

lemma aggregate_some_success:
  "\<exists>res \<in> set results. \<not> instanceof_Error res \<Longrightarrow> aggregate results = Inr results"
  by (auto simp: aggregate_def list_ex_iff)

lemma aggregate_single_failure: "aggregate [Captured err] = Inl err"
  by (simp add: aggregate_def)

lemma aggregate_all_failed:
  assumes "\<forall>res \<in> set results. instanceof_Error res" "length results \<noteq> 1"
  shows "aggregate results = Inl (ClientError generic_message)"
proof -
  have "list_ex (\<lambda>res. instanceof_Error res = False) results = False"
    using assms(1) by (simp add: list_ex_iff)
  moreover have "(case results of [Captured err] \<Rightarrow> Inl err | _ \<Rightarrow> Inl (ClientError generic_message)) =
        (Inl (ClientError generic_message) :: error + outcome list)"
    using assms(2) by (auto split: list.splits outcome.splits)
  ultimately show ?thesis by (simp add: aggregate_def)
qed

lemma single_failure_shape:
  assumes "\<forall>res \<in> set results. instanceof_Error res" "length results = 1"
  shows "\<exists>err. results = [Captured err]"
proof -
  from assms(2) obtain res where r: "results = [res]"
    by (cases results) auto
  with assms(1) obtain err where "res = Captured err" by (cases res) auto
  with r show ?thesis by blast
qed

subsection \<open>C1: aggregation of the chunk outcomes\<close>

text \<open>
  Claim C1. Let the chunk size be positive. Under every schedule that lets every chunk
  request settle, whatever the order in which they settle, the batch engine settles,
  after one request per chunk, with the outcomes of the chunks by chunk position. If at
  least one outcome is not an error, the engine resolves with the whole list, successes
  and captured errors mixed, each at the index of its chunk. If the only chunk failed,
  the engine rejects with that chunk's error itself. If two or more chunks all failed,
  it rejects with one \<open>ClientError\<close> whose message is fixed and carries none of the
  chunk errors. The engine of the operations is the engine under any such schedule.
  Under a schedule that leaves a chunk request unsettled the engine does not settle.
\<close>

theorem batch_aggregation_policy:
  "(0 < BATCH_USER_COUNT cfg \<and>
    {..<length (id_chunks cfg nodeId)} \<subseteq> set (schedule (length (id_chunks cfg nodeId))) \<longrightarrow>
      ((\<exists>res \<in> set (chunk_outcomes env cfg meth node nodeId rl relType relIds relProp options).
           \<not> instanceof_Error res) \<longrightarrow>
         multiAddRemoveRelationships_under schedule env cfg meth node nodeId rl relType relIds relProp options =
           Some (Inr (chunk_outcomes env cfg meth node nodeId rl relType relIds relProp options),
                 map Request (chunk_requests cfg meth node nodeId rl relType relIds relProp options))) \<and>
      ((\<forall>res \<in> set (chunk_outcomes env cfg meth node nodeId rl relType relIds relProp options).
           instanceof_Error res) \<and>
       length (chunk_outcomes env cfg meth node nodeId rl relType relIds relProp options) = 1 \<longrightarrow>
         (\<exists>err. chunk_outcomes env cfg meth node nodeId rl relType relIds relProp options = [Captured err] \<and>
            multiAddRemoveRelationships_under schedule env cfg meth node nodeId rl relType relIds relProp options =
              Some (Inl err,
                    map Request (chunk_requests cfg meth node nodeId rl relType relIds relProp options)))) \<and>
      ((\<forall>res \<in> set (chunk_outcomes env cfg meth node nodeId rl relType relIds relProp options).
           instanceof_Error res) \<and>
       2 \<le> length (chunk_outcomes env cfg meth node nodeId rl relType relIds relProp options) \<longrightarrow>
         multiAddRemoveRelationships_under schedule env cfg meth node nodeId rl relType relIds relProp options =
           Some (Inl (ClientError generic_message),
                 map Request (chunk_requests cfg meth node nodeId rl relType relIds relProp options))) \<and>
      multiAddRemoveRelationships env cfg meth node nodeId rl relType relIds relProp options =
        multiAddRemoveRelationships_under schedule env cfg meth node nodeId rl relType relIds relProp options) \<and>
   (0 < BATCH_USER_COUNT cfg \<and>
    \<not> {..<length (id_chunks cfg nodeId)} \<subseteq> set (schedule (length (id_chunks cfg nodeId))) \<longrightarrow>
      multiAddRemoveRelationships_under schedule env cfg meth node nodeId rl relType relIds relProp options =
        None)"
proof (intro conjI impI)
  assume h: "0 < BATCH_USER_COUNT cfg \<and>
    {..<length (id_chunks cfg nodeId)} \<subseteq> set (schedule (length (id_chunks cfg nodeId)))"
  let ?outs = "chunk_outcomes env cfg meth node nodeId rl relType relIds relProp options"
  let ?log = "map Request (chunk_requests cfg meth node nodeId rl relType relIds relProp options)"
  from h have e: "multiAddRemoveRelationships_under schedule env cfg meth node nodeId rl relType relIds
        relProp options = Some (aggregate ?outs, ?log)"
    by (intro engine_under_eq) simp_all
  {
    assume "\<exists>res \<in> set ?outs. \<not> instanceof_Error res"
    then show "multiAddRemoveRelationships_under schedule env cfg meth node nodeId rl relType relIds
        relProp options = Some (Inr ?outs, ?log)"
      by (simp add: e aggregate_some_success)
  }
  {
    assume "(\<forall>res \<in> set ?outs. instanceof_Error res) \<and> length ?outs = 1"
    then obtain err where err: "?outs = [Captured err]"
      using single_failure_shape by blast
    then have "aggregate ?outs = Inl err" by (simp add: aggregate_single_failure)
    with err show "\<exists>err. ?outs = [Captured err] \<and>
        multiAddRemoveRelationships_under schedule env cfg meth node nodeId rl relType relIds
          relProp options = Some (Inl err, ?log)"
      by (simp add: e)
  }
  {
    assume "(\<forall>res \<in> set ?outs. instanceof_Error res) \<and> 2 \<le> length ?outs"
    then have "aggregate ?outs = Inl (ClientError generic_message)"
      by (intro aggregate_all_failed) auto
    then show "multiAddRemoveRelationships_under schedule env cfg meth node nodeId rl relType relIds
        relProp options = Some (Inl (ClientError generic_message), ?log)"
      by (simp add: e)
  }
  from h show "multiAddRemoveRelationships env cfg meth node nodeId rl relType relIds relProp options =
        multiAddRemoveRelationships_under schedule env cfg meth node nodeId rl relType relIds relProp options"
    by (simp add: e engine_eq)
next
  assume h: "0 < BATCH_USER_COUNT cfg \<and>
    \<not> {..<length (id_chunks cfg nodeId)} \<subseteq> set (schedule (length (id_chunks cfg nodeId)))"
  then have i: "idChunks_of cfg nodeId = Some (id_chunks cfg nodeId)"
    by (simp add: idChunks_of_eq)
  have "Promise_map (schedule (length (id_chunks cfg nodeId)))
          (chunk_request env cfg meth node rl relType relIds relProp options) (id_chunks cfg nodeId) = None"
  proof (rule Promise_map_pending[where
        g = "\<lambda>chunk. outcome_of env (batch_request cfg meth node rl relType relIds relProp options chunk)"
        and h = "\<lambda>chunk. Request (batch_request cfg meth node rl relType relIds relProp options chunk)"])
    show "\<forall>x \<in> set (id_chunks cfg nodeId).
            chunk_request env cfg meth node rl relType relIds relProp options x =
            Some (Inr (outcome_of env (batch_request cfg meth node rl relType relIds relProp options x)),
                  [Request (batch_request cfg meth node rl relType relIds relProp options x)])"
      by (simp add: chunk_request_eq)
    from h show "\<not> {..<length (id_chunks cfg nodeId)} \<subseteq> set (schedule (length (id_chunks cfg nodeId)))"
      by simp
  qed
  then show "multiAddRemoveRelationships_under schedule env cfg meth node nodeId rl relType relIds
        relProp options = None"
    by (simp add: multiAddRemoveRelationships_under_def i then_p_def)
qed

lemma chunk_loop_flaky:
  "chunk_loop 2 [''u1'', ''u2'', ''bad''] [] = Some [Many [''u1'', ''u2''], Many [''bad'']]"
  by (subst chunk_loop.simps, simp)+

lemma flaky_run:
  "multiAddRemoveRelationships flaky_remote demo_cfg ''POST'' node (Many [''u1'', ''u2'', ''bad''])
      ''followed'' ''concept'' two_subjects None None =
   Some (Inr [Resolved ok_body, Captured (NotFoundError ''no such user'')],
         [Request (batch_request demo_cfg ''POST'' node ''followed'' ''concept'' two_subjects None None
                     (Many [''u1'', ''u2''])),
          Request (batch_request demo_cfg ''POST'' node ''followed'' ''concept'' two_subjects None None
                     (Many [''bad'']))])"
proof -
  have i: "idChunks_of demo_cfg (Many [''u1'', ''u2'', ''bad'']) = Some [Many [''u1'', ''u2''], Many [''bad'']]"
    by (simp add: idChunks_of_def demo_cfg_def chunk_loop_flaky)
  have o1: "outcome_of flaky_remote (batch_request demo_cfg ''POST'' node ''followed'' ''concept''
              two_subjects None None (Many [''u1'', ''u2''])) = Resolved ok_body"
    by (simp add: outcome_of_def reply_def flaky_remote_def batch_request_def)
  have o2: "outcome_of flaky_remote (batch_request demo_cfg ''POST'' node ''followed'' ''concept''
              two_subjects None None (Many [''bad''])) = Captured (NotFoundError ''no such user'')"
    by (simp add: outcome_of_def reply_def flaky_remote_def batch_request_def)
  show ?thesis
    by (simp add: multiAddRemoveRelationships_eq i o1 o2 aggregate_def)
qed

lemma chunks_of_mixed: "chunks_of 2 [''u1'', ''u2'', ''bad''] = [[''u1'', ''u2''], [''bad'']]"
  by (subst chunks_of.simps, simp)+

lemma chunks_of_one: "chunks_of 2 [''bad''] = [[''bad'']]"
  by (subst chunks_of.simps, simp)+

lemma chunks_of_failing: "chunks_of 2 [''bad'', ''u1'', ''bad''] = [[''bad'', ''u1''], [''bad'']]"
  by (subst chunks_of.simps, simp)+

lemma flaky_outcome:
  "outcome_of flaky_remote (batch_request demo_cfg meth node rl relType relIds relProp options (Many uuids)) =
     (if ''bad'' \<in> set uuids then Captured (NotFoundError ''no such user'') else Resolved ok_body)"
  by (simp add: outcome_of_def reply_def flaky_remote_def batch_request_def)

text \<open>
  Chunks of size 2 that settle last to first: a success beside a failure, one failing
  chunk, two failing chunks, and a schedule under which the second chunk never settles.
\<close>

theorem batch_aggregation_policy_witness:
  "multiAddRemoveRelationships_under (\<lambda>n. rev [0..<n]) flaky_remote demo_cfg ''POST'' ''user''
      (Many [''u1'', ''u2'', ''bad'']) ''followed'' ''concept'' two_subjects None None =
     Some (Inr [Resolved ok_body, Captured (NotFoundError ''no such user'')],
           [Request (batch_request demo_cfg ''POST'' ''user'' ''followed'' ''concept'' two_subjects None None
                       (Many [''u1'', ''u2''])),
            Request (batch_request demo_cfg ''POST'' ''user'' ''followed'' ''concept'' two_subjects None None
                       (Many [''bad'']))]) \<and>
   multiAddRemoveRelationships flaky_remote demo_cfg ''POST'' ''user''
      (Many [''u1'', ''u2'', ''bad'']) ''followed'' ''concept'' two_subjects None None =
     multiAddRemoveRelationships_under (\<lambda>n. rev [0..<n]) flaky_remote demo_cfg ''POST'' ''user''
      (Many [''u1'', ''u2'', ''bad'']) ''followed'' ''concept'' two_subjects None None \<and>
   multiAddRemoveRelationships_under (\<lambda>n. rev [0..<n]) flaky_remote demo_cfg ''POST'' ''user''
      (Many [''bad'']) ''followed'' ''concept'' two_subjects None None =
     Some (Inl (NotFoundError ''no such user''),
           [Request (batch_request demo_cfg ''POST'' ''user'' ''followed'' ''concept'' two_subjects None None
                       (Many [''bad'']))]) \<and>
   multiAddRemoveRelationships_under (\<lambda>n. rev [0..<n]) flaky_remote demo_cfg ''POST'' ''user''
      (Many [''bad'', ''u1'', ''bad'']) ''followed'' ''concept'' two_subjects None None =
     Some (Inl (ClientError generic_message),
           [Request (batch_request demo_cfg ''POST'' ''user'' ''followed'' ''concept'' two_subjects None None
                       (Many [''bad'', ''u1''])),
            Request (batch_request demo_cfg ''POST'' ''user'' ''followed'' ''concept'' two_subjects None None
                       (Many [''bad'']))]) \<and>
   multiAddRemoveRelationships_under (\<lambda>n. [0]) flaky_remote demo_cfg ''POST'' ''user''
      (Many [''u1'', ''u2'', ''bad'']) ''followed'' ''concept'' two_subjects None None = None"
proof -
  have pos: "0 < BATCH_USER_COUNT demo_cfg" by (simp add: demo_cfg_def)
  have i1: "id_chunks demo_cfg (Many [''u1'', ''u2'', ''bad'']) = [Many [''u1'', ''u2''], Many [''bad'']]"
    by (simp add: id_chunks_def demo_cfg_def chunks_of_mixed)
  have i2: "id_chunks demo_cfg (Many [''bad'']) = [Many [''bad'']]"
    by (simp add: id_chunks_def demo_cfg_def chunks_of_one)
  have i3: "id_chunks demo_cfg (Many [''bad'', ''u1'', ''bad'']) = [Many [''bad'', ''u1''], Many [''bad'']]"
    by (simp add: id_chunks_def demo_cfg_def chunks_of_failing)
  have n2: "\<not> {..<Suc (Suc 0)} \<subseteq> {0::nat}"
  proof
    assume "{..<Suc (Suc 0)} \<subseteq> {0::nat}"
    moreover have "Suc 0 \<in> {..<Suc (Suc 0)}" by simp
    ultimately have "Suc 0 \<in> {0::nat}" by (rule subsetD)
    thus False by simp
  qed
  note T1 = batch_aggregation_policy[where cfg = demo_cfg and nodeId = "Many [''u1'', ''u2'', ''bad'']"
      and schedule = "\<lambda>n. rev [0..<n]" and env = flaky_remote and meth = "''POST''" and node = "''user''"
      and rl = "''followed''" and relType = "''concept''" and relIds = two_subjects and relProp = None
      and options = None, THEN conjunct1, THEN mp]
  note T2 = batch_aggregation_policy[where cfg = demo_cfg and nodeId = "Many [''bad'']"
      and schedule = "\<lambda>n. rev [0..<n]" and env = flaky_remote and meth = "''POST''" and node = "''user''"
      and rl = "''followed''" and relType = "''concept''" and relIds = two_subjects and relProp = None
      and options = None, THEN conjunct1, THEN mp]
  note T3 = batch_aggregation_policy[where cfg = demo_cfg and nodeId = "Many [''bad'', ''u1'', ''bad'']"
      and schedule = "\<lambda>n. rev [0..<n]" and env = flaky_remote and meth = "''POST''" and node = "''user''"
      and rl = "''followed''" and relType = "''concept''" and relIds = two_subjects and relProp = None
      and options = None, THEN conjunct1, THEN mp]
  note T4 = batch_aggregation_policy[where cfg = demo_cfg and nodeId = "Many [''u1'', ''u2'', ''bad'']"
      and schedule = "\<lambda>n. [0]" and env = flaky_remote and meth = "''POST''" and node = "''user''"
      and rl = "''followed''" and relType = "''concept''" and relIds = two_subjects and relProp = None
      and options = None, THEN conjunct2, THEN mp]
  have h1: "0 < BATCH_USER_COUNT demo_cfg \<and>
      {..<length (id_chunks demo_cfg (Many [''u1'', ''u2'', ''bad'']))} \<subseteq>
      set (rev [0..<length (id_chunks demo_cfg (Many [''u1'', ''u2'', ''bad'']))])"
    using pos by (auto simp: i1)
  have h2: "0 < BATCH_USER_COUNT demo_cfg \<and>
      {..<length (id_chunks demo_cfg (Many [''bad'']))} \<subseteq>
      set (rev [0..<length (id_chunks demo_cfg (Many [''bad'']))])"
    using pos by (auto simp: i2)
  have h3: "0 < BATCH_USER_COUNT demo_cfg \<and>
      {..<length (id_chunks demo_cfg (Many [''bad'', ''u1'', ''bad'']))} \<subseteq>
      set (rev [0..<length (id_chunks demo_cfg (Many [''bad'', ''u1'', ''bad'']))])"
    using pos by (auto simp: i3)
  have h4: "0 < BATCH_USER_COUNT demo_cfg \<and>
      \<not> {..<length (id_chunks demo_cfg (Many [''u1'', ''u2'', ''bad'']))} \<subseteq> set [0]"
    using pos n2 by (simp add: i1)
  have o1: "chunk_outcomes flaky_remote demo_cfg ''POST'' ''user'' (Many [''u1'', ''u2'', ''bad''])
              ''followed'' ''concept'' two_subjects None None =
            [Resolved ok_body, Captured (NotFoundError ''no such user'')]"
    by (simp add: chunk_outcomes_def chunk_requests_def i1 flaky_outcome)
  have o2: "chunk_outcomes flaky_remote demo_cfg ''POST'' ''user'' (Many [''bad''])
              ''followed'' ''concept'' two_subjects None None =
            [Captured (NotFoundError ''no such user'')]"
    by (simp add: chunk_outcomes_def chunk_requests_def i2 flaky_outcome)
  have o3: "chunk_outcomes flaky_remote demo_cfg ''POST'' ''user'' (Many [''bad'', ''u1'', ''bad''])
              ''followed'' ''concept'' two_subjects None None =
            [Captured (NotFoundError ''no such user''), Captured (NotFoundError ''no such user'')]"
    by (simp add: chunk_outcomes_def chunk_requests_def i3 flaky_outcome)
  have c1: "multiAddRemoveRelationships_under (\<lambda>n. rev [0..<n]) flaky_remote demo_cfg ''POST'' ''user''
      (Many [''u1'', ''u2'', ''bad'']) ''followed'' ''concept'' two_subjects None None =
     Some (Inr [Resolved ok_body, Captured (NotFoundError ''no such user'')],
           [Request (batch_request demo_cfg ''POST'' ''user'' ''followed'' ''concept'' two_subjects None None
                       (Many [''u1'', ''u2''])),
            Request (batch_request demo_cfg ''POST'' ''user'' ''followed'' ''concept'' two_subjects None None
                       (Many [''bad'']))])"
    using T1[OF h1, THEN conjunct1] by (simp add: o1 chunk_requests_def i1)
  have c1': "multiAddRemoveRelationships flaky_remote demo_cfg ''POST'' ''user''
      (Many [''u1'', ''u2'', ''bad'']) ''followed'' ''concept'' two_subjects None None =
     multiAddRemoveRelationships_under (\<lambda>n. rev [0..<n]) flaky_remote demo_cfg ''POST'' ''user''
      (Many [''u1'', ''u2'', ''bad'']) ''followed'' ''concept'' two_subjects None None"
    by (rule T1[OF h1, THEN conjunct2, THEN conjunct2, THEN conjunct2])
  have c2: "multiAddRemoveRelationships_under (\<lambda>n. rev [0..<n]) flaky_remote demo_cfg ''POST'' ''user''
      (Many [''bad'']) ''followed'' ''concept'' two_subjects None None =
     Some (Inl (NotFoundError ''no such user''),
           [Request (batch_request demo_cfg ''POST'' ''user'' ''followed'' ''concept'' two_subjects None None
                       (Many [''bad'']))])"
    using T2[OF h2, THEN conjunct2, THEN conjunct1] by (simp add: o2 chunk_requests_def i2)
  have c3: "multiAddRemoveRelationships_under (\<lambda>n. rev [0..<n]) flaky_remote demo_cfg ''POST'' ''user''
      (Many [''bad'', ''u1'', ''bad'']) ''followed'' ''concept'' two_subjects None None =
     Some (Inl (ClientError generic_message),
           [Request (batch_request demo_cfg ''POST'' ''user'' ''followed'' ''concept'' two_subjects None None
                       (Many [''bad'', ''u1''])),
            Request (batch_request demo_cfg ''POST'' ''user'' ''followed'' ''concept'' two_subjects None None
                       (Many [''bad'']))])"
    using T3[OF h3, THEN conjunct2, THEN conjunct2, THEN conjunct1] by (simp add: o3 chunk_requests_def i3)
  have c4: "multiAddRemoveRelationships_under (\<lambda>n. [0]) flaky_remote demo_cfg ''POST'' ''user''
      (Many [''u1'', ''u2'', ''bad'']) ''followed'' ''concept'' two_subjects None None = None"
    by (rule T4[OF h4])
  from c1 c1' c2 c3 c4 show ?thesis by (intro conjI)
qed

subsection \<open>The calls of the workflow\<close>

lemma follow_props_eq:
  "AList.update ''asMemberOf'' groupId (assign [] (followedProperties cfg)) = follow_props cfg groupId"
  by (simp add: assign_def followedProperties_def relationshipProperties_def follow_props_def)

lemma digestProperties_eq:
  "digestProperties cfg = [(''type'', ''daily''), (''timezone'', ''Europe/London''),
                             (''byTool'', FT_TOOL_ID cfg), (''byUser'', FT_TOOL_ADMIN_ID cfg)]"
  by (simp add: assign_def digestProperties_def relationshipProperties_def)

lemma mutation_params_None:
  "mutation_params cfg None = [(''noEvent'', MYFT_NO_EVENT cfg), (''waitForPurge'', MYFT_WAIT_FOR_PURGE_ADD cfg)]"
  by (simp add: mutation_params_def assign_def)

lemma follow_request_eq:
  "batch_request cfg ''POST'' ''user'' ''followed'' ''concept'' concepts (Some (follow_props cfg groupId)) None
     (One userId) = follow_request cfg groupId userId concepts"
  by (simp add: batch_request_def follow_request_def mutation_params_None)

lemma create_preference_request_eq:
  "batch_request cfg ''POST'' ''user'' ''preferred'' ''preference''
     [\<lparr>uuid = ''email-digest'', rel = None, attrs = []\<rparr>] (Some (digestProperties cfg)) None (One userId) =
   create_preference_request cfg userId"
  by (simp add: batch_request_def create_preference_request_def mutation_params_None digestProperties_eq)

lemma single_chunk_run:
  "multiAddRemoveRelationships env cfg meth node (One x) rl relType relIds relProp options =
     (case reply env (batch_request cfg meth node rl relType relIds relProp options (One x)) of
        Inr res \<Rightarrow> Some (Inr [Resolved res],
                          [Request (batch_request cfg meth node rl relType relIds relProp options (One x))])
      | Inl err \<Rightarrow> Some (Inl err,
                          [Request (batch_request cfg meth node rl relType relIds relProp options (One x))]))"
  by (simp add: multiAddRemoveRelationships_eq idChunks_of_def outcome_of_def aggregate_def
      split: sum.splits)

lemma addConceptsFollowedByUser_One:
  "addConceptsFollowedByUser env cfg (One userId) concepts (Some (follow_props cfg groupId)) =
     (case reply env (follow_request cfg groupId userId concepts) of
        Inr res \<Rightarrow> Some (Inr (Outcomes [Resolved res]), [Request (follow_request cfg groupId userId concepts)])
      | Inl err \<Rightarrow> Some (Inl err, [Request (follow_request cfg groupId userId concepts)]))"
  by (simp add: addConceptsFollowedByUser_def addRemoveConceptsFollowed_def single_chunk_run
      follow_request_eq then_p_def resolve_def split: sum.splits)

lemma setEmailDigestPreference_One:
  "setEmailDigestPreference env cfg (One userId) (digestProperties cfg) None =
     (case reply env (create_preference_request cfg userId) of
        Inr res \<Rightarrow> Some (Inr (Outcomes [Resolved res]), [Request (create_preference_request cfg userId)])
      | Inl err \<Rightarrow> Some (Inl err, [Request (create_preference_request cfg userId)]))"
  by (simp add: setEmailDigestPreference_def single_chunk_run create_preference_request_eq
      then_p_def resolve_def split: sum.splits)

lemma getEmailDigestPreference_eq:
  "getEmailDigestPreference env cfg userId =
     (case reply env (preference_request cfg userId) of
        Inr res \<Rightarrow> Some (Inr (Parsed res), [Request (preference_request cfg userId)])
      | Inl err \<Rightarrow> Some (Inl err, [Request (preference_request cfg userId)]))"
  by (simp add: getEmailDigestPreference_def parse_p_def createAndTriggerRelationshipRequest_def
      doRelationshipRequest_def relationship_url_def preference_request_def reply_def
      then_p_def resolve_def Let_def split: sum.splits)

lemma ensure_preference_eq:
  "ensure_preference env cfg userId =
     (case reply env (preference_request cfg userId) of
        Inr res \<Rightarrow> Some (Inr (Parsed res), [Request (preference_request cfg userId)])
      | Inl err \<Rightarrow>
          if is_NotFoundError err then
            (case reply env (create_preference_request cfg userId) of
               Inr res \<Rightarrow> Some (Inr (Outcomes [Resolved res]),
                                 [Request (preference_request cfg userId),
                                  Request (create_preference_request cfg userId)])
             | Inl err' \<Rightarrow> Some (Inl err',
                                 [Request (preference_request cfg userId),
                                  Request (create_preference_request cfg userId)]))
          else Some (Inl err, [Request (preference_request cfg userId)]))"
  by (simp add: ensure_preference_def getEmailDigestPreference_eq setEmailDigestPreference_One
      catch_p_def reject_def split: sum.splits error.splits)

lemma thenFn_reads_only:
  assumes "thenFn env cfg node nodeId rl rn pg acc log r = Some y"
  shows "(\<forall>e \<in> set log. \<not> is_mutation e) \<longrightarrow> (\<forall>e \<in> set (snd y). \<not> is_mutation e)"
proof (rule thenFn.raw_induct[where P = "\<lambda>env cfg node nodeId rl rn pg acc log r y.
          (\<forall>e \<in> set log. \<not> is_mutation e) \<longrightarrow> (\<forall>e \<in> set (snd y). \<not> is_mutation e)", OF _ assms],
       goal_cases)
  case (1 thenFn' env cfg node nodeId rl rn pg acc log r y)
  show ?case
  proof
    assume lg: "\<forall>e \<in> set log. \<not> is_mutation e"
    have pr: "\<not> is_mutation (Request (page_request cfg node nodeId rl rn (Suc pg)))"
      by (simp add: page_request_def)
    show "\<forall>e \<in> set (snd y). \<not> is_mutation e"
    proof (cases "items r")
      case None
      with 1(2) lg show ?thesis by auto
    next
      case (Some its)
      show ?thesis
      proof (cases "more_pages pg 500 r")
        case False
        with 1(2) Some lg show ?thesis by auto
      next
        case True
        show ?thesis
        proof (cases "reply env (page_request cfg node nodeId rl rn (Suc pg))")
          case (Inl err)
          with 1(2) Some True lg pr show ?thesis by (auto simp: parse_page)
        next
          case (Inr r')
          with 1(2) Some True have "thenFn' env cfg node nodeId rl rn (pg + 1) (acc @ its)
              (log @ [Request (page_request cfg node nodeId rl rn (Suc pg))]) r' = Some y"
            by (simp add: parse_page)
          from 1(1)[OF this] lg pr show ?thesis by simp
        qed
      qed
    qed
  qed
qed

lemma getAllNodeItems_reads_only:
  assumes "getAllNodeItems env cfg node nodeId rl rn = Some (r, log)"
  shows "filter is_mutation log = []"
proof -
  have pr: "\<not> is_mutation (Request (page_request cfg node nodeId rl rn 1))"
    by (simp add: page_request_def)
  have "\<forall>e \<in> set log. \<not> is_mutation e"
  proof (cases "reply env (page_request cfg node nodeId rl rn 1)")
    case (Inl err)
    with assms pr show ?thesis by (auto simp: getAllNodeItems_first)
  next
    case (Inr r1)
    with assms have "thenFn env cfg node nodeId rl rn 1 []
        [Request (page_request cfg node nodeId rl rn 1)] r1 = Some (r, log)"
      by (simp add: getAllNodeItems_first)
    from thenFn_reads_only[OF this] pr show ?thesis by simp
  qed
  then show ?thesis by (simp add: filter_empty_conv)
qed

lemma absorbed_reads_only:
  assumes "catch_p (getAllNodeItems env cfg node nodeId rl rn) absorb_not_found = Some (r, log)"
  shows "filter is_mutation log = []"
proof (cases "getAllNodeItems env cfg node nodeId rl rn")
  case None
  with assms show ?thesis by (simp add: catch_p_def)
next
  case (Some p)
  obtain r0 log0 where p: "p = (r0, log0)" by (cases p)
  from Some p have "filter is_mutation log0 = []" by (intro getAllNodeItems_reads_only) simp
  moreover from assms Some p have "log = log0"
    by (auto simp: catch_p_def absorb_not_found_def resolve_def reject_def
        split: sum.splits error.splits)
  ultimately show ?thesis by simp
qed

lemma sync_after_group:
  "catch_p (getConceptsFollowedByGroup env cfg groupId) absorb_not_found = Some (Inr G, log1) \<Longrightarrow>
   syncUserFollowers env cfg groupId userId =
     (case with_group_concepts env cfg groupId userId G of
        None \<Rightarrow> None | Some (r, log) \<Rightarrow> Some (r, log1 @ log))"
  by (simp add: syncUserFollowers_def then_p_def)

lemma sync_group_failed:
  "catch_p (getConceptsFollowedByGroup env cfg groupId) absorb_not_found = Some (Inl err, log1) \<Longrightarrow>
   syncUserFollowers env cfg groupId userId = Some (Inl err, log1)"
  by (simp add: syncUserFollowers_def then_p_def)

lemma with_group_concepts_empty:
  "with_group_concepts env cfg groupId userId [] =
     Some (Inr (ignored groupId userId ''noGroupConceptsToFollow''), [])"
  by (simp add: with_group_concepts_def resolve_def ignored_def)

lemma with_group_concepts_after_user:
  "G \<noteq> [] \<Longrightarrow>
   catch_p (getConceptsFollowedByUser env cfg userId) absorb_not_found = Some (Inr U, log2) \<Longrightarrow>
   with_group_concepts env cfg groupId userId G =
     (case with_user_concepts env cfg groupId userId G U of
        None \<Rightarrow> None | Some (r, log) \<Rightarrow> Some (r, log2 @ log))"
  by (simp add: with_group_concepts_def then_p_def)

lemma with_group_concepts_user_failed:
  "G \<noteq> [] \<Longrightarrow>
   catch_p (getConceptsFollowedByUser env cfg userId) absorb_not_found = Some (Inl err, log2) \<Longrightarrow>
   with_group_concepts env cfg groupId userId G = Some (Inl err, log2)"
  by (simp add: with_group_concepts_def then_p_def)

lemma with_user_concepts_eq:
  "with_user_concepts env cfg groupId userId G U =
     (if new_concepts G U = [] then Some (Inr (ignored groupId userId ''noNewConceptsToFollow''), [])
      else follow_new_concepts env cfg groupId userId (new_concepts G U))"
  by (simp add: with_user_concepts_def new_concepts_def resolve_def ignored_def Let_def)

lemma new_concepts_empty_iff: "new_concepts G U = [] \<longleftrightarrow> uuid ` set G \<subseteq> uuid ` set U"
  by (auto simp: new_concepts_def filter_empty_conv)

lemma follow_new_concepts_eq:
  "follow_new_concepts env cfg groupId userId concepts =
     (case reply env (follow_request cfg groupId userId concepts) of
        Inl err \<Rightarrow> Some (Inl err, [Request (follow_request cfg groupId userId concepts)])
      | Inr res \<Rightarrow>
          (case ensure_preference env cfg userId of
             None \<Rightarrow> None
           | Some (Inl err, log) \<Rightarrow>
               Some (Inl err, Request (follow_request cfg groupId userId concepts) # log)
           | Some (Inr v, log) \<Rightarrow>
               (case kinesis_write env userId ''subscribe'' (map strip_rel concepts) of
                  Inl err \<Rightarrow>
                    Some (Inl err, Request (follow_request cfg groupId userId concepts) # log @
                                   [KinesisWrite userId ''subscribe'' (map strip_rel concepts)])
                | Inr done \<Rightarrow>
                    Some (Inr (completed groupId userId concepts),
                          Request (follow_request cfg groupId userId concepts) # log @
                          [KinesisWrite userId ''subscribe'' (map strip_rel concepts)]))))"
proof -
  have s: "(\<lambda>item. item\<lparr>rel := None\<rparr>) = strip_rel"
    by (simp add: strip_rel_def fun_eq_iff)
  show ?thesis
    by (simp add: follow_new_concepts_def follow_props_eq addConceptsFollowedByUser_One s
        kinesis_write_p_def then_p_def resolve_def completed_def Let_def
        split: sum.splits option.splits prod.splits)
qed

lemma preference_request_reads: "\<not> is_mutation (Request (preference_request cfg userId))"
  by (simp add: preference_request_def)

lemma preference_log_mutations:
  "filter is_mutation
     (case rp of Inl err \<Rightarrow> [Request (create_preference_request cfg userId)] | Inr res \<Rightarrow> []) =
   (case rp of Inl err \<Rightarrow> [Request (create_preference_request cfg userId)] | Inr res \<Rightarrow> [])"
  by (simp add: create_preference_request_def split: sum.splits)

subsection \<open>C2: the completed path of the workflow\<close>

text \<open>
  Claim C2. Let the group's fetch resolve with the concepts \<open>G\<close> and the user's with
  \<open>U\<close> (a not-found counting as the empty list), with some uuid of \<open>G\<close> not among
  the uuids of \<open>U\<close>, and let the calls of the completed path succeed. Then the new
  concepts are the elements of \<open>G\<close> whose uuid is not a uuid of \<open>U\<close>, in the order
  of \<open>G\<close>; the workflow adds them as followed by the user in one request whose
  subjects carry the follow properties with \<open>asMemberOf\<close> set to the group id; it
  reads the digest preference and creates one exactly when the read reports not-found;
  it emits one \<open>subscribe\<close> event with the user id and the new concepts without their
  \<^verbatim>\<open>_rel\<close>; and it resolves with the status \<open>synchronisationCompleted\<close>, the user id,
  the group id and the new concepts. These are all the calls besides the reads.
\<close>

theorem sync_completed_path:
  assumes "catch_p (getConceptsFollowedByGroup env cfg groupId) absorb_not_found = Some (Inr G, log1)"
    and "catch_p (getConceptsFollowedByUser env cfg userId) absorb_not_found = Some (Inr U, log2)"
    and "\<not> uuid ` set G \<subseteq> uuid ` set U"
    and "reply env (follow_request cfg groupId userId (new_concepts G U)) = Inr added"
    and "reply env (preference_request cfg userId) = Inr pref \<or>
         reply env (preference_request cfg userId) = Inl (NotFoundError m) \<and>
         reply env (create_preference_request cfg userId) = Inr pref"
    and "kinesis_write env userId ''subscribe'' (map strip_rel (new_concepts G U)) = Inr ()"
  shows "syncUserFollowers env cfg groupId userId =
           Some (Inr \<lparr>user_uuid = userId, group = groupId, status = ''synchronisationCompleted'',
                      reason = None, newConceptsToFollow = Some (new_concepts G U)\<rparr>,
                 log1 @ log2 @
                 [Request (follow_request cfg groupId userId (new_concepts G U)),
                  Request (preference_request cfg userId)] @
                 (case reply env (preference_request cfg userId) of
                    Inl err \<Rightarrow> [Request (create_preference_request cfg userId)]
                  | Inr res \<Rightarrow> []) @
                 [KinesisWrite userId ''subscribe'' (map strip_rel (new_concepts G U))]) \<and>
         filter is_mutation
           (log1 @ log2 @
            [Request (follow_request cfg groupId userId (new_concepts G U)),
             Request (preference_request cfg userId)] @
            (case reply env (preference_request cfg userId) of
               Inl err \<Rightarrow> [Request (create_preference_request cfg userId)]
             | Inr res \<Rightarrow> []) @
            [KinesisWrite userId ''subscribe'' (map strip_rel (new_concepts G U))]) =
           [Request (follow_request cfg groupId userId (new_concepts G U))] @
           (case reply env (preference_request cfg userId) of
              Inl err \<Rightarrow> [Request (create_preference_request cfg userId)]
            | Inr res \<Rightarrow> []) @
           [KinesisWrite userId ''subscribe'' (map strip_rel (new_concepts G U))] \<and>
         new_concepts G U = filter (\<lambda>item. uuid item \<notin> uuid ` set U) G \<and>
         data (follow_request cfg groupId userId (new_concepts G U)) =
           Some (ChunkData (map (\<lambda>item. item\<lparr>rel := Some (follow_props cfg groupId)\<rparr>) (new_concepts G U))
                   (One userId)) \<and>
         map_of (follow_props cfg groupId) ''asMemberOf'' = Some groupId \<and>
         map strip_rel (new_concepts G U) = map (\<lambda>item. item\<lparr>rel := None\<rparr>) (new_concepts G U)"
proof -
  let ?new = "new_concepts G U"
  let ?follow = "Request (follow_request cfg groupId userId ?new)"
  let ?pl = "case reply env (preference_request cfg userId) of
               Inl err \<Rightarrow> [Request (create_preference_request cfg userId)]
             | Inr res \<Rightarrow> []"
  have ne: "?new \<noteq> []" using assms(3) by (simp add: new_concepts_empty_iff)
  then have G: "G \<noteq> []" by (auto simp: new_concepts_def)
  have ep: "\<exists>v. ensure_preference env cfg userId =
              Some (Inr v, Request (preference_request cfg userId) # ?pl)"
    using assms(5) by (auto simp: ensure_preference_eq)
  then obtain v where ep': "ensure_preference env cfg userId =
              Some (Inr v, Request (preference_request cfg userId) # ?pl)" by blast
  have f: "follow_new_concepts env cfg groupId userId ?new =
        Some (Inr (completed groupId userId ?new),
              ?follow # (Request (preference_request cfg userId) # ?pl) @
              [KinesisWrite userId ''subscribe'' (map strip_rel ?new)])"
    by (simp add: follow_new_concepts_eq assms(4) ep' assms(6))
  have w: "with_user_concepts env cfg groupId userId G U =
        Some (Inr (completed groupId userId ?new),
              ?follow # (Request (preference_request cfg userId) # ?pl) @
              [KinesisWrite userId ''subscribe'' (map strip_rel ?new)])"
    using ne by (simp add: with_user_concepts_eq f)
  have g: "with_group_concepts env cfg groupId userId G =
        Some (Inr (completed groupId userId ?new),
              log2 @ ?follow # (Request (preference_request cfg userId) # ?pl) @
              [KinesisWrite userId ''subscribe'' (map strip_rel ?new)])"
    by (simp add: with_group_concepts_after_user[OF G assms(2)] w)
  have s: "syncUserFollowers env cfg groupId userId =
        Some (Inr (completed groupId userId ?new),
              log1 @ log2 @ ?follow # (Request (preference_request cfg userId) # ?pl) @
              [KinesisWrite userId ''subscribe'' (map strip_rel ?new)])"
    by (simp add: sync_after_group[OF assms(1)] g)
  have m1: "filter is_mutation log1 = []"
    using assms(1) unfolding getConceptsFollowedByGroup_def by (rule absorbed_reads_only)
  have m2: "filter is_mutation log2 = []"
    using assms(2) unfolding getConceptsFollowedByUser_def by (rule absorbed_reads_only)
  have mf: "is_mutation ?follow" by (simp add: follow_request_def)
  have c1: "syncUserFollowers env cfg groupId userId =
           Some (Inr \<lparr>user_uuid = userId, group = groupId, status = ''synchronisationCompleted'',
                      reason = None, newConceptsToFollow = Some ?new\<rparr>,
                 log1 @ log2 @ [?follow, Request (preference_request cfg userId)] @ ?pl @
                 [KinesisWrite userId ''subscribe'' (map strip_rel ?new)])"
    by (simp add: s completed_def)
  have c2: "filter is_mutation
           (log1 @ log2 @ [?follow, Request (preference_request cfg userId)] @ ?pl @
            [KinesisWrite userId ''subscribe'' (map strip_rel ?new)]) =
           [?follow] @ ?pl @ [KinesisWrite userId ''subscribe'' (map strip_rel ?new)]"
    by (simp add: m1 m2 mf preference_request_reads preference_log_mutations del: is_mutation.simps(1))
  have c3: "?new = filter (\<lambda>item. uuid item \<notin> uuid ` set U) G"
    by (simp add: new_concepts_def)
  have c4: "data (follow_request cfg groupId userId ?new) =
           Some (ChunkData (map (\<lambda>item. item\<lparr>rel := Some (follow_props cfg groupId)\<rparr>) ?new) (One userId))"
    by (simp add: follow_request_def)
  have c5: "map_of (follow_props cfg groupId) ''asMemberOf'' = Some groupId"
    by (simp add: follow_props_def)
  have c6: "map strip_rel ?new = map (\<lambda>item. item\<lparr>rel := None\<rparr>) ?new"
    by (simp add: strip_rel_def)
  from c1 c2 c3 c4 c5 c6 show ?thesis by (intro conjI)
qed

subsection \<open>C5: the ignored terminals of the workflow\<close>

text \<open>
  Claim C5. When the group's fetch yields the empty list, the workflow resolves with
  \<open>synchronisationIgnored\<close> and the reason \<open>noGroupConceptsToFollow\<close>, and has issued
  nothing but the reads of that fetch: no add-follow, no preference creation, no event.
  When the group follows concepts and every uuid among them is a uuid the user follows,
  it resolves with \<open>synchronisationIgnored\<close> and the reason \<open>noNewConceptsToFollow\<close>,
  again after nothing but the reads of the two fetches.
\<close>

theorem sync_ignored_terminals:
  "(catch_p (getConceptsFollowedByGroup env cfg groupId) absorb_not_found = Some (Inr [], log1) \<longrightarrow>
      syncUserFollowers env cfg groupId userId =
        Some (Inr \<lparr>user_uuid = userId, group = groupId, status = ''synchronisationIgnored'',
                   reason = Some ''noGroupConceptsToFollow'', newConceptsToFollow = None\<rparr>, log1) \<and>
      filter is_mutation log1 = []) \<and>
   (catch_p (getConceptsFollowedByGroup env cfg groupId) absorb_not_found = Some (Inr G, log1) \<and> G \<noteq> [] \<and>
    catch_p (getConceptsFollowedByUser env cfg userId) absorb_not_found = Some (Inr U, log2) \<and>
    uuid ` set G \<subseteq> uuid ` set U \<longrightarrow>
      syncUserFollowers env cfg groupId userId =
        Some (Inr \<lparr>user_uuid = userId, group = groupId, status = ''synchronisationIgnored'',
                   reason = Some ''noNewConceptsToFollow'', newConceptsToFollow = None\<rparr>, log1 @ log2) \<and>
      filter is_mutation (log1 @ log2) = [])"
proof (intro conjI impI)
  assume a: "catch_p (getConceptsFollowedByGroup env cfg groupId) absorb_not_found = Some (Inr [], log1)"
  show "syncUserFollowers env cfg groupId userId =
        Some (Inr \<lparr>user_uuid = userId, group = groupId, status = ''synchronisationIgnored'',
                   reason = Some ''noGroupConceptsToFollow'', newConceptsToFollow = None\<rparr>, log1)"
    by (simp add: sync_after_group[OF a] with_group_concepts_empty ignored_def)
  show "filter is_mutation log1 = []"
    using a unfolding getConceptsFollowedByGroup_def by (rule absorbed_reads_only)
next
  assume a: "catch_p (getConceptsFollowedByGroup env cfg groupId) absorb_not_found = Some (Inr G, log1) \<and> G \<noteq> [] \<and>
    catch_p (getConceptsFollowedByUser env cfg userId) absorb_not_found = Some (Inr U, log2) \<and>
    uuid ` set G \<subseteq> uuid ` set U"
  then have g: "catch_p (getConceptsFollowedByGroup env cfg groupId) absorb_not_found = Some (Inr G, log1)"
    and G: "G \<noteq> []"
    and u: "catch_p (getConceptsFollowedByUser env cfg userId) absorb_not_found = Some (Inr U, log2)"
    and sub: "new_concepts G U = []"
    by (simp_all add: new_concepts_empty_iff)
  show "syncUserFollowers env cfg groupId userId =
        Some (Inr \<lparr>user_uuid = userId, group = groupId, status = ''synchronisationIgnored'',
                   reason = Some ''noNewConceptsToFollow'', newConceptsToFollow = None\<rparr>, log1 @ log2)"
    by (simp add: sync_after_group[OF g] with_group_concepts_after_user[OF G u]
        with_user_concepts_eq sub ignored_def)
  have "filter is_mutation log1 = []"
    using g unfolding getConceptsFollowedByGroup_def by (rule absorbed_reads_only)
  moreover have "filter is_mutation log2 = []"
    using u unfolding getConceptsFollowedByUser_def by (rule absorbed_reads_only)
  ultimately show "filter is_mutation (log1 @ log2) = []" by simp
qed

lemma absorb_not_found_absorbs:
  "p = Some (Inl (NotFoundError m), log) \<Longrightarrow> catch_p p absorb_not_found = Some (Inr [], log)"
  by (simp add: catch_p_def absorb_not_found_def resolve_def)

lemma absorb_not_found_passes:
  "\<not> is_NotFoundError err \<Longrightarrow> p = Some (Inl err, log) \<Longrightarrow>
   catch_p p absorb_not_found = Some (Inl err, log)"
  by (cases err) (simp_all add: catch_p_def absorb_not_found_def reject_def)

lemma new_concepts_none_followed: "new_concepts G [] = G"
  by (simp add: new_concepts_def)

subsection \<open>C6: not-found is absorbed at three points\<close>

text \<open>
  Claim C6. A \<open>NotFoundError\<close> from the group's fetch is taken as the empty list, so the
  workflow resolves as for a group without concepts. A \<open>NotFoundError\<close> from the
  user's fetch is taken as the empty list, so every concept of the group is new and the
  workflow goes on to follow them. A \<open>NotFoundError\<close> from the read of the digest
  preference is followed by the request that creates the default preference. An error
  of any other kind at these three points rejects the workflow with that error; at the
  preference read, no creation request is issued.
\<close>

theorem sync_not_found_absorption:
  "(getConceptsFollowedByGroup env cfg groupId = Some (Inl (NotFoundError m), log1) \<longrightarrow>
      catch_p (getConceptsFollowedByGroup env cfg groupId) absorb_not_found = Some (Inr [], log1) \<and>
      syncUserFollowers env cfg groupId userId =
        Some (Inr \<lparr>user_uuid = userId, group = groupId, status = ''synchronisationIgnored'',
                   reason = Some ''noGroupConceptsToFollow'', newConceptsToFollow = None\<rparr>, log1)) \<and>
   (catch_p (getConceptsFollowedByGroup env cfg groupId) absorb_not_found = Some (Inr G, log1) \<and> G \<noteq> [] \<and>
    getConceptsFollowedByUser env cfg userId = Some (Inl (NotFoundError m), log2) \<longrightarrow>
      catch_p (getConceptsFollowedByUser env cfg userId) absorb_not_found = Some (Inr [], log2) \<and>
      new_concepts G [] = G \<and>
      syncUserFollowers env cfg groupId userId =
        (case follow_new_concepts env cfg groupId userId G of
           None \<Rightarrow> None | Some (r, log) \<Rightarrow> Some (r, log1 @ log2 @ log))) \<and>
   (reply env (preference_request cfg userId) = Inl (NotFoundError m) \<longrightarrow>
      (\<exists>r. ensure_preference env cfg userId =
             Some (r, [Request (preference_request cfg userId),
                       Request (create_preference_request cfg userId)]))) \<and>
   (\<not> is_NotFoundError err \<and> getConceptsFollowedByGroup env cfg groupId = Some (Inl err, log1) \<longrightarrow>
      syncUserFollowers env cfg groupId userId = Some (Inl err, log1)) \<and>
   (\<not> is_NotFoundError err \<and>
    catch_p (getConceptsFollowedByGroup env cfg groupId) absorb_not_found = Some (Inr G, log1) \<and> G \<noteq> [] \<and>
    getConceptsFollowedByUser env cfg userId = Some (Inl err, log2) \<longrightarrow>
      syncUserFollowers env cfg groupId userId = Some (Inl err, log1 @ log2)) \<and>
   (\<not> is_NotFoundError err \<and> reply env (preference_request cfg userId) = Inl err \<longrightarrow>
      ensure_preference env cfg userId = Some (Inl err, [Request (preference_request cfg userId)])) \<and>
   (\<not> is_NotFoundError err \<and>
    catch_p (getConceptsFollowedByGroup env cfg groupId) absorb_not_found = Some (Inr G, log1) \<and>
    catch_p (getConceptsFollowedByUser env cfg userId) absorb_not_found = Some (Inr U, log2) \<and>
    \<not> uuid ` set G \<subseteq> uuid ` set U \<and>
    reply env (follow_request cfg groupId userId (new_concepts G U)) = Inr added \<and>
    reply env (preference_request cfg userId) = Inl err \<longrightarrow>
      syncUserFollowers env cfg groupId userId =
        Some (Inl err, log1 @ log2 @
                       [Request (follow_request cfg groupId userId (new_concepts G U)),
                        Request (preference_request cfg userId)]))"
proof (intro conjI impI)
  assume a: "getConceptsFollowedByGroup env cfg groupId = Some (Inl (NotFoundError m), log1)"
  then show c: "catch_p (getConceptsFollowedByGroup env cfg groupId) absorb_not_found = Some (Inr [], log1)"
    by (rule absorb_not_found_absorbs)
  show "syncUserFollowers env cfg groupId userId =
        Some (Inr \<lparr>user_uuid = userId, group = groupId, status = ''synchronisationIgnored'',
                   reason = Some ''noGroupConceptsToFollow'', newConceptsToFollow = None\<rparr>, log1)"
    by (simp add: sync_after_group[OF c] with_group_concepts_empty ignored_def)
next
  assume a: "catch_p (getConceptsFollowedByGroup env cfg groupId) absorb_not_found = Some (Inr G, log1) \<and> G \<noteq> [] \<and>
    getConceptsFollowedByUser env cfg userId = Some (Inl (NotFoundError m), log2)"
  then have g: "catch_p (getConceptsFollowedByGroup env cfg groupId) absorb_not_found = Some (Inr G, log1)"
    and G: "G \<noteq> []"
    and u: "getConceptsFollowedByUser env cfg userId = Some (Inl (NotFoundError m), log2)"
    by simp_all
  from u show c: "catch_p (getConceptsFollowedByUser env cfg userId) absorb_not_found = Some (Inr [], log2)"
    by (rule absorb_not_found_absorbs)
  show "new_concepts G [] = G" by (rule new_concepts_none_followed)
  show "syncUserFollowers env cfg groupId userId =
        (case follow_new_concepts env cfg groupId userId G of
           None \<Rightarrow> None | Some (r, log) \<Rightarrow> Some (r, log1 @ log2 @ log))"
    using G
    by (simp add: sync_after_group[OF g] with_group_concepts_after_user[OF G c]
        with_user_concepts_eq new_concepts_none_followed split: option.splits)
next
  assume "reply env (preference_request cfg userId) = Inl (NotFoundError m)"
  then show "\<exists>r. ensure_preference env cfg userId =
             Some (r, [Request (preference_request cfg userId),
                       Request (create_preference_request cfg userId)])"
    by (simp add: ensure_preference_eq split: sum.splits)
next
  assume "\<not> is_NotFoundError err \<and> getConceptsFollowedByGroup env cfg groupId = Some (Inl err, log1)"
  then have "catch_p (getConceptsFollowedByGroup env cfg groupId) absorb_not_found = Some (Inl err, log1)"
    by (intro absorb_not_found_passes) simp_all
  then show "syncUserFollowers env cfg groupId userId = Some (Inl err, log1)"
    by (rule sync_group_failed)
next
  assume a: "\<not> is_NotFoundError err \<and>
    catch_p (getConceptsFollowedByGroup env cfg groupId) absorb_not_found = Some (Inr G, log1) \<and> G \<noteq> [] \<and>
    getConceptsFollowedByUser env cfg userId = Some (Inl err, log2)"
  then have g: "catch_p (getConceptsFollowedByGroup env cfg groupId) absorb_not_found = Some (Inr G, log1)"
    and G: "G \<noteq> []" by simp_all
  from a have u: "catch_p (getConceptsFollowedByUser env cfg userId) absorb_not_found = Some (Inl err, log2)"
    by (intro absorb_not_found_passes) simp_all
  show "syncUserFollowers env cfg groupId userId = Some (Inl err, log1 @ log2)"
    by (simp add: sync_after_group[OF g] with_group_concepts_user_failed[OF G u])
next
  assume "\<not> is_NotFoundError err \<and> reply env (preference_request cfg userId) = Inl err"
  then show "ensure_preference env cfg userId = Some (Inl err, [Request (preference_request cfg userId)])"
    by (simp add: ensure_preference_eq)
next
  assume a: "\<not> is_NotFoundError err \<and>
    catch_p (getConceptsFollowedByGroup env cfg groupId) absorb_not_found = Some (Inr G, log1) \<and>
    catch_p (getConceptsFollowedByUser env cfg userId) absorb_not_found = Some (Inr U, log2) \<and>
    \<not> uuid ` set G \<subseteq> uuid ` set U \<and>
    reply env (follow_request cfg groupId userId (new_concepts G U)) = Inr added \<and>
    reply env (preference_request cfg userId) = Inl err"
  then have g: "catch_p (getConceptsFollowedByGroup env cfg groupId) absorb_not_found = Some (Inr G, log1)"
    and u: "catch_p (getConceptsFollowedByUser env cfg userId) absorb_not_found = Some (Inr U, log2)"
    and ne: "new_concepts G U \<noteq> []"
    and f: "reply env (follow_request cfg groupId userId (new_concepts G U)) = Inr added"
    by (simp_all add: new_concepts_empty_iff)
  from ne have G: "G \<noteq> []" by (auto simp: new_concepts_def)
  from a have "ensure_preference env cfg userId = Some (Inl err, [Request (preference_request cfg userId)])"
    by (simp add: ensure_preference_eq)
  then have "follow_new_concepts env cfg groupId userId (new_concepts G U) =
      Some (Inl err, [Request (follow_request cfg groupId userId (new_concepts G U)),
                      Request (preference_request cfg userId)])"
    by (simp add: follow_new_concepts_eq f)
  then show "syncUserFollowers env cfg groupId userId =
        Some (Inl err, log1 @ log2 @
                       [Request (follow_request cfg groupId userId (new_concepts G U)),
                        Request (preference_request cfg userId)])"
    using ne
    by (simp add: sync_after_group[OF g] with_group_concepts_after_user[OF G u] with_user_concepts_eq)
qed

subsection \<open>Runs of the workflow on concrete remotes\<close>

lemma getAllNodeItems_single_page:
  "reply env (page_request cfg node nodeId rl rn 1) = Inr r \<Longrightarrow> \<not> continues 1 r \<Longrightarrow>
   getAllNodeItems env cfg node nodeId rl rn =
     Some (Inr (page_items r), [Request (page_request cfg node nodeId rl rn 1)])"
  by (simp add: getAllNodeItems_first) (subst thenFn_step, simp)

lemma getAllNodeItems_first_rejected:
  "reply env (page_request cfg node nodeId rl rn 1) = Inl err \<Longrightarrow>
   getAllNodeItems env cfg node nodeId rl rn =
     Some (Inl err, [Request (page_request cfg node nodeId rl rn 1)])"
  by (simp add: getAllNodeItems_first)

lemma sync_remote_group:
  "reply (sync_remote a b c d e) (page_request demo_cfg ''group'' ''g1'' ''followed'' ''concept'' p) = a"
  by (simp add: reply_def sync_remote_def page_request_def demo_cfg_def split: sum.splits)

lemma sync_remote_user:
  "reply (sync_remote a b c d e) (page_request demo_cfg ''user'' ''u1'' ''followed'' ''concept'' p) = b"
  by (simp add: reply_def sync_remote_def page_request_def demo_cfg_def split: sum.splits)

lemma sync_remote_follow:
  "reply (sync_remote a b c d e) (follow_request demo_cfg ''g1'' ''u1'' cs) = c"
  by (simp add: reply_def sync_remote_def follow_request_def demo_cfg_def split: sum.splits)

lemma sync_remote_pref:
  "reply (sync_remote a b c d e) (preference_request demo_cfg ''u1'') = d"
  by (simp add: reply_def sync_remote_def preference_request_def demo_cfg_def split: sum.splits)

lemma sync_remote_create:
  "reply (sync_remote a b c d e) (create_preference_request demo_cfg ''u1'') = e"
  by (simp add: reply_def sync_remote_def create_preference_request_def demo_cfg_def split: sum.splits)

lemma page_of_stops:
  "length its \<le> 500 \<Longrightarrow> page_of its = Inr r \<Longrightarrow> \<not> continues 1 r \<and> page_items r = its"
  by (auto simp: page_of_def continues_def more_pages_def page_items_def parseInt_js_number)

lemma group_page:
  "length its \<le> 500 \<Longrightarrow>
   catch_p (getConceptsFollowedByGroup (sync_remote (page_of its) b c d e) demo_cfg ''g1'') absorb_not_found =
     Some (Inr its, [Request (page_request demo_cfg ''group'' ''g1'' ''followed'' ''concept'' 1)])"
proof -
  assume l: "length its \<le> 500"
  obtain r where r: "page_of its = Inr r" by (simp add: page_of_def)
  from page_of_stops[OF l r] have s: "\<not> continues 1 r" and i: "page_items r = its" by simp_all
  have "reply (sync_remote (page_of its) b c d e)
          (page_request demo_cfg ''group'' ''g1'' ''followed'' ''concept'' 1) = Inr r"
    by (simp add: sync_remote_group r)
  from getAllNodeItems_single_page[OF this s] i show ?thesis
    by (simp add: getConceptsFollowedByGroup_def catch_p_def)
qed

lemma user_page:
  "length its \<le> 500 \<Longrightarrow>
   catch_p (getConceptsFollowedByUser (sync_remote a (page_of its) c d e) demo_cfg ''u1'') absorb_not_found =
     Some (Inr its, [Request (page_request demo_cfg ''user'' ''u1'' ''followed'' ''concept'' 1)])"
proof -
  assume l: "length its \<le> 500"
  obtain r where r: "page_of its = Inr r" by (simp add: page_of_def)
  from page_of_stops[OF l r] have s: "\<not> continues 1 r" and i: "page_items r = its" by simp_all
  have "reply (sync_remote a (page_of its) c d e)
          (page_request demo_cfg ''user'' ''u1'' ''followed'' ''concept'' 1) = Inr r"
    by (simp add: sync_remote_user r)
  from getAllNodeItems_single_page[OF this s] i show ?thesis
    by (simp add: getConceptsFollowedByUser_def catch_p_def)
qed

lemma group_rejected:
  "getConceptsFollowedByGroup (sync_remote (Inl err) b c d e) demo_cfg ''g1'' =
     Some (Inl err, [Request (page_request demo_cfg ''group'' ''g1'' ''followed'' ''concept'' 1)])"
  by (simp add: getConceptsFollowedByGroup_def getAllNodeItems_first_rejected sync_remote_group)

lemma user_rejected:
  "getConceptsFollowedByUser (sync_remote a (Inl err) c d e) demo_cfg ''u1'' =
     Some (Inl err, [Request (page_request demo_cfg ''user'' ''u1'' ''followed'' ''concept'' 1)])"
  by (simp add: getConceptsFollowedByUser_def getAllNodeItems_first_rejected sync_remote_user)

lemma new_concepts_demo: "new_concepts [concept_A, concept_B] [followed_A] = [concept_B]"
  by (simp add: new_concepts_def concept_A_def concept_B_def followed_A_def)

text \<open>
  The group follows A and B, the user follows A and has no digest preference.
\<close>

theorem sync_completed_path_witness:
  "syncUserFollowers
     (sync_remote (page_of [concept_A, concept_B]) (page_of [followed_A]) (Inr ok_body)
        (Inl (NotFoundError ''no preference'')) (Inr ok_body))
     demo_cfg ''g1'' ''u1'' =
   Some (Inr \<lparr>user_uuid = ''u1'', group = ''g1'', status = ''synchronisationCompleted'',
              reason = None, newConceptsToFollow = Some [concept_B]\<rparr>,
         [Request (page_request demo_cfg ''group'' ''g1'' ''followed'' ''concept'' 1),
          Request (page_request demo_cfg ''user'' ''u1'' ''followed'' ''concept'' 1),
          Request (follow_request demo_cfg ''g1'' ''u1'' [concept_B]),
          Request (preference_request demo_cfg ''u1''),
          Request (create_preference_request demo_cfg ''u1''),
          KinesisWrite ''u1'' ''subscribe'' [concept_B\<lparr>rel := None\<rparr>]])"
proof -
  let ?env = "sync_remote (page_of [concept_A, concept_B]) (page_of [followed_A]) (Inr ok_body)
        (Inl (NotFoundError ''no preference'')) (Inr ok_body)"
  have h1: "catch_p (getConceptsFollowedByGroup ?env demo_cfg ''g1'') absorb_not_found =
     Some (Inr [concept_A, concept_B], [Request (page_request demo_cfg ''group'' ''g1'' ''followed'' ''concept'' 1)])"
    by (rule group_page) simp
  have h2: "catch_p (getConceptsFollowedByUser ?env demo_cfg ''u1'') absorb_not_found =
     Some (Inr [followed_A], [Request (page_request demo_cfg ''user'' ''u1'' ''followed'' ''concept'' 1)])"
    by (rule user_page) simp
  have h3: "\<not> uuid ` set [concept_A, concept_B] \<subseteq> uuid ` set [followed_A]"
    by (simp add: concept_A_def concept_B_def followed_A_def)
  have h4: "reply ?env (follow_request demo_cfg ''g1'' ''u1'' (new_concepts [concept_A, concept_B] [followed_A])) =
        Inr ok_body"
    by (rule sync_remote_follow)
  have h5: "reply ?env (preference_request demo_cfg ''u1'') = Inr ok_body \<or>
         reply ?env (preference_request demo_cfg ''u1'') = Inl (NotFoundError ''no preference'') \<and>
         reply ?env (create_preference_request demo_cfg ''u1'') = Inr ok_body"
    by (simp add: sync_remote_pref sync_remote_create)
  have h6: "kinesis_write ?env ''u1'' ''subscribe''
              (map strip_rel (new_concepts [concept_A, concept_B] [followed_A])) = Inr ()"
    by (simp add: sync_remote_def)
  from sync_completed_path[OF h1 h2 h3 h4 h5 h6, THEN conjunct1]
  show ?thesis
    by (simp add: new_concepts_demo sync_remote_pref strip_rel_def)
qed

text \<open>A group without concepts, and a user who follows all the group follows.\<close>

theorem sync_ignored_terminals_witness:
  "syncUserFollowers (sync_remote (page_of []) (page_of [followed_A]) (Inr ok_body) (Inr ok_body) (Inr ok_body))
     demo_cfg ''g1'' ''u1'' =
     Some (Inr \<lparr>user_uuid = ''u1'', group = ''g1'', status = ''synchronisationIgnored'',
                reason = Some ''noGroupConceptsToFollow'', newConceptsToFollow = None\<rparr>,
           [Request (page_request demo_cfg ''group'' ''g1'' ''followed'' ''concept'' 1)]) \<and>
   filter is_mutation [Request (page_request demo_cfg ''group'' ''g1'' ''followed'' ''concept'' 1)] = [] \<and>
   syncUserFollowers
     (sync_remote (page_of [concept_A, concept_B]) (page_of [concept_B, followed_A]) (Inr ok_body)
        (Inr ok_body) (Inr ok_body))
     demo_cfg ''g1'' ''u1'' =
     Some (Inr \<lparr>user_uuid = ''u1'', group = ''g1'', status = ''synchronisationIgnored'',
                reason = Some ''noNewConceptsToFollow'', newConceptsToFollow = None\<rparr>,
           [Request (page_request demo_cfg ''group'' ''g1'' ''followed'' ''concept'' 1),
            Request (page_request demo_cfg ''user'' ''u1'' ''followed'' ''concept'' 1)]) \<and>
   filter is_mutation [Request (page_request demo_cfg ''group'' ''g1'' ''followed'' ''concept'' 1),
                       Request (page_request demo_cfg ''user'' ''u1'' ''followed'' ''concept'' 1)] = []"
proof -
  let ?e1 = "sync_remote (page_of []) (page_of [followed_A]) (Inr ok_body) (Inr ok_body) (Inr ok_body)"
  let ?e2 = "sync_remote (page_of [concept_A, concept_B]) (page_of [concept_B, followed_A]) (Inr ok_body)
        (Inr ok_body) (Inr ok_body)"
  have h1: "catch_p (getConceptsFollowedByGroup ?e1 demo_cfg ''g1'') absorb_not_found =
     Some (Inr [], [Request (page_request demo_cfg ''group'' ''g1'' ''followed'' ''concept'' 1)])"
    by (rule group_page) simp
  have g2: "catch_p (getConceptsFollowedByGroup ?e2 demo_cfg ''g1'') absorb_not_found =
     Some (Inr [concept_A, concept_B], [Request (page_request demo_cfg ''group'' ''g1'' ''followed'' ''concept'' 1)])"
    by (rule group_page) simp
  have u2: "catch_p (getConceptsFollowedByUser ?e2 demo_cfg ''u1'') absorb_not_found =
     Some (Inr [concept_B, followed_A], [Request (page_request demo_cfg ''user'' ''u1'' ''followed'' ''concept'' 1)])"
    by (rule user_page) simp
  have sub: "uuid ` set [concept_A, concept_B] \<subseteq> uuid ` set [concept_B, followed_A]"
    by (simp add: concept_A_def concept_B_def followed_A_def)
  have h2: "catch_p (getConceptsFollowedByGroup ?e2 demo_cfg ''g1'') absorb_not_found =
       Some (Inr [concept_A, concept_B], [Request (page_request demo_cfg ''group'' ''g1'' ''followed'' ''concept'' 1)]) \<and>
     [concept_A, concept_B] \<noteq> [] \<and>
     catch_p (getConceptsFollowedByUser ?e2 demo_cfg ''u1'') absorb_not_found =
       Some (Inr [concept_B, followed_A], [Request (page_request demo_cfg ''user'' ''u1'' ''followed'' ''concept'' 1)]) \<and>
     uuid ` set [concept_A, concept_B] \<subseteq> uuid ` set [concept_B, followed_A]"
    using g2 u2 sub by simp
  note T = sync_ignored_terminals
  from T[THEN conjunct1, THEN mp, OF h1] T[THEN conjunct2, THEN mp, OF h2]
  show ?thesis by simp
qed

text \<open>One run of the workflow, or of its preference step, for each part of the claim.\<close>

theorem sync_not_found_absorption_witness:
  "syncUserFollowers
     (sync_remote (Inl (NotFoundError ''no group'')) (page_of []) (Inr ok_body) (Inr ok_body) (Inr ok_body))
     demo_cfg ''g1'' ''u1'' =
     Some (Inr \<lparr>user_uuid = ''u1'', group = ''g1'', status = ''synchronisationIgnored'',
                reason = Some ''noGroupConceptsToFollow'', newConceptsToFollow = None\<rparr>,
           [Request (page_request demo_cfg ''group'' ''g1'' ''followed'' ''concept'' 1)]) \<and>
   syncUserFollowers
     (sync_remote (page_of [concept_A, concept_B]) (Inl (NotFoundError ''no user'')) (Inr ok_body)
        (Inr ok_body) (Inr ok_body))
     demo_cfg ''g1'' ''u1'' =
     Some (Inr \<lparr>user_uuid = ''u1'', group = ''g1'', status = ''synchronisationCompleted'',
                reason = None, newConceptsToFollow = Some [concept_A, concept_B]\<rparr>,
           [Request (page_request demo_cfg ''group'' ''g1'' ''followed'' ''concept'' 1),
            Request (page_request demo_cfg ''user'' ''u1'' ''followed'' ''concept'' 1),
            Request (follow_request demo_cfg ''g1'' ''u1'' [concept_A, concept_B]),
            Request (preference_request demo_cfg ''u1''),
            KinesisWrite ''u1'' ''subscribe'' [strip_rel concept_A, strip_rel concept_B]]) \<and>
   (\<exists>r. ensure_preference
          (sync_remote (page_of []) (page_of []) (Inr ok_body) (Inl (NotFoundError ''no preference''))
             (Inr ok_body))
          demo_cfg ''u1'' =
        Some (r, [Request (preference_request demo_cfg ''u1''),
                  Request (create_preference_request demo_cfg ''u1'')])) \<and>
   syncUserFollowers
     (sync_remote (Inl (OtherError ''timeout'')) (page_of []) (Inr ok_body) (Inr ok_body) (Inr ok_body))
     demo_cfg ''g1'' ''u1'' =
     Some (Inl (OtherError ''timeout''),
           [Request (page_request demo_cfg ''group'' ''g1'' ''followed'' ''concept'' 1)]) \<and>
   syncUserFollowers
     (sync_remote (page_of [concept_A, concept_B]) (Inl (OtherError ''timeout'')) (Inr ok_body)
        (Inr ok_body) (Inr ok_body))
     demo_cfg ''g1'' ''u1'' =
     Some (Inl (OtherError ''timeout''),
           [Request (page_request demo_cfg ''group'' ''g1'' ''followed'' ''concept'' 1),
            Request (page_request demo_cfg ''user'' ''u1'' ''followed'' ''concept'' 1)]) \<and>
   ensure_preference
     (sync_remote (page_of []) (page_of []) (Inr ok_body) (Inl (OtherError ''timeout'')) (Inr ok_body))
     demo_cfg ''u1'' =
     Some (Inl (OtherError ''timeout''), [Request (preference_request demo_cfg ''u1'')]) \<and>
   syncUserFollowers
     (sync_remote (page_of [concept_A, concept_B]) (page_of [followed_A]) (Inr ok_body)
        (Inl (OtherError ''timeout'')) (Inr ok_body))
     demo_cfg ''g1'' ''u1'' =
     Some (Inl (OtherError ''timeout''),
           [Request (page_request demo_cfg ''group'' ''g1'' ''followed'' ''concept'' 1),
            Request (page_request demo_cfg ''user'' ''u1'' ''followed'' ''concept'' 1),
            Request (follow_request demo_cfg ''g1'' ''u1'' [concept_B]),
            Request (preference_request demo_cfg ''u1'')])"
proof -
  note T = sync_not_found_absorption
  let ?g = "[Request (page_request demo_cfg ''group'' ''g1'' ''followed'' ''concept'' 1)]"
  let ?u = "[Request (page_request demo_cfg ''user'' ''u1'' ''followed'' ''concept'' 1)]"
  let ?e1 = "sync_remote (Inl (NotFoundError ''no group'')) (page_of []) (Inr ok_body) (Inr ok_body) (Inr ok_body)"
  have c1: "syncUserFollowers ?e1 demo_cfg ''g1'' ''u1'' =
     Some (Inr \<lparr>user_uuid = ''u1'', group = ''g1'', status = ''synchronisationIgnored'',
                reason = Some ''noGroupConceptsToFollow'', newConceptsToFollow = None\<rparr>, ?g)"
    using T[THEN conjunct1, THEN mp, OF group_rejected] by simp
  let ?e2 = "sync_remote (page_of [concept_A, concept_B]) (Inl (NotFoundError ''no user'')) (Inr ok_body)
        (Inr ok_body) (Inr ok_body)"
  have h2: "catch_p (getConceptsFollowedByGroup ?e2 demo_cfg ''g1'') absorb_not_found =
              Some (Inr [concept_A, concept_B], ?g) \<and> [concept_A, concept_B] \<noteq> [] \<and>
            getConceptsFollowedByUser ?e2 demo_cfg ''u1'' = Some (Inl (NotFoundError ''no user''), ?u)"
    by (simp add: group_page user_rejected)
  have f2: "follow_new_concepts ?e2 demo_cfg ''g1'' ''u1'' [concept_A, concept_B] =
      Some (Inr (completed ''g1'' ''u1'' [concept_A, concept_B]),
            [Request (follow_request demo_cfg ''g1'' ''u1'' [concept_A, concept_B]),
             Request (preference_request demo_cfg ''u1''),
             KinesisWrite ''u1'' ''subscribe'' [strip_rel concept_A, strip_rel concept_B]])"
    by (simp add: follow_new_concepts_eq ensure_preference_eq sync_remote_follow sync_remote_pref)
       (simp add: sync_remote_def)
  have c2: "syncUserFollowers ?e2 demo_cfg ''g1'' ''u1'' =
     Some (Inr \<lparr>user_uuid = ''u1'', group = ''g1'', status = ''synchronisationCompleted'',
                reason = None, newConceptsToFollow = Some [concept_A, concept_B]\<rparr>,
           ?g @ ?u @
            [Request (follow_request demo_cfg ''g1'' ''u1'' [concept_A, concept_B]),
             Request (preference_request demo_cfg ''u1''),
             KinesisWrite ''u1'' ''subscribe'' [strip_rel concept_A, strip_rel concept_B]])"
    using T[THEN conjunct2, THEN conjunct1, THEN mp, OF h2] by (simp add: f2 completed_def)
  let ?e3 = "sync_remote (page_of []) (page_of []) (Inr ok_body) (Inl (NotFoundError ''no preference''))
             (Inr ok_body)"
  have h3: "reply ?e3 (preference_request demo_cfg ''u1'') = Inl (NotFoundError ''no preference'')"
    by (rule sync_remote_pref)
  have c3: "\<exists>r. ensure_preference ?e3 demo_cfg ''u1'' =
        Some (r, [Request (preference_request demo_cfg ''u1''),
                  Request (create_preference_request demo_cfg ''u1'')])"
    by (rule T[THEN conjunct2, THEN conjunct2, THEN conjunct1, THEN mp, OF h3])
  let ?e4 = "sync_remote (Inl (OtherError ''timeout'')) (page_of []) (Inr ok_body) (Inr ok_body) (Inr ok_body)"
  have h4: "\<not> is_NotFoundError (OtherError ''timeout'') \<and>
            getConceptsFollowedByGroup ?e4 demo_cfg ''g1'' = Some (Inl (OtherError ''timeout''), ?g)"
    by (simp add: group_rejected)
  have c4: "syncUserFollowers ?e4 demo_cfg ''g1'' ''u1'' = Some (Inl (OtherError ''timeout''), ?g)"
    by (rule T[THEN conjunct2, THEN conjunct2, THEN conjunct2, THEN conjunct1, THEN mp, OF h4])
  let ?e5 = "sync_remote (page_of [concept_A, concept_B]) (Inl (OtherError ''timeout'')) (Inr ok_body)
        (Inr ok_body) (Inr ok_body)"
  have h5: "\<not> is_NotFoundError (OtherError ''timeout'') \<and>
            catch_p (getConceptsFollowedByGroup ?e5 demo_cfg ''g1'') absorb_not_found =
              Some (Inr [concept_A, concept_B], ?g) \<and> [concept_A, concept_B] \<noteq> [] \<and>
            getConceptsFollowedByUser ?e5 demo_cfg ''u1'' = Some (Inl (OtherError ''timeout''), ?u)"
    by (simp add: group_page user_rejected)
  have c5: "syncUserFollowers ?e5 demo_cfg ''g1'' ''u1'' = Some (Inl (OtherError ''timeout''), ?g @ ?u)"
    by (rule T[THEN conjunct2, THEN conjunct2, THEN conjunct2, THEN conjunct2, THEN conjunct1, THEN mp, OF h5])
  let ?e6 = "sync_remote (page_of []) (page_of []) (Inr ok_body) (Inl (OtherError ''timeout'')) (Inr ok_body)"
  have h6: "\<not> is_NotFoundError (OtherError ''timeout'') \<and>
            reply ?e6 (preference_request demo_cfg ''u1'') = Inl (OtherError ''timeout'')"
    by (simp add: sync_remote_pref)
  have c6: "ensure_preference ?e6 demo_cfg ''u1'' =
        Some (Inl (OtherError ''timeout''), [Request (preference_request demo_cfg ''u1'')])"
    by (rule T[THEN conjunct2, THEN conjunct2, THEN conjunct2, THEN conjunct2, THEN conjunct2,
               THEN conjunct1, THEN mp, OF h6])
  let ?e7 = "sync_remote (page_of [concept_A, concept_B]) (page_of [followed_A]) (Inr ok_body)
        (Inl (OtherError ''timeout'')) (Inr ok_body)"
  have h7: "\<not> is_NotFoundError (OtherError ''timeout'') \<and>
    catch_p (getConceptsFollowedByGroup ?e7 demo_cfg ''g1'') absorb_not_found =
      Some (Inr [concept_A, concept_B], ?g) \<and>
    catch_p (getConceptsFollowedByUser ?e7 demo_cfg ''u1'') absorb_not_found = Some (Inr [followed_A], ?u) \<and>
    \<not> uuid ` set [concept_A, concept_B] \<subseteq> uuid ` set [followed_A] \<and>
    reply ?e7 (follow_request demo_cfg ''g1'' ''u1'' (new_concepts [concept_A, concept_B] [followed_A])) =
      Inr ok_body \<and>
    reply ?e7 (preference_request demo_cfg ''u1'') = Inl (OtherError ''timeout'')"
    by (simp add: group_page user_page sync_remote_follow sync_remote_pref)
       (simp add: concept_A_def concept_B_def followed_A_def)
  have c7: "syncUserFollowers ?e7 demo_cfg ''g1'' ''u1'' =
     Some (Inl (OtherError ''timeout''),
           ?g @ ?u @ [Request (follow_request demo_cfg ''g1'' ''u1'' [concept_B]),
                      Request (preference_request demo_cfg ''u1'')])"
    using T[THEN conjunct2, THEN conjunct2, THEN conjunct2, THEN conjunct2, THEN conjunct2,
            THEN conjunct2, THEN mp, OF h7]
    by (simp add: new_concepts_demo)
  from c1 c2 c3 c4 c5 c6 c7 show ?thesis by simp
qed

lemma addRemoveRelationships_eq:
  "addRemoveRelationships env cfg meth node nodeId rl relType relIds relProp options =
     Some (fetch env (relationship_request cfg meth node nodeId rl relType relIds relProp options),
           [Request (relationship_request cfg meth node nodeId rl relType relIds relProp options)])"
  by (simp add: addRemoveRelationships_def relationship_request_def createAndTriggerRelationshipRequest_def
      doRelationshipRequest_def relationship_url_def Let_def)

lemma addRemoveUsers_raw:
  "addRemoveUsers env cfg meth node nodeId userIds relProp options True =
     settles_raw env (relationship_request cfg meth node nodeId ''member'' ''user'' userIds relProp options)"
  by (simp add: addRemoveUsers_def addRemoveRelationships_eq settles_raw_def then_p_def resolve_def
      split: sum.splits)

lemma addRemoveUsers_parsed:
  "addRemoveUsers env cfg meth node nodeId userIds relProp options False =
     settles_parsed env (relationship_request cfg meth node nodeId ''member'' ''user'' userIds relProp options)"
  by (simp add: addRemoveUsers_def addRemoveRelationships_eq settles_parsed_def parse_p_def then_p_def
      resolve_def split: sum.splits)

lemma addRemoveGroups_raw:
  "addRemoveGroups env cfg meth licenseId groupIds relProp options True =
     settles_raw env (relationship_request cfg meth ''license'' licenseId ''member'' ''group'' groupIds relProp options)"
  by (simp add: addRemoveGroups_def addRemoveRelationships_eq settles_raw_def then_p_def resolve_def
      split: sum.splits)

lemma addRemoveGroups_parsed:
  "addRemoveGroups env cfg meth licenseId groupIds relProp options False =
     settles_parsed env (relationship_request cfg meth ''license'' licenseId ''member'' ''group'' groupIds relProp options)"
  by (simp add: addRemoveGroups_def addRemoveRelationships_eq settles_parsed_def parse_p_def then_p_def
      resolve_def split: sum.splits)

lemma removeConceptsFollowedByNode_raw:
  "removeConceptsFollowedByNode env cfg node nodeUUID conceptUUIDs True =
     settles_raw env (relationship_request cfg ''DELETE'' node nodeUUID ''followed'' ''concept'' conceptUUIDs None None)"
  by (simp add: removeConceptsFollowedByNode_def addRemoveRelationships_eq settles_raw_def then_p_def
      resolve_def split: sum.splits)

lemma addRemoveConceptsFollowed_eq:
  assumes "0 < BATCH_USER_COUNT cfg"
  shows "addRemoveConceptsFollowed env cfg meth node nodeId concepts followProps =
     Some (case aggregate (chunk_outcomes env cfg meth node nodeId ''followed'' ''concept'' concepts followProps None) of
             Inl err \<Rightarrow> Inl err
           | Inr results \<Rightarrow> Inr (Outcomes results),
           map Request (chunk_requests cfg meth node nodeId ''followed'' ''concept'' concepts followProps None))"
  by (simp add: addRemoveConceptsFollowed_def engine_eq[OF assms] then_p_def resolve_def split: sum.splits)

lemma addRemoveConceptsFollowed_resolves:
  assumes "0 < BATCH_USER_COUNT cfg \<and>
      (\<exists>res \<in> set (chunk_outcomes env cfg meth node nodeId ''followed'' ''concept'' concepts followProps None).
          \<not> instanceof_Error res)"
  shows "addRemoveConceptsFollowed env cfg meth node nodeId concepts followProps =
     Some (Inr (Outcomes (chunk_outcomes env cfg meth node nodeId ''followed'' ''concept'' concepts followProps None)),
           map Request (chunk_requests cfg meth node nodeId ''followed'' ''concept'' concepts followProps None))"
proof -
  from assms have "aggregate (chunk_outcomes env cfg meth node nodeId ''followed'' ''concept'' concepts followProps None) =
      Inr (chunk_outcomes env cfg meth node nodeId ''followed'' ''concept'' concepts followProps None)"
    by (intro aggregate_some_success) simp
  with assms show ?thesis by (simp add: addRemoveConceptsFollowed_eq)
qed

lemma aggregate_no_success:
  "\<forall>res \<in> set results. instanceof_Error res \<Longrightarrow> \<exists>err. aggregate results = Inl err"
  by (cases "length results = 1")
     (auto simp: aggregate_all_failed dest: single_failure_shape simp: aggregate_single_failure)

lemma addRemoveConceptsFollowed_rejects:
  assumes "0 < BATCH_USER_COUNT cfg \<and>
      (\<forall>res \<in> set (chunk_outcomes env cfg meth node nodeId ''followed'' ''concept'' concepts followProps None).
          instanceof_Error res)"
  shows "\<exists>err. aggregate (chunk_outcomes env cfg meth node nodeId ''followed'' ''concept'' concepts followProps None) = Inl err \<and>
     addRemoveConceptsFollowed env cfg meth node nodeId concepts followProps =
     Some (Inl err,
           map Request (chunk_requests cfg meth node nodeId ''followed'' ''concept'' concepts followProps None))"
proof -
  from assms obtain err where
    "aggregate (chunk_outcomes env cfg meth node nodeId ''followed'' ''concept'' concepts followProps None) = Inl err"
    using aggregate_no_success by blast
  with assms show ?thesis by (simp add: addRemoveConceptsFollowed_eq)
qed

subsection \<open>C10: removals resolve raw, additions resolve parsed\<close>

text \<open>
  Claim C10, as the code has it. Each of the five public remove operations issues one
  \<open>DELETE\<close> request and settles as the transport does, with the raw response:
  \<^verbatim>\<open>parseJsonRes\<close> plays no part, so a response the parser would reject still
  resolves. The additions of users and groups issue one \<open>POST\<close> request and settle
  with the parsed body, or with the parser's error. The additions of followed concepts
  go through the batch engine. With a positive chunk size they issue one \<open>POST\<close>
  request per chunk of subject identifiers and settle: when the outcome of at least one
  chunk is not an error, they resolve with the list of the chunks' outcomes, each the
  parsed body of its chunk or its captured error; when the outcome of every chunk is an
  error, they reject.
\<close>

theorem remove_raw_add_parsed:
  "removeUsersFromLicence env cfg licenceUUID uuids options =
     settles_raw env (relationship_request cfg ''DELETE'' ''license'' licenceUUID ''member'' ''user'' uuids None options) \<and>
   removeUsersFromGroup env cfg groupUUID uuids options =
     settles_raw env (relationship_request cfg ''DELETE'' ''group'' groupUUID ''member'' ''user'' uuids None options) \<and>
   removeGroupsFromLicence env cfg licenceUUID uuids options =
     settles_raw env (relationship_request cfg ''DELETE'' ''license'' licenceUUID ''member'' ''group'' uuids None options) \<and>
   removeConceptsFollowedByUser env cfg userUUID uuids =
     settles_raw env (relationship_request cfg ''DELETE'' ''user'' userUUID ''followed'' ''concept'' uuids None None) \<and>
   removeConceptsFollowedByGroup env cfg groupUUID uuids =
     settles_raw env (relationship_request cfg ''DELETE'' ''group'' groupUUID ''followed'' ''concept'' uuids None None) \<and>
   settles_raw (env\<lparr>parseJsonRes := parser\<rparr>) req = settles_raw env req \<and>
   (fetch env req = Inr res \<longrightarrow> settles_raw env req = Some (Inr (Raw res), [Request req])) \<and>
   addUsersToLicence env cfg licenceUUID uuids relProps options =
     settles_parsed env (relationship_request cfg ''POST'' ''license'' licenceUUID ''member'' ''user'' uuids relProps options) \<and>
   addUsersToGroup env cfg groupUUID uuids relProps options =
     settles_parsed env (relationship_request cfg ''POST'' ''group'' groupUUID ''member'' ''user'' uuids relProps options) \<and>
   addGroupsToLicence env cfg licenceUUID uuids relProps options =
     settles_parsed env (relationship_request cfg ''POST'' ''license'' licenceUUID ''member'' ''group'' uuids relProps options) \<and>
   (fetch env req = Inr res \<longrightarrow>
      settles_parsed env req =
        Some (case parseJsonRes env res of Inl err \<Rightarrow> Inl err | Inr body \<Rightarrow> Inr (Parsed body), [Request req])) \<and>
   (0 < BATCH_USER_COUNT cfg \<and>
    (\<exists>res \<in> set (chunk_outcomes env cfg ''POST'' ''user'' subjectIds ''followed'' ''concept'' concepts relProps None).
        \<not> instanceof_Error res) \<longrightarrow>
      addConceptsFollowedByUser env cfg subjectIds concepts relProps =
        Some (Inr (Outcomes (chunk_outcomes env cfg ''POST'' ''user'' subjectIds ''followed'' ''concept'' concepts relProps None)),
              map Request (chunk_requests cfg ''POST'' ''user'' subjectIds ''followed'' ''concept'' concepts relProps None))) \<and>
   (0 < BATCH_USER_COUNT cfg \<and>
    (\<forall>res \<in> set (chunk_outcomes env cfg ''POST'' ''user'' subjectIds ''followed'' ''concept'' concepts relProps None).
        instanceof_Error res) \<longrightarrow>
      (\<exists>err. aggregate (chunk_outcomes env cfg ''POST'' ''user'' subjectIds ''followed'' ''concept'' concepts relProps None) = Inl err \<and>
         addConceptsFollowedByUser env cfg subjectIds concepts relProps =
        Some (Inl err,
              map Request (chunk_requests cfg ''POST'' ''user'' subjectIds ''followed'' ''concept'' concepts relProps None)))) \<and>
   (0 < BATCH_USER_COUNT cfg \<and>
    (\<exists>res \<in> set (chunk_outcomes env cfg ''POST'' ''group'' subjectIds ''followed'' ''concept'' concepts relProps None).
        \<not> instanceof_Error res) \<longrightarrow>
      addConceptsFollowedByGroup env cfg subjectIds concepts relProps =
        Some (Inr (Outcomes (chunk_outcomes env cfg ''POST'' ''group'' subjectIds ''followed'' ''concept'' concepts relProps None)),
              map Request (chunk_requests cfg ''POST'' ''group'' subjectIds ''followed'' ''concept'' concepts relProps None))) \<and>
   (0 < BATCH_USER_COUNT cfg \<and>
    (\<forall>res \<in> set (chunk_outcomes env cfg ''POST'' ''group'' subjectIds ''followed'' ''concept'' concepts relProps None).
        instanceof_Error res) \<longrightarrow>
      (\<exists>err. aggregate (chunk_outcomes env cfg ''POST'' ''group'' subjectIds ''followed'' ''concept'' concepts relProps None) = Inl err \<and>
         addConceptsFollowedByGroup env cfg subjectIds concepts relProps =
        Some (Inl err,
              map Request (chunk_requests cfg ''POST'' ''group'' subjectIds ''followed'' ''concept'' concepts relProps None)))) \<and>
   outcome_of env req = (case reply env req of Inr body \<Rightarrow> Resolved body | Inl err \<Rightarrow> Captured err)"
proof (intro conjI impI)
  show "removeUsersFromLicence env cfg licenceUUID uuids options =
     settles_raw env (relationship_request cfg ''DELETE'' ''license'' licenceUUID ''member'' ''user'' uuids None options)"
    by (simp add: removeUsersFromLicence_def addRemoveUsers_raw)
  show "removeUsersFromGroup env cfg groupUUID uuids options =
     settles_raw env (relationship_request cfg ''DELETE'' ''group'' groupUUID ''member'' ''user'' uuids None options)"
    by (simp add: removeUsersFromGroup_def addRemoveUsers_raw)
  show "removeGroupsFromLicence env cfg licenceUUID uuids options =
     settles_raw env (relationship_request cfg ''DELETE'' ''license'' licenceUUID ''member'' ''group'' uuids None options)"
    by (simp add: removeGroupsFromLicence_def addRemoveGroups_raw)
  show "removeConceptsFollowedByUser env cfg userUUID uuids =
     settles_raw env (relationship_request cfg ''DELETE'' ''user'' userUUID ''followed'' ''concept'' uuids None None)"
    by (simp add: removeConceptsFollowedByUser_def removeConceptsFollowedByNode_raw)
  show "removeConceptsFollowedByGroup env cfg groupUUID uuids =
     settles_raw env (relationship_request cfg ''DELETE'' ''group'' groupUUID ''followed'' ''concept'' uuids None None)"
    by (simp add: removeConceptsFollowedByGroup_def removeConceptsFollowedByNode_raw)
  show "settles_raw (env\<lparr>parseJsonRes := parser\<rparr>) req = settles_raw env req"
    by (simp add: settles_raw_def)
  show "addUsersToLicence env cfg licenceUUID uuids relProps options =
     settles_parsed env (relationship_request cfg ''POST'' ''license'' licenceUUID ''member'' ''user'' uuids relProps options)"
    by (simp add: addUsersToLicence_def addRemoveUsers_parsed)
  show "addUsersToGroup env cfg groupUUID uuids relProps options =
     settles_parsed env (relationship_request cfg ''POST'' ''group'' groupUUID ''member'' ''user'' uuids relProps options)"
    by (simp add: addUsersToGroup_def addRemoveUsers_parsed)
  show "addGroupsToLicence env cfg licenceUUID uuids relProps options =
     settles_parsed env (relationship_request cfg ''POST'' ''license'' licenceUUID ''member'' ''group'' uuids relProps options)"
    by (simp add: addGroupsToLicence_def addRemoveGroups_parsed)
  show "outcome_of env req = (case reply env req of Inr body \<Rightarrow> Resolved body | Inl err \<Rightarrow> Captured err)"
    by (simp add: outcome_of_def)
next
  assume "fetch env req = Inr res"
  then show "settles_raw env req = Some (Inr (Raw res), [Request req])"
    by (simp add: settles_raw_def)
next
  assume "fetch env req = Inr res"
  then show "settles_parsed env req =
        Some (case parseJsonRes env res of Inl err \<Rightarrow> Inl err | Inr body \<Rightarrow> Inr (Parsed body), [Request req])"
    by (simp add: settles_parsed_def)
next
  assume "0 < BATCH_USER_COUNT cfg \<and>
    (\<exists>res \<in> set (chunk_outcomes env cfg ''POST'' ''user'' subjectIds ''followed'' ''concept'' concepts relProps None).
        \<not> instanceof_Error res)"
  then show "addConceptsFollowedByUser env cfg subjectIds concepts relProps =
        Some (Inr (Outcomes (chunk_outcomes env cfg ''POST'' ''user'' subjectIds ''followed'' ''concept'' concepts relProps None)),
              map Request (chunk_requests cfg ''POST'' ''user'' subjectIds ''followed'' ''concept'' concepts relProps None))"
    unfolding addConceptsFollowedByUser_def by (rule addRemoveConceptsFollowed_resolves)
next
  assume "0 < BATCH_USER_COUNT cfg \<and>
    (\<forall>res \<in> set (chunk_outcomes env cfg ''POST'' ''user'' subjectIds ''followed'' ''concept'' concepts relProps None).
        instanceof_Error res)"
  then show "(\<exists>err. aggregate (chunk_outcomes env cfg ''POST'' ''user'' subjectIds ''followed'' ''concept'' concepts relProps None) = Inl err \<and>
         addConceptsFollowedByUser env cfg subjectIds concepts relProps =
        Some (Inl err,
              map Request (chunk_requests cfg ''POST'' ''user'' subjectIds ''followed'' ''concept'' concepts relProps None)))"
    unfolding addConceptsFollowedByUser_def by (rule addRemoveConceptsFollowed_rejects)
next
  assume "0 < BATCH_USER_COUNT cfg \<and>
    (\<exists>res \<in> set (chunk_outcomes env cfg ''POST'' ''group'' subjectIds ''followed'' ''concept'' concepts relProps None).
        \<not> instanceof_Error res)"
  then show "addConceptsFollowedByGroup env cfg subjectIds concepts relProps =
        Some (Inr (Outcomes (chunk_outcomes env cfg ''POST'' ''group'' subjectIds ''followed'' ''concept'' concepts relProps None)),
              map Request (chunk_requests cfg ''POST'' ''group'' subjectIds ''followed'' ''concept'' concepts relProps None))"
    unfolding addConceptsFollowedByGroup_def by (rule addRemoveConceptsFollowed_resolves)
next
  assume "0 < BATCH_USER_COUNT cfg \<and>
    (\<forall>res \<in> set (chunk_outcomes env cfg ''POST'' ''group'' subjectIds ''followed'' ''concept'' concepts relProps None).
        instanceof_Error res)"
  then show "(\<exists>err. aggregate (chunk_outcomes env cfg ''POST'' ''group'' subjectIds ''followed'' ''concept'' concepts relProps None) = Inl err \<and>
         addConceptsFollowedByGroup env cfg subjectIds concepts relProps =
        Some (Inl err,
              map Request (chunk_requests cfg ''POST'' ''group'' subjectIds ''followed'' ''concept'' concepts relProps None)))"
    unfolding addConceptsFollowedByGroup_def by (rule addRemoveConceptsFollowed_rejects)
qed

text \<open>
  A removal and an addition on the remote that answers 404, and additions of followed
  concepts: in two chunks of which the second fails, and in one chunk that fails.
\<close>

lemma id_chunks_mixed:
  "id_chunks demo_cfg (Many [''u1'', ''u2'', ''bad'']) = [Many [''u1'', ''u2''], Many [''bad'']]"
  by (simp add: id_chunks_def demo_cfg_def chunks_of_mixed)

lemma id_chunks_one:
  "id_chunks demo_cfg (Many [''bad'']) = [Many [''bad'']]"
  by (simp add: id_chunks_def demo_cfg_def chunks_of_one)

lemma flaky_outcomes_mixed:
  "chunk_outcomes flaky_remote demo_cfg meth node (Many [''u1'', ''u2'', ''bad'']) rl relType relIds relProp options =
     [Resolved ok_body, Captured (NotFoundError ''no such user'')]"
  by (simp add: chunk_outcomes_def chunk_requests_def id_chunks_mixed flaky_outcome)

lemma flaky_outcomes_one:
  "chunk_outcomes flaky_remote demo_cfg meth node (Many [''bad'']) rl relType relIds relProp options =
     [Captured (NotFoundError ''no such user'')]"
  by (simp add: chunk_outcomes_def chunk_requests_def id_chunks_one flaky_outcome)

theorem remove_raw_add_parsed_witness:
  "removeUsersFromLicence missing_remote demo_cfg ''L1'' (One ''u1'') None =
     Some (Inr (Raw ''404 Not Found''),
           [Request (relationship_request demo_cfg ''DELETE'' ''license'' ''L1'' ''member'' ''user''
                       (One ''u1'') None None)]) \<and>
   addUsersToLicence missing_remote demo_cfg ''L1'' (One ''u1'') None None =
     Some (Inl (NotFoundError ''404 Not Found''),
           [Request (relationship_request demo_cfg ''POST'' ''license'' ''L1'' ''member'' ''user''
                       (One ''u1'') None None)]) \<and>
   addConceptsFollowedByUser flaky_remote demo_cfg (Many [''u1'', ''u2'', ''bad'']) two_subjects None =
     Some (Inr (Outcomes [Resolved ok_body, Captured (NotFoundError ''no such user'')]),
           [Request (batch_request demo_cfg ''POST'' ''user'' ''followed'' ''concept'' two_subjects None None
                       (Many [''u1'', ''u2''])),
            Request (batch_request demo_cfg ''POST'' ''user'' ''followed'' ''concept'' two_subjects None None
                       (Many [''bad'']))]) \<and>
   addConceptsFollowedByUser flaky_remote demo_cfg (Many [''bad'']) two_subjects None =
     Some (Inl (NotFoundError ''no such user''),
           [Request (batch_request demo_cfg ''POST'' ''user'' ''followed'' ''concept'' two_subjects None None
                       (Many [''bad'']))]) \<and>
   addConceptsFollowedByGroup flaky_remote demo_cfg (Many [''u1'', ''u2'', ''bad'']) two_subjects None =
     Some (Inr (Outcomes [Resolved ok_body, Captured (NotFoundError ''no such user'')]),
           [Request (batch_request demo_cfg ''POST'' ''group'' ''followed'' ''concept'' two_subjects None None
                       (Many [''u1'', ''u2''])),
            Request (batch_request demo_cfg ''POST'' ''group'' ''followed'' ''concept'' two_subjects None None
                       (Many [''bad'']))]) \<and>
   addConceptsFollowedByGroup flaky_remote demo_cfg (Many [''bad'']) two_subjects None =
     Some (Inl (NotFoundError ''no such user''),
           [Request (batch_request demo_cfg ''POST'' ''group'' ''followed'' ''concept'' two_subjects None None
                       (Many [''bad'']))])"
proof -
  let ?del = "relationship_request demo_cfg ''DELETE'' ''license'' ''L1'' ''member'' ''user'' (One ''u1'') None None"
  let ?add = "relationship_request demo_cfg ''POST'' ''license'' ''L1'' ''member'' ''user'' (One ''u1'') None None"
  note T = remove_raw_add_parsed[where env = missing_remote and cfg = demo_cfg and licenceUUID = "''L1''"
      and uuids = "One ''u1''" and options = None and relProps = None and res = "''404 Not Found''"]
  have f1: "fetch missing_remote ?del = Inr ''404 Not Found''" by (simp add: missing_remote_def)
  have f2: "fetch missing_remote ?add = Inr ''404 Not Found''" by (simp add: missing_remote_def)
  have r1: "removeUsersFromLicence missing_remote demo_cfg ''L1'' (One ''u1'') None = settles_raw missing_remote ?del"
    by (rule T[THEN conjunct1])
  have r2: "settles_raw missing_remote ?del = Some (Inr (Raw ''404 Not Found''), [Request ?del])"
    by (rule T[where req = ?del, THEN conjunct2, THEN conjunct2, THEN conjunct2, THEN conjunct2, THEN conjunct2, THEN conjunct2, THEN conjunct1, THEN mp, OF f1])
  have a1: "addUsersToLicence missing_remote demo_cfg ''L1'' (One ''u1'') None None = settles_parsed missing_remote ?add"
    by (rule T[THEN conjunct2, THEN conjunct2, THEN conjunct2, THEN conjunct2, THEN conjunct2, THEN conjunct2, THEN conjunct2, THEN conjunct1])
  have a2: "settles_parsed missing_remote ?add =
        Some (case parseJsonRes missing_remote ''404 Not Found'' of
                Inl err \<Rightarrow> Inl err | Inr body \<Rightarrow> Inr (Parsed body), [Request ?add])"
    by (rule T[where req = ?add, THEN conjunct2, THEN conjunct2, THEN conjunct2, THEN conjunct2, THEN conjunct2, THEN conjunct2, THEN conjunct2, THEN conjunct2, THEN conjunct2, THEN conjunct2, THEN conjunct1, THEN mp, OF f2])
  have p: "parseJsonRes missing_remote ''404 Not Found'' = Inl (NotFoundError ''404 Not Found'')"
    by (simp add: missing_remote_def)
  have pos: "0 < BATCH_USER_COUNT demo_cfg" by (simp add: demo_cfg_def)
  note U = remove_raw_add_parsed[where env = flaky_remote and cfg = demo_cfg
      and subjectIds = "Many [''u1'', ''u2'', ''bad'']" and concepts = two_subjects and relProps = None]
  note V = remove_raw_add_parsed[where env = flaky_remote and cfg = demo_cfg
      and subjectIds = "Many [''bad'']" and concepts = two_subjects and relProps = None]
  have hu1: "0 < BATCH_USER_COUNT demo_cfg \<and>
      (\<exists>res \<in> set (chunk_outcomes flaky_remote demo_cfg ''POST'' ''user'' (Many [''u1'', ''u2'', ''bad'']) ''followed'' ''concept'' two_subjects None None).
          \<not> instanceof_Error res)"
    using pos by (simp add: flaky_outcomes_mixed)
  have hu2: "0 < BATCH_USER_COUNT demo_cfg \<and>
      (\<forall>res \<in> set (chunk_outcomes flaky_remote demo_cfg ''POST'' ''user'' (Many [''bad'']) ''followed'' ''concept'' two_subjects None None).
          instanceof_Error res)"
    using pos by (simp add: flaky_outcomes_one)
  have u1: "addConceptsFollowedByUser flaky_remote demo_cfg (Many [''u1'', ''u2'', ''bad'']) two_subjects None =
     Some (Inr (Outcomes [Resolved ok_body, Captured (NotFoundError ''no such user'')]),
           [Request (batch_request demo_cfg ''POST'' ''user'' ''followed'' ''concept'' two_subjects None None
                       (Many [''u1'', ''u2''])),
            Request (batch_request demo_cfg ''POST'' ''user'' ''followed'' ''concept'' two_subjects None None
                       (Many [''bad'']))])"
    using U[THEN conjunct2, THEN conjunct2, THEN conjunct2, THEN conjunct2, THEN conjunct2, THEN conjunct2, THEN conjunct2, THEN conjunct2, THEN conjunct2, THEN conjunct2, THEN conjunct2, THEN conjunct1, THEN mp, OF hu1]
    by (simp add: flaky_outcomes_mixed chunk_requests_def id_chunks_mixed)
  have u2: "addConceptsFollowedByUser flaky_remote demo_cfg (Many [''bad'']) two_subjects None =
     Some (Inl (NotFoundError ''no such user''),
           [Request (batch_request demo_cfg ''POST'' ''user'' ''followed'' ''concept'' two_subjects None None
                       (Many [''bad'']))])"
    using V[THEN conjunct2, THEN conjunct2, THEN conjunct2, THEN conjunct2, THEN conjunct2, THEN conjunct2, THEN conjunct2, THEN conjunct2, THEN conjunct2, THEN conjunct2, THEN conjunct2, THEN conjunct2, THEN conjunct1, THEN mp, OF hu2]
    by (simp add: flaky_outcomes_one chunk_requests_def id_chunks_one aggregate_single_failure)
  have hg1: "0 < BATCH_USER_COUNT demo_cfg \<and>
      (\<exists>res \<in> set (chunk_outcomes flaky_remote demo_cfg ''POST'' ''group'' (Many [''u1'', ''u2'', ''bad'']) ''followed'' ''concept'' two_subjects None None).
          \<not> instanceof_Error res)"
    using pos by (simp add: flaky_outcomes_mixed)
  have hg2: "0 < BATCH_USER_COUNT demo_cfg \<and>
      (\<forall>res \<in> set (chunk_outcomes flaky_remote demo_cfg ''POST'' ''group'' (Many [''bad'']) ''followed'' ''concept'' two_subjects None None).
          instanceof_Error res)"
    using pos by (simp add: flaky_outcomes_one)
  have g1: "addConceptsFollowedByGroup flaky_remote demo_cfg (Many [''u1'', ''u2'', ''bad'']) two_subjects None =
     Some (Inr (Outcomes [Resolved ok_body, Captured (NotFoundError ''no such user'')]),
           [Request (batch_request demo_cfg ''POST'' ''group'' ''followed'' ''concept'' two_subjects None None
                       (Many [''u1'', ''u2''])),
            Request (batch_request demo_cfg ''POST'' ''group'' ''followed'' ''concept'' two_subjects None None
                       (Many [''bad'']))])"
    using U[THEN conjunct2, THEN conjunct2, THEN conjunct2, THEN conjunct2, THEN conjunct2, THEN conjunct2, THEN conjunct2, THEN conjunct2, THEN conjunct2, THEN conjunct2, THEN conjunct2, THEN conjunct2, THEN conjunct2, THEN conjunct1, THEN mp, OF hg1]
    by (simp add: flaky_outcomes_mixed chunk_requests_def id_chunks_mixed)
  have g2: "addConceptsFollowedByGroup flaky_remote demo_cfg (Many [''bad'']) two_subjects None =
     Some (Inl (NotFoundError ''no such user''),
           [Request (batch_request demo_cfg ''POST'' ''group'' ''followed'' ''concept'' two_subjects None None
                       (Many [''bad'']))])"
    using V[THEN conjunct2, THEN conjunct2, THEN conjunct2, THEN conjunct2, THEN conjunct2, THEN conjunct2, THEN conjunct2, THEN conjunct2, THEN conjunct2, THEN conjunct2, THEN conjunct2, THEN conjunct2, THEN conjunct2, THEN conjunct2, THEN conjunct1, THEN mp, OF hg2]
    by (simp add: flaky_outcomes_one chunk_requests_def id_chunks_one aggregate_single_failure)
  from r1 r2 a1 a2 u1 u2 g1 g2 show ?thesis by (simp add: p)
qed

lemma flaky_add:
  "addRemoveConceptsFollowed flaky_remote demo_cfg ''POST'' node (Many [''u1'', ''u2'', ''bad''])
      two_subjects None =
   Some (Inr (Outcomes [Resolved ok_body, Captured (NotFoundError ''no such user'')]),
         [Request (batch_request demo_cfg ''POST'' node ''followed'' ''concept'' two_subjects None None
                     (Many [''u1'', ''u2''])),
          Request (batch_request demo_cfg ''POST'' node ''followed'' ''concept'' two_subjects None None
                     (Many [''bad'']))])"
  by (simp add: addRemoveConceptsFollowed_def flaky_run then_p_def resolve_def)

text \<open>
  The claim has every add operation resolve with the parsed body. The addition of
  followed concepts resolves with a list, here of one parsed body and one error.
\<close>

theorem add_concepts_resolves_with_list_counterexample:
  "addConceptsFollowedByUser flaky_remote demo_cfg (Many [''u1'', ''u2'', ''bad'']) two_subjects None =
     Some (Inr (Outcomes [Resolved ok_body, Captured (NotFoundError ''no such user'')]),
           [Request (batch_request demo_cfg ''POST'' ''user'' ''followed'' ''concept'' two_subjects None None
                       (Many [''u1'', ''u2''])),
            Request (batch_request demo_cfg ''POST'' ''user'' ''followed'' ''concept'' two_subjects None None
                       (Many [''bad'']))]) \<and>
   addConceptsFollowedByUser flaky_remote demo_cfg (Many [''u1'', ''u2'', ''bad'']) two_subjects None \<noteq>
     Some (Inr (Parsed ok_body),
           [Request (batch_request demo_cfg ''POST'' ''user'' ''followed'' ''concept'' two_subjects None None
                       (Many [''u1'', ''u2''])),
            Request (batch_request demo_cfg ''POST'' ''user'' ''followed'' ''concept'' two_subjects None None
                       (Many [''bad'']))])"
  by (simp add: addConceptsFollowedByUser_def flaky_add)

end
